(* ===== verification/Sass_Prelude.thy ===== *)
theory Sass_Prelude
  imports Complex_Main "HOL-Library.Sublist"
begin

text \<open>
  Shared vocabulary of the development: the error values that stand for the
  exceptions of \<^verbatim>\<open>src/src/plugin.ts\<close> and of the libraries it calls, the
  result type, the JavaScript string predicates the plugin uses, the
  characters that cannot be written inside an Isabelle string literal, the
  two-level map that underlies the cache, and the theorem collections the
  component theories feed.

  A JavaScript string is a sequence of UTF-16 code units; the model uses
  \<^typ>\<open>string\<close> (a list of bytes, read as UTF-8).  Every character the
  plugin inspects (dollar, backtick, backslash, dot, slash, tilde) is ASCII,
  and no byte of a multi-byte UTF-8 sequence is ASCII, so the two readings
  agree on everything the plugin does.
\<close>

section \<open>Theorem collections\<close>

named_theorems sass_defs
  \<open>unfolding equations of the non-recursive definitions of the model\<close>
named_theorems result_simps
  \<open>rewrite rules for the result combinators\<close>

section \<open>Errors as values\<close>

text \<open>
  The four kinds of failure the plugin can surface.  None of them is created by
  the plugin itself except \<open>ConfigurationError\<close>: the others are thrown by
  \<^verbatim>\<open>require.resolve\<close>, by the Sass compiler and by \<^verbatim>\<open>fs\<close>, and pass
  through the plugin unchanged.
\<close>

datatype error =
    ResolutionError string
  | CompileError string
  | FileSystemError string
  | ConfigurationError string

type_synonym 'a result = "error + 'a"

abbreviation Ok :: "'a \<Rightarrow> 'a result" where
  "Ok \<equiv> Inr"

abbreviation Throw :: "error \<Rightarrow> 'a result" where
  "Throw \<equiv> Inl"

definition is_ok :: "'a result \<Rightarrow> bool" where
  "is_ok r = (case r of Inl _ \<Rightarrow> False | Inr _ \<Rightarrow> True)"

text \<open>Sequencing of a call that may throw with its continuation.\<close>

definition and_then :: "'a result \<Rightarrow> ('a \<Rightarrow> 'b result) \<Rightarrow> 'b result" where
  "and_then r f = (case r of Inl e \<Rightarrow> Inl e | Inr x \<Rightarrow> f x)"

lemma is_ok_simps [simp, result_simps]:
  "is_ok (Inr x)" "\<not> is_ok (Inl e)"
  by (simp_all add: is_ok_def)

lemma is_ok_iff: "is_ok r \<longleftrightarrow> (\<exists>x. r = Inr x)"
  by (cases r) simp_all

lemma not_is_ok_iff: "\<not> is_ok r \<longleftrightarrow> (\<exists>e. r = Inl e)"
  by (cases r) simp_all

lemma and_then_simps [simp, result_simps]:
  "and_then (Inl e) f = Inl e"
  "and_then (Inr x) f = f x"
  by (simp_all add: and_then_def)

lemma and_then_eq_Inr_iff [result_simps]:
  "and_then r f = Inr y \<longleftrightarrow> (\<exists>x. r = Inr x \<and> f x = Inr y)"
  by (cases r) simp_all

lemma and_then_eq_Inl_iff [result_simps]:
  "and_then r f = Inl e \<longleftrightarrow> r = Inl e \<or> (\<exists>x. r = Inr x \<and> f x = Inl e)"
  by (cases r) simp_all

lemma and_then_assoc:
  "and_then (and_then r f) g = and_then r (\<lambda>x. and_then (f x) g)"
  by (cases r) simp_all

section \<open>Characters\<close>

abbreviation LF :: char where "LF \<equiv> CHR 0x0A"
abbreviation CR :: char where "CR \<equiv> CHR 0x0D"
abbreviation DQUOTE :: char where "DQUOTE \<equiv> CHR 0x22"
abbreviation DOLLAR :: char where "DOLLAR \<equiv> CHR 0x24"
abbreviation BACKSLASH :: char where "BACKSLASH \<equiv> CHR 0x5C"
abbreviation BACKTICK :: char where "BACKTICK \<equiv> CHR 0x60"

section \<open>JavaScript string predicates\<close>

text \<open>
  \<^verbatim>\<open>String.prototype.startsWith\<close> and \<^verbatim>\<open>endsWith\<close>, written so that the
  simplifier evaluates them on literals, and the truthiness of a string (only
  the empty string is falsy).
\<close>

definition startsWith :: "string \<Rightarrow> string \<Rightarrow> bool" where
  "startsWith s p = (take (length p) s = p)"

definition endsWith :: "string \<Rightarrow> string \<Rightarrow> bool" where
  "endsWith s p = (length p \<le> length s \<and> drop (length s - length p) s = p)"

definition truthy :: "string \<Rightarrow> bool" where
  "truthy s = (s \<noteq> [])"

lemma startsWith_iff_prefix: "startsWith s p \<longleftrightarrow> prefix p s"
  unfolding startsWith_def prefix_def
  by (metis append_eq_conv_conj append_take_drop_id)

lemma endsWith_iff_suffix: "endsWith s p \<longleftrightarrow> suffix p s"
proof
  assume "endsWith s p"
  then have "s = take (length s - length p) s @ p"
    by (metis append_take_drop_id endsWith_def)
  then show "suffix p s"
    by (rule suffixI)
next
  assume "suffix p s"
  then obtain u where "s = u @ p"
    by (auto simp: suffix_def)
  then show "endsWith s p"
    by (simp add: endsWith_def)
qed

lemma endsWith_append [simp]: "endsWith (u @ p) p"
  by (simp add: endsWith_def)

lemma startsWith_append [simp]: "startsWith (p @ u) p"
  by (simp add: startsWith_def)

lemma startsWith_Nil [simp]: "startsWith s []"
  by (simp add: startsWith_def)

lemma startsWith_Cons: "startsWith s (c # v) \<longleftrightarrow> (\<exists>t. s = c # t \<and> startsWith t v)"
  by (cases s) (auto simp: startsWith_def)

lemma endsWith_length: "endsWith s p \<Longrightarrow> length p \<le> length s"
  by (simp add: endsWith_def)

lemma endsWith_nonempty: "endsWith s p \<Longrightarrow> p \<noteq> [] \<Longrightarrow> s \<noteq> []"
  by (auto simp: endsWith_def)

section \<open>Two-level maps\<close>

text \<open>
  A JavaScript \<^verbatim>\<open>Map<K1, Map<K2, V>>\<close> as a map of maps.  \<open>lookup2\<close> reads
  through both levels; \<open>update2\<close> writes an inner binding and creates the
  inner map if the outer key is new; \<open>touch_group\<close> creates an empty inner map
  for an outer key that has none and changes nothing else.
\<close>

type_synonym ('a, 'b, 'c) map2 = "'a \<rightharpoonup> ('b \<rightharpoonup> 'c)"

definition group_of :: "('a, 'b, 'c) map2 \<Rightarrow> 'a \<Rightarrow> ('b \<rightharpoonup> 'c)" where
  "group_of m a = (case m a of None \<Rightarrow> Map.empty | Some g \<Rightarrow> g)"

definition lookup2 :: "('a, 'b, 'c) map2 \<Rightarrow> 'a \<Rightarrow> 'b \<Rightarrow> 'c option" where
  "lookup2 m a b = group_of m a b"

definition touch_group :: "('a, 'b, 'c) map2 \<Rightarrow> 'a \<Rightarrow> ('a, 'b, 'c) map2" where
  "touch_group m a = (case m a of None \<Rightarrow> m(a \<mapsto> Map.empty) | Some _ \<Rightarrow> m)"

definition update2 :: "('a, 'b, 'c) map2 \<Rightarrow> 'a \<Rightarrow> 'b \<Rightarrow> 'c \<Rightarrow> ('a, 'b, 'c) map2" where
  "update2 m a b v = m(a \<mapsto> (group_of m a)(b \<mapsto> v))"

lemma group_of_simps [simp]:
  "m a = None \<Longrightarrow> group_of m a = Map.empty"
  "m a = Some g \<Longrightarrow> group_of m a = g"
  by (simp_all add: group_of_def)

lemma group_of_empty [simp]: "group_of Map.empty a = Map.empty"
  by (simp add: group_of_def)

lemma group_of_touch_group [simp]: "group_of (touch_group m a) a' = group_of m a'"
  by (auto simp: group_of_def touch_group_def split: option.splits)

lemma lookup2_empty [simp]: "lookup2 Map.empty a b = None"
  by (simp add: lookup2_def)

lemma lookup2_touch_group [simp]: "lookup2 (touch_group m a) a' b = lookup2 m a' b"
  by (simp add: lookup2_def)

lemma lookup2_update2:
  "lookup2 (update2 m a b v) a' b' = (if a' = a \<and> b' = b then Some v else lookup2 m a' b')"
  by (auto simp: lookup2_def update2_def group_of_def)

lemma lookup2_update2_same [simp]: "lookup2 (update2 m a b v) a b = Some v"
  by (simp add: lookup2_update2)

lemma lookup2_update2_other [simp]:
  "a' \<noteq> a \<or> b' \<noteq> b \<Longrightarrow> lookup2 (update2 m a b v) a' b' = lookup2 m a' b'"
  by (auto simp: lookup2_update2)

lemma touch_group_idem [simp]: "touch_group (touch_group m a) a = touch_group m a"
  by (auto simp: touch_group_def split: option.splits)

lemma touch_group_defined [simp]: "touch_group m a a \<noteq> None"
  by (auto simp: touch_group_def split: option.splits)

lemma touch_group_present: "m a = Some g \<Longrightarrow> touch_group m a = m"
  by (simp add: touch_group_def)

lemma touch_group_other [simp]: "a' \<noteq> a \<Longrightarrow> touch_group m a a' = m a'"
  by (auto simp: touch_group_def split: option.splits)

lemma dom_touch_group [simp]: "dom (touch_group m a) = insert a (dom m)"
  by (auto simp: touch_group_def split: option.splits if_splits)

lemma dom_update2 [simp]: "dom (update2 m a b v) = insert a (dom m)"
  by (auto simp: update2_def)

lemma update2_touch_group [simp]: "update2 (touch_group m a) a b v = update2 m a b v"
  by (auto simp: update2_def touch_group_def group_of_def split: option.splits)

lemma lookup2_Some_group: "lookup2 m a b = Some v \<Longrightarrow> \<exists>g. m a = Some g \<and> g b = Some v"
  by (auto simp: lookup2_def group_of_def split: option.splits)

lemma lookup2_Some_touch: "lookup2 m a b = Some v \<Longrightarrow> touch_group m a = m"
  by (auto dest!: lookup2_Some_group simp: touch_group_present)

end
