(* ===== verification/Esbuild_Types.thy ===== *)
theory Esbuild_Types
  imports Sass_Prelude
begin

text \<open>
  The values exchanged with the bundler, as \<^verbatim>\<open>src/src/plugin.ts\<close> uses them:
  the arguments of a resolve request (esbuild's \<^verbatim>\<open>OnResolveArgs\<close>; only the
  fields the plugin reads or hands on), the answer of the resolve hook, the
  arguments of a load request (\<^verbatim>\<open>OnLoadArgs\<close>; its \<^verbatim>\<open>pluginData\<close> carries the
  resolve request the hook stored there), and the result of a load
  (\<^verbatim>\<open>OnLoadResult\<close>) with the two loaders the plugin selects.
\<close>

section \<open>Resolve requests\<close>

record on_resolve_args =
  path :: string
  importer :: string
  namespace :: string
  resolveDir :: string

record on_resolve_result =
  res_path :: string
  res_namespace :: string
  res_pluginData :: on_resolve_args

record on_load_args =
  load_path :: string
  load_namespace :: string
  pluginData :: on_resolve_args

section \<open>Load results\<close>

datatype loader = Css | Js

record load_result =
  contents :: string
  loader :: loader
  out_resolveDir :: "string option"

text \<open>The key under which the cache files a request: its resolve directory and its specifier.\<close>

definition key_of :: "on_resolve_args \<Rightarrow> string \<times> string" where
  "key_of a = (resolveDir a, path a)"

lemma key_of_simps [simp]:
  "fst (key_of a) = resolveDir a"
  "snd (key_of a) = path a"
  by (simp_all add: key_of_def)

lemma key_of_eq_iff: "key_of a = key_of b \<longleftrightarrow> resolveDir a = resolveDir b \<and> path a = path b"
  by (auto simp: key_of_def)

section \<open>Two requests for closed instances\<close>

text \<open>
  \<^verbatim>\<open>import "./a.scss"\<close> and \<^verbatim>\<open>import "./b.scss"\<close> in
  \<^verbatim>\<open>/p/src/index.ts\<close>, as esbuild presents them to the resolve hook.
\<close>

definition demo_args :: on_resolve_args where
  "demo_args =
    \<lparr>path = ''./a.scss'', importer = ''/p/src/index.ts'', namespace = ''file'',
     resolveDir = ''/p/src''\<rparr>"

definition other_args :: on_resolve_args where
  "other_args = demo_args\<lparr>path := ''./b.scss''\<rparr>"

end
