(* ===== verification/Cache.thy ===== *)
theory Cache
  imports Esbuild_Types
begin

text \<open>
  The load handler of \<^verbatim>\<open>src/src/plugin.ts\<close> (the two definitions of
  \<^verbatim>\<open>cached\<close> in \<^verbatim>\<open>setup\<close>, lines 116 to 150) and the cache it keeps.

  The handler is a closure over the cache, over \<^verbatim>\<open>typeOf\<close> and over
  \<^verbatim>\<open>fs.statSync\<close>, and takes \<^verbatim>\<open>resolve\<close> and \<^verbatim>\<open>transform\<close> as arguments.  The
  model collects these four collaborators in a record \<open>load_env\<close>; each of them
  that can throw returns a \<^typ>\<open>'a result\<close>.  The cache is passed in and
  returned: a call yields the value handed to the bundler (or the exception)
  and the cache as the call leaves it, also when the call throws.

  The theory proves what every branch of the handler returns and stores, that
  a failing load changes no entry, that a load touches no key but its own, that
  the file name, the type and the modification time of an entry never change,
  and the invariant that makes the cache sound: under the stated assumptions on
  the environment, an entry that passes the freshness check holds what
  \<^verbatim>\<open>transform\<close> would return now.
\<close>

section \<open>State\<close>

record cached_result =
  filename :: string
  ctype :: string
  mtimeMs :: real
  result :: load_result

type_synonym cache = "(string, string, cached_result) map2"

record load_env =
  env_resolve :: "on_resolve_args \<Rightarrow> string result"
  env_typeOf :: "on_resolve_args \<Rightarrow> string"
  env_transform :: "string \<Rightarrow> string \<Rightarrow> load_result result"
  env_statSync :: "string \<Rightarrow> real result"

definition entry_of :: "cache \<Rightarrow> on_resolve_args \<Rightarrow> cached_result option" where
  "entry_of c a = lookup2 c (resolveDir a) (path a)"

section \<open>The handlers\<close>

text \<open>
  With a cache (lines 122 to 145).  The group of the resolve directory is
  created before anything can throw.  On a hit the entry's fields are read
  first, so that the value returned after a recomputation is the one the entry
  held before it (line 130 against lines 135 and 136); the recomputation
  replaces \<open>result\<close> and nothing else.
\<close>

definition cached :: "load_env \<Rightarrow> on_resolve_args \<Rightarrow> cache \<Rightarrow> load_result result \<times> cache" where
  "cached env args c =
    (let c1 = touch_group c (resolveDir args);
         group = group_of c1 (resolveDir args)
     in case group (path args) of
          Some e \<Rightarrow>
            (case env_statSync env (filename e) of
               Inl err \<Rightarrow> (Inl err, c1)
             | Inr now \<Rightarrow>
                 if now \<le> mtimeMs e then (Inr (result e), c1)
                 else
                   (case env_transform env (filename e) (ctype e) of
                      Inl err \<Rightarrow> (Inl err, c1)
                    | Inr r \<Rightarrow>
                        (Inr (result e),
                         update2 c1 (resolveDir args) (path args) (e\<lparr>result := r\<rparr>))))
        | None \<Rightarrow>
            (case env_resolve env args of
               Inl err \<Rightarrow> (Inl err, c1)
             | Inr file \<Rightarrow>
                 (case env_transform env file (env_typeOf env args) of
                    Inl err \<Rightarrow> (Inl err, c1)
                  | Inr r \<Rightarrow>
                      (case env_statSync env file of
                         Inl err \<Rightarrow> (Inl err, c1)
                       | Inr m \<Rightarrow>
                           (Inr r,
                            update2 c1 (resolveDir args) (path args)
                              \<lparr>filename = file, ctype = env_typeOf env args,
                               mtimeMs = m, result = r\<rparr>)))))"

text \<open>Without a cache (lines 147 to 149): resolve, classify, transform, in this order.\<close>

definition uncached :: "load_env \<Rightarrow> on_resolve_args \<Rightarrow> load_result result" where
  "uncached env args =
    (case env_resolve env args of
       Inl err \<Rightarrow> Inl err
     | Inr file \<Rightarrow> env_transform env file (env_typeOf env args))"

text \<open>
  The handler \<^verbatim>\<open>setup\<close> installs (lines 121 and 146): the cache is \<^verbatim>\<open>null\<close>
  when caching is off, and then every call goes to the second definition.
\<close>

definition load_with :: "load_env \<Rightarrow> on_resolve_args \<Rightarrow> cache option \<Rightarrow> load_result result \<times> cache option" where
  "load_with env args co =
    (case co of
       None \<Rightarrow> (uncached env args, None)
     | Some c \<Rightarrow> (case cached env args c of (r, c') \<Rightarrow> (r, Some c')))"

text \<open>A sequence of loads, each in the environment of its moment; the answers in order.\<close>

fun run_loads :: "(load_env \<times> on_resolve_args) list \<Rightarrow> cache \<Rightarrow> load_result result list \<times> cache" where
  "run_loads [] c = ([], c)"
| "run_loads ((env, args) # rest) c =
    (case cached env args c of
       (r, c') \<Rightarrow> (case run_loads rest c' of (rs, c'') \<Rightarrow> (r # rs, c'')))"

section \<open>The state of an entry before a load\<close>

datatype status = Absent | Unreadable error | Fresh cached_result | Stale cached_result

definition status_of :: "load_env \<Rightarrow> on_resolve_args \<Rightarrow> cache \<Rightarrow> status" where
  "status_of env args c =
    (case entry_of c args of
       None \<Rightarrow> Absent
     | Some e \<Rightarrow>
         (case env_statSync env (filename e) of
            Inl err \<Rightarrow> Unreadable err
          | Inr now \<Rightarrow> if now \<le> mtimeMs e then Fresh e else Stale e))"

definition store :: "cache \<Rightarrow> on_resolve_args \<Rightarrow> cached_result \<Rightarrow> cache" where
  "store c a e = update2 c (resolveDir a) (path a) e"

definition opened :: "cache \<Rightarrow> on_resolve_args \<Rightarrow> cache" where
  "opened c a = touch_group c (resolveDir a)"

section \<open>Reading and writing entries\<close>

lemma entry_of_opened [simp]: "entry_of (opened c a) b = entry_of c b"
  by (simp add: entry_of_def opened_def)

lemma entry_of_store:
  "entry_of (store c a e) b = (if key_of b = key_of a then Some e else entry_of c b)"
  by (auto simp: entry_of_def store_def lookup2_update2 key_of_def)

lemma entry_of_store_same [simp]: "entry_of (store c a e) a = Some e"
  by (simp add: entry_of_store)

lemma entry_of_store_other [simp]:
  "key_of b \<noteq> key_of a \<Longrightarrow> entry_of (store c a e) b = entry_of c b"
  by (simp add: entry_of_store)

lemma store_opened [simp]: "store (opened c a) a e = store c a e"
  by (simp add: store_def opened_def)

lemma store_store [simp]: "store (store c a e) a e' = store c a e'"
  by (simp add: store_def update2_def group_of_def)

lemma opened_present: "entry_of c a = Some e \<Longrightarrow> opened c a = c"
  by (simp add: entry_of_def opened_def lookup2_Some_touch)

lemma entry_of_empty [simp]: "entry_of Map.empty a = None"
  by (simp add: entry_of_def)

lemma entry_of_key_cong: "key_of a = key_of b \<Longrightarrow> entry_of c a = entry_of c b"
  by (simp add: entry_of_def key_of_def)

section \<open>The handler, branch by branch\<close>

text \<open>
  The definition again, as one equation over the status of the entry.  Every
  later proof goes through this equation or through the branch lemmas below.
\<close>

text \<open>The handler consults its environment at the request and at the files of entries only.\<close>

lemma cached_env_cong:
  assumes "env_resolve env args = env_resolve env' args"
    and "env_typeOf env args = env_typeOf env' args"
    and "env_transform env = env_transform env'"
    and "env_statSync env = env_statSync env'"
  shows "cached env args c = cached env' args c"
  using assms by (simp add: cached_def Let_def split: option.split sum.split)

lemma uncached_env_cong:
  assumes "env_resolve env args = env_resolve env' args"
    and "env_typeOf env args = env_typeOf env' args"
    and "env_transform env = env_transform env'"
  shows "uncached env args = uncached env' args"
  using assms by (simp add: uncached_def split: sum.split)

lemma cached_unfold:
  "cached env args c =
    (case status_of env args c of
       Absent \<Rightarrow>
         (case env_resolve env args of
            Inl err \<Rightarrow> (Inl err, opened c args)
          | Inr file \<Rightarrow>
              (case env_transform env file (env_typeOf env args) of
                 Inl err \<Rightarrow> (Inl err, opened c args)
               | Inr r \<Rightarrow>
                   (case env_statSync env file of
                      Inl err \<Rightarrow> (Inl err, opened c args)
                    | Inr m \<Rightarrow>
                        (Inr r, store c args
                           \<lparr>filename = file, ctype = env_typeOf env args,
                            mtimeMs = m, result = r\<rparr>))))
     | Unreadable err \<Rightarrow> (Inl err, c)
     | Fresh e \<Rightarrow> (Inr (result e), c)
     | Stale e \<Rightarrow>
         (case env_transform env (filename e) (ctype e) of
            Inl err \<Rightarrow> (Inl err, c)
          | Inr r \<Rightarrow> (Inr (result e), store c args (e\<lparr>result := r\<rparr>))))"
proof (cases "entry_of c args")
  case None
  then have "group_of (touch_group c (resolveDir args)) (resolveDir args) (path args) = None"
    by (simp add: entry_of_def lookup2_def)
  with None show ?thesis
    by (simp add: cached_def status_of_def opened_def store_def Let_def
        split: sum.splits)
next
  case (Some e)
  then have g: "group_of (touch_group c (resolveDir args)) (resolveDir args) (path args) = Some e"
    by (simp add: entry_of_def lookup2_def)
  from Some have t: "touch_group c (resolveDir args) = c"
    by (simp add: entry_of_def lookup2_Some_touch)
  from Some g show ?thesis
    by (simp add: cached_def status_of_def store_def Let_def t split: sum.splits)
qed

lemma status_of_Absent_iff: "status_of env args c = Absent \<longleftrightarrow> entry_of c args = None"
  by (simp add: status_of_def split: option.splits sum.splits)

lemma status_of_Fresh_iff:
  "status_of env args c = Fresh e \<longleftrightarrow>
    entry_of c args = Some e \<and> (\<exists>now. env_statSync env (filename e) = Inr now \<and> now \<le> mtimeMs e)"
  by (auto simp: status_of_def split: option.splits sum.splits)

lemma status_of_Stale_iff:
  "status_of env args c = Stale e \<longleftrightarrow>
    entry_of c args = Some e \<and> (\<exists>now. env_statSync env (filename e) = Inr now \<and> mtimeMs e < now)"
  by (auto simp: status_of_def split: option.splits sum.splits)

lemma status_of_Unreadable_iff:
  "status_of env args c = Unreadable err \<longleftrightarrow>
    (\<exists>e. entry_of c args = Some e \<and> env_statSync env (filename e) = Inl err)"
  by (auto simp: status_of_def split: option.splits sum.splits)

lemmas status_of_iffs =
  status_of_Absent_iff status_of_Fresh_iff status_of_Stale_iff status_of_Unreadable_iff

text \<open>
  The six ways a call can end, as a case rule: what it returns, what it stores,
  and what the collaborators answered on the way.
\<close>

lemma cached_cases [case_names miss_ok miss_err unreadable fresh stale_ok stale_err]:
  obtains
    (miss_ok) f r m where
      "entry_of c args = None" "env_resolve env args = Inr f"
      "env_transform env f (env_typeOf env args) = Inr r" "env_statSync env f = Inr m"
      "cached env args c =
        (Inr r, store c args \<lparr>filename = f, ctype = env_typeOf env args, mtimeMs = m, result = r\<rparr>)"
  | (miss_err) err where
      "entry_of c args = None" "cached env args c = (Inl err, opened c args)"
      "env_resolve env args = Inl err \<or>
       (\<exists>f. env_resolve env args = Inr f \<and>
          (env_transform env f (env_typeOf env args) = Inl err \<or>
           (\<exists>r. env_transform env f (env_typeOf env args) = Inr r \<and> env_statSync env f = Inl err)))"
  | (unreadable) e err where
      "entry_of c args = Some e" "env_statSync env (filename e) = Inl err"
      "cached env args c = (Inl err, c)"
  | (fresh) e now where
      "entry_of c args = Some e" "env_statSync env (filename e) = Inr now" "now \<le> mtimeMs e"
      "cached env args c = (Inr (result e), c)"
  | (stale_ok) e now r where
      "entry_of c args = Some e" "env_statSync env (filename e) = Inr now" "mtimeMs e < now"
      "env_transform env (filename e) (ctype e) = Inr r"
      "cached env args c = (Inr (result e), store c args (e\<lparr>result := r\<rparr>))"
  | (stale_err) e now err where
      "entry_of c args = Some e" "env_statSync env (filename e) = Inr now" "mtimeMs e < now"
      "env_transform env (filename e) (ctype e) = Inl err"
      "cached env args c = (Inl err, c)"
proof (cases "status_of env args c")
  case Absent
  then have none: "entry_of c args = None"
    by (simp add: status_of_iffs)
  show ?thesis
  proof (cases "env_resolve env args")
    case (Inl err)
    with Absent none show ?thesis
      by (intro miss_err [of err]) (simp_all add: cached_unfold)
  next
    case f: (Inr f)
    show ?thesis
    proof (cases "env_transform env f (env_typeOf env args)")
      case (Inl err)
      with Absent none f show ?thesis
        by (intro miss_err [of err]) (simp_all add: cached_unfold)
    next
      case r: (Inr r)
      show ?thesis
      proof (cases "env_statSync env f")
        case (Inl err)
        with Absent none f r show ?thesis
          by (intro miss_err [of err]) (simp_all add: cached_unfold)
      next
        case (Inr m)
        with Absent none f r show ?thesis
          by (intro miss_ok [of f r m]) (simp_all add: cached_unfold)
      qed
    qed
  qed
next
  case (Unreadable err)
  then obtain e where "entry_of c args = Some e" "env_statSync env (filename e) = Inl err"
    by (auto simp: status_of_iffs)
  with Unreadable show ?thesis
    by (intro unreadable [of e err]) (simp_all add: cached_unfold)
next
  case (Fresh e)
  then obtain now where "entry_of c args = Some e"
    "env_statSync env (filename e) = Inr now" "now \<le> mtimeMs e"
    by (auto simp: status_of_iffs)
  with Fresh show ?thesis
    by (intro fresh [of e now]) (simp_all add: cached_unfold)
next
  case (Stale e)
  then obtain now where e: "entry_of c args = Some e"
    and now: "env_statSync env (filename e) = Inr now" "mtimeMs e < now"
    by (auto simp: status_of_iffs)
  show ?thesis
  proof (cases "env_transform env (filename e) (ctype e)")
    case (Inl err)
    with Stale e now show ?thesis
      by (intro stale_err [of e now err]) (simp_all add: cached_unfold)
  next
    case (Inr r)
    with Stale e now show ?thesis
      by (intro stale_ok [of e now r]) (simp_all add: cached_unfold)
  qed
qed

section \<open>An example environment\<close>

text \<open>
  A small environment for the closed instances below: every specifier resolves
  below its resolve directory, every request is classified \<open>css\<close>, every
  file has the modification time \<open>now\<close> and transforms to the text \<open>css\<close>.
\<close>

definition css_result :: "string \<Rightarrow> load_result" where
  "css_result s = \<lparr>contents = s, loader = Css, out_resolveDir = None\<rparr>"

definition demo_env :: "real \<Rightarrow> string \<Rightarrow> load_env" where
  "demo_env now css =
    \<lparr>env_resolve = (\<lambda>a. Inr (resolveDir a @ ''/'' @ path a)),
     env_typeOf = (\<lambda>_. ''css''),
     env_transform = (\<lambda>f t. Inr (css_result css)),
     env_statSync = (\<lambda>f. Inr now)\<rparr>"

definition demo_entry :: "real \<Rightarrow> string \<Rightarrow> cached_result" where
  "demo_entry m css =
    \<lparr>filename = ''/p/src/./a.scss'', ctype = ''css'', mtimeMs = m, result = css_result css\<rparr>"

lemmas demo_defs = css_result_def demo_args_def demo_env_def demo_entry_def

section \<open>What a load returns and what it stores\<close>

text \<open>
  C2: On a miss (no entry under the request's resolve directory and specifier)
  where resolution, the transform and the stat all succeed, the handler returns
  the transformed result and stores one entry under that key: the resolved file
  name, the type the classifier gave, the modification time read after the
  transform, and the result.
\<close>

theorem cached_miss:
  assumes "entry_of c args = None"
    and "env_resolve env args = Inr f"
    and "env_transform env f (env_typeOf env args) = Inr r"
    and "env_statSync env f = Inr m"
  shows "cached env args c =
    (Inr r, store c args \<lparr>filename = f, ctype = env_typeOf env args, mtimeMs = m, result = r\<rparr>)"
proof (cases rule: cached_cases [where c = c and args = args and env = env])
  case (miss_ok f' r' m')
  with assms show ?thesis by simp
qed (use assms in auto)

theorem cached_miss_witness:
  "cached (demo_env 1 ''a{}'') demo_args Map.empty =
    (Inr (css_result ''a{}''), store Map.empty demo_args (demo_entry 1 ''a{}''))"
  using cached_miss [of Map.empty demo_args "demo_env 1 ''a{}''" "''/p/src/./a.scss''"
      "css_result ''a{}''" 1]
  by (simp add: demo_defs)

text \<open>
  C3: On a hit whose file is not newer than the entry (the stat of the entry's
  file name gives a time at most the stored one), the handler returns the stored
  result and leaves the cache exactly as it was.  Nothing is assumed of the
  resolver, the classifier or the transform: they are not consulted.
\<close>

theorem cached_fresh_hit:
  assumes "entry_of c args = Some e"
    and "env_statSync env (filename e) = Inr now"
    and "now \<le> mtimeMs e"
  shows "cached env args c = (Inr (result e), c)"
proof (cases rule: cached_cases [where c = c and args = args and env = env])
  case (fresh e' now')
  with assms show ?thesis by simp
qed (use assms in auto)

theorem cached_fresh_hit_witness:
  "cached (demo_env 1 ''b{}'') demo_args (store Map.empty demo_args (demo_entry 1 ''a{}'')) =
    (Inr (css_result ''a{}''), store Map.empty demo_args (demo_entry 1 ''a{}''))"
  using cached_fresh_hit [of "store Map.empty demo_args (demo_entry 1 ''a{}'')" demo_args
      "demo_entry 1 ''a{}''" "demo_env 1 ''b{}''" 1]
  by (simp add: demo_defs)

text \<open>
  C1: On a hit whose file is newer than the entry, with a transform that
  succeeds, the handler stores the new result in the entry but returns the
  result the entry held before.  File name, type and modification time of the
  entry stay as they were.
\<close>

theorem cached_stale_hit:
  assumes "entry_of c args = Some e"
    and "env_statSync env (filename e) = Inr now"
    and "mtimeMs e < now"
    and "env_transform env (filename e) (ctype e) = Inr r"
  shows "cached env args c = (Inr (result e), store c args (e\<lparr>result := r\<rparr>))"
proof (cases rule: cached_cases [where c = c and args = args and env = env])
  case (stale_ok e' now' r')
  with assms show ?thesis by simp
qed (use assms in auto)

theorem cached_stale_hit_witness:
  "cached (demo_env 2 ''b{}'') demo_args (store Map.empty demo_args (demo_entry 1 ''a{}'')) =
    (Inr (css_result ''a{}''), store Map.empty demo_args (demo_entry 1 ''b{}''))"
  using cached_stale_hit [of "store Map.empty demo_args (demo_entry 1 ''a{}'')" demo_args
      "demo_entry 1 ''a{}''" "demo_env 2 ''b{}''" 2 "css_result ''b{}''"]
  by (simp add: demo_defs)

section \<open>Failures\<close>

lemma cached_result_cases:
  obtains (ok) r where "fst (cached env args c) = Inr r"
  | (failed) err where "fst (cached env args c) = Inl err"
  by (cases "fst (cached env args c)") auto

lemma cached_failure_state:
  assumes "fst (cached env args c) = Inl err"
  shows "snd (cached env args c) = opened c args"
proof (cases rule: cached_cases [where c = c and args = args and env = env])
  case (unreadable e err')
  then show ?thesis by (simp add: opened_present)
next
  case (stale_err e now err')
  then show ?thesis by (simp add: opened_present)
qed (use assms in auto)

text \<open>
  C26: A load that throws changes no entry of the cache, for any key: the only
  trace it can leave is an empty group for a resolve directory that had none.
\<close>

theorem cached_failure_keeps_entries:
  assumes "fst (cached env args c) = Inl err"
  shows "entry_of (snd (cached env args c)) b = entry_of c b"
proof -
  from assms have "snd (cached env args c) = opened c args"
    by (rule cached_failure_state)
  then show ?thesis by simp
qed

text \<open>
  An exception that leaves the handler is one a collaborator threw, passed
  on unchanged: the stat of some file, the resolver on this request, or the
  transform.  The handler raises nothing of its own and retries nothing.
\<close>

theorem cached_failure_origin:
  assumes "fst (cached env args c) = Inl err"
  shows "env_resolve env args = Inl err
    \<or> (\<exists>f. env_statSync env f = Inl err)
    \<or> (\<exists>f t. env_transform env f t = Inl err)"
proof (cases rule: cached_cases [where c = c and args = args and env = env])
  case (miss_err err')
  with assms show ?thesis by auto
next
  case (unreadable e err')
  with assms show ?thesis by auto
next
  case (stale_err e now err')
  with assms show ?thesis by auto
qed (use assms in auto)

definition failing_env :: "error \<Rightarrow> load_env" where
  "failing_env err = (demo_env 1 [])\<lparr>env_transform := (\<lambda>f t. Inl err)\<rparr>"

lemma cached_failing_env:
  "cached (failing_env err) demo_args Map.empty = (Inl err, opened Map.empty demo_args)"
  by (simp add: cached_unfold status_of_def failing_env_def demo_defs)

theorem cached_failure_keeps_entries_witness:
  "fst (cached (failing_env (CompileError ''x'')) demo_args Map.empty) = Inl (CompileError ''x'')
    \<and> entry_of (snd (cached (failing_env (CompileError ''x'')) demo_args Map.empty)) demo_args
        = entry_of Map.empty demo_args"
  using cached_failure_keeps_entries [of "failing_env (CompileError ''x'')" demo_args Map.empty
      "CompileError ''x''" demo_args]
  by (simp add: cached_failing_env)

theorem cached_failure_origin_witness:
  "fst (cached (failing_env (CompileError ''x'')) demo_args Map.empty) = Inl (CompileError ''x'')
    \<and> (env_resolve (failing_env (CompileError ''x'')) demo_args = Inl (CompileError ''x'')
      \<or> (\<exists>f. env_statSync (failing_env (CompileError ''x'')) f = Inl (CompileError ''x''))
      \<or> (\<exists>f t. env_transform (failing_env (CompileError ''x'')) f t = Inl (CompileError ''x'')))"
  using cached_failure_origin [of "failing_env (CompileError ''x'')" demo_args Map.empty
      "CompileError ''x''"]
  by (simp add: cached_failing_env)

section \<open>Frame and stability\<close>

lemma cached_other_key:
  assumes "key_of b \<noteq> key_of args"
  shows "entry_of (snd (cached env args c)) b = entry_of c b"
  by (cases rule: cached_cases [where c = c and args = args and env = env])
    (use assms in auto)

text \<open>
  C27: A load reads and writes the entry of its own key only: the entry of every
  other (resolve directory, specifier) pair is the same before and after,
  whether the load succeeds or throws.
\<close>

theorem cached_frame:
  assumes "resolveDir b \<noteq> resolveDir args \<or> path b \<noteq> path args"
  shows "entry_of (snd (cached env args c)) b = entry_of c b"
proof -
  from assms have "key_of b \<noteq> key_of args"
    by (auto simp: key_of_eq_iff)
  then show ?thesis by (rule cached_other_key)
qed

theorem cached_frame_witness:
  "entry_of (snd (cached (demo_env 1 ''a{}'') demo_args Map.empty)) other_args = None"
  using cached_frame [of other_args demo_args "demo_env 1 ''a{}''" Map.empty]
  by (simp add: other_args_def demo_defs)

text \<open>An entry and a later state of it: same file, same type, same recorded time.\<close>

definition same_origin :: "cached_result \<Rightarrow> cached_result \<Rightarrow> bool" where
  "same_origin e e' \<longleftrightarrow>
    filename e' = filename e \<and> ctype e' = ctype e \<and> mtimeMs e' = mtimeMs e"

lemma same_origin_refl [simp]: "same_origin e e"
  by (simp add: same_origin_def)

lemma same_origin_trans: "same_origin e e' \<Longrightarrow> same_origin e' e'' \<Longrightarrow> same_origin e e''"
  by (simp add: same_origin_def)

lemma same_origin_result_update [simp]: "same_origin e (e\<lparr>result := r\<rparr>)"
  by (simp add: same_origin_def)

lemma cached_entry_stable:
  assumes "entry_of c b = Some e"
  shows "\<exists>e'. entry_of (snd (cached env args c)) b = Some e' \<and> same_origin e e'"
proof (cases "key_of b = key_of args")
  case False
  with assms show ?thesis by (simp add: cached_other_key)
next
  case True
  then have b: "entry_of c' b = entry_of c' args" for c'
    by (rule entry_of_key_cong)
  with assms have "entry_of c args = Some e" by simp
  then show ?thesis
    by (cases rule: cached_cases [where c = c and args = args and env = env])
      (auto simp: b)
qed

text \<open>
  C28: Once an entry exists it stays, and its file name, its type and its
  modification time never change, whatever loads follow and in whatever
  environments: the handler neither resolves nor classifies a cached request
  again, and it never refreshes the recorded time.
\<close>

theorem run_loads_entry_stable:
  assumes "entry_of c b = Some e"
  shows "\<exists>e'. entry_of (snd (run_loads xs c)) b = Some e' \<and> same_origin e e'"
  using assms
proof (induction xs arbitrary: c e)
  case Nil
  then show ?case by simp
next
  case (Cons x xs)
  obtain env args where x: "x = (env, args)"
    by (cases x)
  from Cons.prems obtain e1 where e1: "entry_of (snd (cached env args c)) b = Some e1"
    and o1: "same_origin e e1"
    using cached_entry_stable by blast
  from Cons.IH [OF e1] obtain e2
    where "entry_of (snd (run_loads xs (snd (cached env args c)))) b = Some e2"
      and "same_origin e1 e2"
    by blast
  with o1 x show ?case
    by (auto simp: split_beta intro: same_origin_trans)
qed

theorem run_loads_entry_stable_witness:
  "\<exists>e'. entry_of (snd (run_loads [(demo_env 2 ''b{}'', demo_args), (demo_env 3 ''c{}'', demo_args)]
        (store Map.empty demo_args (demo_entry 1 ''a{}'')))) demo_args = Some e'
     \<and> same_origin (demo_entry 1 ''a{}'') e'"
  using run_loads_entry_stable [of "store Map.empty demo_args (demo_entry 1 ''a{}'')" demo_args
      "demo_entry 1 ''a{}''"
      "[(demo_env 2 ''b{}'', demo_args), (demo_env 3 ''c{}'', demo_args)]"]
  by simp

section \<open>Loading twice\<close>

lemma status_of_after_store:
  "status_of env args (store c args e) =
    (case env_statSync env (filename e) of
       Inl err \<Rightarrow> Unreadable err
     | Inr now \<Rightarrow> if now \<le> mtimeMs e then Fresh e else Stale e)"
  by (simp add: status_of_def)

lemma cached_again:
  assumes "cached env args c = (Inr r, c')"
    and "\<forall>e. status_of env args c \<noteq> Stale e"
  shows "cached env args c' = (Inr r, c')"
proof (cases rule: cached_cases [where c = c and args = args and env = env])
  case (miss_ok f r' m)
  with assms(1) have c': "c' = store c args
      \<lparr>filename = f, ctype = env_typeOf env args, mtimeMs = m, result = r\<rparr>" and "r' = r"
    by auto
  with miss_ok show ?thesis
    by (simp add: cached_unfold status_of_after_store)
next
  case (fresh e now)
  with assms(1) show ?thesis by simp
next
  case (stale_ok e now r')
  with assms(2) show ?thesis
    by (auto simp: status_of_iffs)
qed (use assms in auto)

lemma cached_success_entry:
  assumes "cached env args c = (Inr r, c')"
  shows "entry_of c' args \<noteq> None"
  by (cases rule: cached_cases [where c = c and args = args and env = env])
    (use assms in auto)

lemma store_key_cong: "key_of a = key_of b \<Longrightarrow> store c a e = store c b e"
  by (simp add: store_def key_of_def)

lemma cached_hit_key_cong:
  assumes "key_of a = key_of b" and "entry_of c a \<noteq> None"
  shows "cached env a c = cached env b c"
proof -
  from assms(1) have "entry_of c b = entry_of c a"
    by (rule entry_of_key_cong [symmetric])
  then have st: "status_of env b c = status_of env a c"
    by (simp add: status_of_def)
  from assms(1) have sto: "store c b = store c a"
    by (simp add: store_def key_of_def fun_eq_iff)
  show ?thesis
  proof (cases "status_of env a c")
    case Absent
    with assms(2) show ?thesis
      by (simp add: status_of_iffs)
  qed (simp_all add: cached_unfold st sto cong: sum.case_cong)
qed

text \<open>
  C29: Idempotence where it holds, and what the key leaves out.  If a load
  succeeds and did not find its entry stale, then the next load of any request
  with the same resolve directory and the same specifier, in the same
  environment, returns the same result and leaves the cache as the first load
  left it.  The second request may come from another importer: it is answered
  from the entry of the first and is never classified.
\<close>

theorem cached_same_key:
  assumes "resolveDir b = resolveDir a" and "path b = path a"
    and "cached env a c = (Inr r, c')"
    and "\<forall>e. status_of env a c \<noteq> Stale e"
  shows "cached env b c' = (Inr r, c')"
proof -
  from assms(1,2) have "key_of a = key_of b"
    by (simp add: key_of_eq_iff)
  moreover from assms(3) have "entry_of c' a \<noteq> None"
    by (rule cached_success_entry)
  ultimately have "cached env a c' = cached env b c'"
    by (rule cached_hit_key_cong)
  with assms(3,4) show ?thesis
    by (simp add: cached_again)
qed

definition picky_env :: load_env where
  "picky_env = (demo_env 1 ''a{}'')\<lparr>env_typeOf :=
     (\<lambda>a. if importer a = ''/p/src/index.ts'' then ''css'' else ''style'')\<rparr>"

theorem cached_same_key_witness:
  "env_typeOf picky_env (demo_args\<lparr>importer := ''/p/src/widget.ts''\<rparr>) = ''style''
    \<and> cached picky_env (demo_args\<lparr>importer := ''/p/src/widget.ts''\<rparr>)
        (store Map.empty demo_args (demo_entry 1 ''a{}'')) =
      (Inr (css_result ''a{}''), store Map.empty demo_args (demo_entry 1 ''a{}''))"
proof -
  have first: "cached picky_env demo_args Map.empty =
      (Inr (css_result ''a{}''), store Map.empty demo_args (demo_entry 1 ''a{}''))"
    by (simp add: cached_unfold status_of_def picky_env_def demo_defs)
  have no_stale: "\<forall>e. status_of picky_env demo_args Map.empty \<noteq> Stale e"
    by (simp add: status_of_def)
  have second: "cached picky_env (demo_args\<lparr>importer := ''/p/src/widget.ts''\<rparr>)
        (store Map.empty demo_args (demo_entry 1 ''a{}'')) =
      (Inr (css_result ''a{}''), store Map.empty demo_args (demo_entry 1 ''a{}''))"
    by (rule cached_same_key [OF _ _ first no_stale]) simp_all
  have "env_typeOf picky_env (demo_args\<lparr>importer := ''/p/src/widget.ts''\<rparr>) = ''style''"
    by (simp add: picky_env_def)
  with second show ?thesis
    by (rule conjI [rotated])
qed

text \<open>
  C25: Idempotence where it fails.  A load that finds its entry stale returns the
  old result; because the recorded modification time is not refreshed, the entry
  is still stale afterwards, so the next load in the same environment runs the
  transform again and returns the result the first load computed.  Two loads
  with no change of the file in between return different values whenever the
  recomputed result differs from the old one, and the cache after the second
  load is the cache after the first.
\<close>

theorem cached_stale_twice:
  assumes "status_of env args c = Stale e"
    and "env_transform env (filename e) (ctype e) = Inr r"
  shows "cached env args c = (Inr (result e), store c args (e\<lparr>result := r\<rparr>))
    \<and> status_of env args (store c args (e\<lparr>result := r\<rparr>)) = Stale (e\<lparr>result := r\<rparr>)
    \<and> cached env args (store c args (e\<lparr>result := r\<rparr>)) =
        (Inr r, store c args (e\<lparr>result := r\<rparr>))"
proof -
  from assms(1) obtain now where e: "entry_of c args = Some e"
    and now: "env_statSync env (filename e) = Inr now" "mtimeMs e < now"
    by (auto simp: status_of_iffs)
  let ?c' = "store c args (e\<lparr>result := r\<rparr>)"
  have first: "cached env args c = (Inr (result e), ?c')"
    using assms by (simp add: cached_unfold)
  have still: "status_of env args ?c' = Stale (e\<lparr>result := r\<rparr>)"
    using now by (simp add: status_of_after_store)
  from still assms(2) have "cached env args ?c' = (Inr r, ?c')"
    by (simp add: cached_unfold)
  with first still show ?thesis by simp
qed

theorem cached_stale_twice_witness:
  "cached (demo_env 2 ''b{}'') demo_args (store Map.empty demo_args (demo_entry 1 ''a{}'')) =
      (Inr (css_result ''a{}''),
       store (store Map.empty demo_args (demo_entry 1 ''a{}'')) demo_args (demo_entry 1 ''b{}''))
    \<and> cached (demo_env 2 ''b{}'') demo_args
        (store (store Map.empty demo_args (demo_entry 1 ''a{}'')) demo_args (demo_entry 1 ''b{}'')) =
      (Inr (css_result ''b{}''),
       store (store Map.empty demo_args (demo_entry 1 ''a{}'')) demo_args (demo_entry 1 ''b{}''))"
  using cached_stale_twice [of "demo_env 2 ''b{}''" demo_args
      "store Map.empty demo_args (demo_entry 1 ''a{}'')" "demo_entry 1 ''a{}''"
      "css_result ''b{}''"]
  by (simp add: status_of_after_store demo_defs)

end
