(* ===== verification/Cache_Soundness.thy ===== *)
theory Cache_Soundness
  imports Cache
begin

text \<open>
  When the cache of \<^verbatim>\<open>src/src/plugin.ts\<close> may be trusted.

  The handler decides freshness from one number, the modification time of the
  entry's file.  That is sound only if the environment behaves: modification
  times do not run backwards, and a file whose time did not change transforms
  to what it transformed to before.  The first part of this theory states these
  two assumptions as a relation \<open>evolves\<close> between an earlier and a later
  environment, describes the histories of the cache as an inductive predicate
  \<open>reaches\<close>, and proves by rule induction the invariant \<open>coherent\<close>: every
  entry is at most as new as its file, and an entry as new as its file holds
  what the transform returns now.

  The second part compares the caching handler with the handler without a
  cache in an environment that does not change at all, and shows when the two
  are indistinguishable to the bundler.
\<close>

section \<open>Assumptions on the environment\<close>

definition evolves :: "load_env \<Rightarrow> load_env \<Rightarrow> bool" where
  "evolves w w' \<longleftrightarrow>
    (\<forall>f m m'. env_statSync w f = Inr m \<longrightarrow> env_statSync w' f = Inr m' \<longrightarrow>
       m \<le> m' \<and> (m = m' \<longrightarrow> env_transform w' f = env_transform w f))"

lemma evolves_refl [simp]: "evolves w w"
  by (simp add: evolves_def)

lemma evolvesD:
  assumes "evolves w w'" and "env_statSync w f = Inr m" and "env_statSync w' f = Inr m'"
  shows "m \<le> m'" and "m = m' \<Longrightarrow> env_transform w' f t = env_transform w f t"
  using assms by (auto simp: evolves_def)

section \<open>The invariant\<close>

definition entry_ok :: "load_env \<Rightarrow> cached_result \<Rightarrow> bool" where
  "entry_ok w e \<longleftrightarrow>
    (\<forall>now. env_statSync w (filename e) = Inr now \<longrightarrow>
       mtimeMs e \<le> now \<and>
       (now = mtimeMs e \<longrightarrow> env_transform w (filename e) (ctype e) = Inr (result e)))"

definition coherent :: "load_env \<Rightarrow> cache \<Rightarrow> bool" where
  "coherent w c \<longleftrightarrow> (\<forall>a e. entry_of c a = Some e \<longrightarrow> entry_ok w e)"

lemma coherentD: "coherent w c \<Longrightarrow> entry_of c a = Some e \<Longrightarrow> entry_ok w e"
  by (auto simp: coherent_def)

lemma coherent_empty [simp]: "coherent w Map.empty"
  by (simp add: coherent_def)

lemma coherent_opened [simp]: "coherent w (opened c a) = coherent w c"
  by (simp add: coherent_def)

lemma coherent_store:
  assumes "coherent w c" and "entry_ok w e"
  shows "coherent w (store c a e)"
  using assms by (auto simp: coherent_def entry_of_store)

text \<open>An entry made in \<open>w0\<close> is sound in every environment \<open>w0\<close> evolves to.\<close>

lemma entry_ok_new:
  assumes "evolves w0 w"
    and "env_statSync w0 f = Inr m"
    and "env_transform w0 f t = Inr r"
  shows "entry_ok w \<lparr>filename = f, ctype = t, mtimeMs = m, result = r\<rparr>"
  unfolding entry_ok_def
proof (intro allI impI conjI)
  fix now
  assume now: "env_statSync w (filename \<lparr>filename = f, ctype = t, mtimeMs = m, result = r\<rparr>) = Inr now"
  then have stat: "env_statSync w f = Inr now" by simp
  from evolvesD(1) [OF assms(1,2) stat]
  show "mtimeMs \<lparr>filename = f, ctype = t, mtimeMs = m, result = r\<rparr> \<le> now" by simp
  assume "now = mtimeMs \<lparr>filename = f, ctype = t, mtimeMs = m, result = r\<rparr>"
  then have "m = now" by simp
  from evolvesD(2) [OF assms(1,2) stat this] assms(3)
  show "env_transform w (filename \<lparr>filename = f, ctype = t, mtimeMs = m, result = r\<rparr>)
      (ctype \<lparr>filename = f, ctype = t, mtimeMs = m, result = r\<rparr>)
    = Inr (result \<lparr>filename = f, ctype = t, mtimeMs = m, result = r\<rparr>)"
    by simp
qed

text \<open>An entry found stale in \<open>w0\<close> stays stale, whatever result it is given.\<close>

lemma entry_ok_stale:
  assumes "evolves w0 w"
    and "env_statSync w0 (filename e) = Inr now0"
    and "mtimeMs e < now0"
  shows "entry_ok w (e\<lparr>result := r\<rparr>)"
  unfolding entry_ok_def
proof (intro allI impI)
  fix now
  assume "env_statSync w (filename (e\<lparr>result := r\<rparr>)) = Inr now"
  then have "env_statSync w (filename e) = Inr now" by simp
  from evolvesD(1) [OF assms(1,2) this] assms(3) have "mtimeMs e < now" by simp
  then show "mtimeMs (e\<lparr>result := r\<rparr>) \<le> now \<and>
      (now = mtimeMs (e\<lparr>result := r\<rparr>) \<longrightarrow>
       env_transform w (filename (e\<lparr>result := r\<rparr>)) (ctype (e\<lparr>result := r\<rparr>))
         = Inr (result (e\<lparr>result := r\<rparr>)))"
    by simp
qed

text \<open>One load keeps the invariant, for every environment the load's own evolves to.\<close>

lemma cached_coherent:
  assumes "coherent w c" and "evolves w0 w"
  shows "coherent w (snd (cached w0 args c))"
proof (cases rule: cached_cases [where c = c and args = args and env = w0])
  case (miss_ok f r m)
  from assms(2) miss_ok(4,3) have "entry_ok w
      \<lparr>filename = f, ctype = env_typeOf w0 args, mtimeMs = m, result = r\<rparr>"
    by (rule entry_ok_new)
  with assms(1) miss_ok(5) show ?thesis
    by (simp add: coherent_store)
next
  case (stale_ok e now r)
  from assms(2) stale_ok(2,3) have "entry_ok w (e\<lparr>result := r\<rparr>)"
    by (rule entry_ok_stale)
  with assms(1) stale_ok(5) show ?thesis
    by (simp add: coherent_store)
qed (use assms in simp_all)

section \<open>Histories of the cache\<close>

text \<open>
  \<open>reaches ws c\<close>: the cache \<open>c\<close> is what a plugin instance that started with a
  new \<^verbatim>\<open>Map\<close> holds after loads in the environments \<open>ws\<close> (latest first),
  each of which every earlier one evolves to.  The requests are arbitrary.
\<close>

inductive reaches :: "load_env list \<Rightarrow> cache \<Rightarrow> bool" where
  start: "reaches [] Map.empty"
| load: "reaches ws c \<Longrightarrow> \<forall>w' \<in> set ws. evolves w' w \<Longrightarrow>
    reaches (w # ws) (snd (cached w args c))"

inductive_cases reaches_NilE [elim!]: "reaches [] c"
inductive_cases reaches_ConsE [elim!]: "reaches (w # ws) c"

inductive_simps reaches_Nil_iff [simp]: "reaches [] c"

lemma reaches_coherent:
  assumes "reaches ws c" and "\<forall>w' \<in> set ws. evolves w' w"
  shows "coherent w c"
  using assms
proof (induction arbitrary: w rule: reaches.induct)
  case start
  show ?case by simp
next
  case (load ws c w0 args)
  from load.prems have "\<forall>w' \<in> set ws. evolves w' w" and "evolves w0 w"
    by simp_all
  then show ?case
    by (auto intro: cached_coherent load.IH)
qed

text \<open>
  C23: Soundness of the freshness check.  Let the cache have been built from an
  empty one by any loads, in environments in which modification times never
  decrease and a file with an unchanged time transforms as before.  Then every
  hit that passes the check \<^verbatim>\<open>stats.mtimeMs <= mtimeMs\<close> returns exactly what
  \<^verbatim>\<open>transform\<close> would return if it were called now on the entry's file and
  type.
\<close>

theorem fresh_hit_is_current:
  assumes "reaches ws c"
    and "\<forall>w' \<in> set ws. evolves w' w"
    and "status_of w args c = Fresh e"
  shows "fst (cached w args c) = env_transform w (filename e) (ctype e)"
proof -
  from assms(3) obtain now where e: "entry_of c args = Some e"
    and now: "env_statSync w (filename e) = Inr now" "now \<le> mtimeMs e"
    by (auto simp: status_of_iffs)
  from assms(1,2) have "coherent w c"
    by (rule reaches_coherent)
  from this e have "entry_ok w e"
    by (rule coherentD)
  with now have "env_transform w (filename e) (ctype e) = Inr (result e)"
    by (fastforce simp: entry_ok_def)
  moreover from assms(3) have "fst (cached w args c) = Inr (result e)"
    by (simp add: cached_unfold)
  ultimately show ?thesis by simp
qed

theorem fresh_hit_is_current_witness:
  "fst (cached (demo_env 1 ''a{}'') demo_args (snd (cached (demo_env 1 ''a{}'') demo_args Map.empty)))
    = env_transform (demo_env 1 ''a{}'') (filename (demo_entry 1 ''a{}''))
        (ctype (demo_entry 1 ''a{}''))"
proof -
  have c: "snd (cached (demo_env 1 ''a{}'') demo_args Map.empty)
      = store Map.empty demo_args (demo_entry 1 ''a{}'')"
    by (simp add: cached_unfold status_of_def demo_defs)
  have "reaches [demo_env 1 ''a{}''] (snd (cached (demo_env 1 ''a{}'') demo_args Map.empty))"
    by (rule reaches.load) (simp_all add: reaches.start)
  moreover have "\<forall>w' \<in> set [demo_env 1 ''a{}'']. evolves w' (demo_env 1 ''a{}'')"
    by simp
  moreover have "status_of (demo_env 1 ''a{}'') demo_args
      (snd (cached (demo_env 1 ''a{}'') demo_args Map.empty)) = Fresh (demo_entry 1 ''a{}'')"
    unfolding c by (simp add: status_of_after_store) (simp add: demo_defs)
  ultimately show ?thesis
    by (rule fresh_hit_is_current)
qed

section \<open>After an edit\<close>

text \<open>
  C16: An edit is delivered by the second load after it at the latest.  Let the
  cache have been built as above and hold an entry for the request, and let
  the environment stay as it is for two loads.  Then the second load returns
  what \<^verbatim>\<open>transform\<close> returns now on the entry's file and type (or throws what
  \<^verbatim>\<open>statSync\<close> throws), whether the entry was fresh or stale before the first.
\<close>

theorem second_load_is_current:
  assumes "reaches ws c"
    and "\<forall>w' \<in> set ws. evolves w' w"
    and "entry_of c args = Some e"
  shows "fst (cached w args (snd (cached w args c))) =
    (case env_statSync w (filename e) of
       Inl err \<Rightarrow> Inl err
     | Inr now \<Rightarrow> env_transform w (filename e) (ctype e))"
proof (cases rule: cached_cases [where c = c and args = args and env = w])
  case (fresh e' now)
  from assms(1,2) have "coherent w c"
    by (rule reaches_coherent)
  from this assms(3) have "entry_ok w e"
    by (rule coherentD)
  with fresh assms(3) have "env_transform w (filename e) (ctype e) = Inr (result e)"
    by (fastforce simp: entry_ok_def)
  with fresh assms(3) show ?thesis by simp
next
  case (stale_ok e' now r)
  with assms(3) have e': "e' = e" by simp
  let ?c' = "store c args (e\<lparr>result := r\<rparr>)"
  from stale_ok have "status_of w args ?c' = Stale (e\<lparr>result := r\<rparr>)"
    unfolding e' by (simp add: status_of_after_store)
  with stale_ok show ?thesis
    unfolding e' by (simp add: cached_unfold)
qed (use assms(3) in auto)

lemma demo_cache_after_load:
  "snd (cached (demo_env m css) demo_args Map.empty) = store Map.empty demo_args (demo_entry m css)"
  by (simp add: cached_unfold status_of_def demo_defs)

theorem second_load_is_current_witness:
  "fst (cached (demo_env 2 ''b{}'') demo_args
      (snd (cached (demo_env 2 ''b{}'') demo_args
        (snd (cached (demo_env 1 ''a{}'') demo_args Map.empty)))))
    = Inr (css_result ''b{}'')"
proof -
  have "reaches [demo_env 1 ''a{}''] (snd (cached (demo_env 1 ''a{}'') demo_args Map.empty))"
    by (rule reaches.load) (simp_all add: reaches.start)
  moreover have "\<forall>w' \<in> set [demo_env 1 ''a{}'']. evolves w' (demo_env 2 ''b{}'')"
    by (simp add: evolves_def demo_env_def)
  moreover have "entry_of (snd (cached (demo_env 1 ''a{}'') demo_args Map.empty)) demo_args
      = Some (demo_entry 1 ''a{}'')"
    by (simp add: demo_cache_after_load)
  ultimately show ?thesis
    using second_load_is_current [of "[demo_env 1 ''a{}'']" _ "demo_env 2 ''b{}''" demo_args
        "demo_entry 1 ''a{}''"]
    by (simp add: demo_env_def)
qed


section \<open>An environment that does not change\<close>

text \<open>
  Two properties of an environment.  \<open>key_determined\<close>: the resolved file and
  the type of a request depend on its resolve directory and specifier only (the
  resolvers of the plugin are so by construction; its classifier is so unless a
  rule has an importer pattern).  \<open>statable\<close>: a file the resolver returns and
  the transform accepts can be stat'ed.
\<close>

definition key_determined :: "load_env \<Rightarrow> bool" where
  "key_determined env \<longleftrightarrow>
    (\<forall>a b. key_of a = key_of b \<longrightarrow>
       env_resolve env a = env_resolve env b \<and> env_typeOf env a = env_typeOf env b)"

definition statable :: "load_env \<Rightarrow> bool" where
  "statable env \<longleftrightarrow>
    (\<forall>a f r. env_resolve env a = Inr f \<longrightarrow> env_transform env f (env_typeOf env a) = Inr r
       \<longrightarrow> is_ok (env_statSync env f))"

lemma key_determinedD:
  assumes "key_determined env" and "key_of a = key_of b"
  shows "env_resolve env a = env_resolve env b" and "env_typeOf env a = env_typeOf env b"
  using assms unfolding key_determined_def by blast+

text \<open>Every entry is what a load of its key would store now.\<close>

definition settled_entry :: "load_env \<Rightarrow> on_resolve_args \<Rightarrow> cached_result \<Rightarrow> bool" where
  "settled_entry env a e \<longleftrightarrow>
    env_resolve env a = Inr (filename e) \<and> env_typeOf env a = ctype e \<and>
    env_statSync env (filename e) = Inr (mtimeMs e) \<and>
    env_transform env (filename e) (ctype e) = Inr (result e)"

definition settled :: "load_env \<Rightarrow> cache \<Rightarrow> bool" where
  "settled env c \<longleftrightarrow> (\<forall>a e. entry_of c a = Some e \<longrightarrow> settled_entry env a e)"

lemma settled_empty [simp]: "settled env Map.empty"
  by (simp add: settled_def)

lemma settled_opened [simp]: "settled env (opened c a) = settled env c"
  by (simp add: settled_def)

lemma settledD: "settled env c \<Longrightarrow> entry_of c a = Some e \<Longrightarrow> settled_entry env a e"
  by (simp add: settled_def)

lemma settled_entry_key_cong:
  assumes "key_determined env" and "key_of b = key_of a" and "settled_entry env a e"
  shows "settled_entry env b e"
proof -
  from assms(1,2) have "env_resolve env b = env_resolve env a" "env_typeOf env b = env_typeOf env a"
    by (rule key_determinedD)+
  with assms(3) show ?thesis
    by (simp add: settled_entry_def)
qed

lemma settled_store:
  assumes "key_determined env" and "settled env c" and "settled_entry env a e"
  shows "settled env (store c a e)"
  unfolding settled_def
proof (intro allI impI)
  fix b e'
  assume b: "entry_of (store c a e) b = Some e'"
  show "settled_entry env b e'"
  proof (cases "key_of b = key_of a")
    case True
    with b have "e' = e" by (simp add: entry_of_store)
    with settled_entry_key_cong [OF assms(1) True assms(3)] show ?thesis
      by simp
  next
    case False
    with b assms(2) show ?thesis
      by (simp add: settledD)
  qed
qed

lemma settled_cached:
  assumes "key_determined env" and "statable env" and "settled env c"
  shows "fst (cached env a c) = uncached env a" and "settled env (snd (cached env a c))"
proof -
  have "fst (cached env a c) = uncached env a \<and> settled env (snd (cached env a c))"
  proof (cases rule: cached_cases [where c = c and args = a and env = env])
    case (miss_ok f r m)
    then have "settled_entry env a
        \<lparr>filename = f, ctype = env_typeOf env a, mtimeMs = m, result = r\<rparr>"
      by (simp add: settled_entry_def)
    with assms(1,3) miss_ok show ?thesis
      by (simp add: settled_store uncached_def)
  next
    case (miss_err err)
    have no: "env_statSync env f \<noteq> Inl err"
      if "env_resolve env a = Inr f" and "env_transform env f (env_typeOf env a) = Inr r" for f r
      using assms(2) that by (fastforce simp: statable_def is_ok_iff)
    from miss_err(3) have "uncached env a = Inl err"
    proof
      assume "env_resolve env a = Inl err"
      then show ?thesis by (simp add: uncached_def)
    next
      assume "\<exists>f. env_resolve env a = Inr f \<and>
        (env_transform env f (env_typeOf env a) = Inl err \<or>
         (\<exists>r. env_transform env f (env_typeOf env a) = Inr r \<and> env_statSync env f = Inl err))"
      then obtain f where f: "env_resolve env a = Inr f"
        and "env_transform env f (env_typeOf env a) = Inl err \<or>
          (\<exists>r. env_transform env f (env_typeOf env a) = Inr r \<and> env_statSync env f = Inl err)"
        by blast
      with no [OF f] have "env_transform env f (env_typeOf env a) = Inl err"
        by blast
      with f show ?thesis by (simp add: uncached_def)
    qed
    with miss_err(2) assms(3) show ?thesis by simp
  next
    case (unreadable e err)
    from assms(3) unreadable(1) have "settled_entry env a e"
      by (rule settledD)
    with unreadable(2) show ?thesis
      by (simp add: settled_entry_def)
  next
    case (fresh e now)
    from assms(3) fresh(1) have "settled_entry env a e"
      by (rule settledD)
    with fresh(4) assms(3) show ?thesis
      by (simp add: settled_entry_def uncached_def)
  next
    case (stale_ok e now r)
    from assms(3) stale_ok(1) have "settled_entry env a e"
      by (rule settledD)
    with stale_ok(2,3) show ?thesis
      by (simp add: settled_entry_def)
  next
    case (stale_err e now err)
    from assms(3) stale_err(1) have "settled_entry env a e"
      by (rule settledD)
    with stale_err(2,3) show ?thesis
      by (simp add: settled_entry_def)
  qed
  then show "fst (cached env a c) = uncached env a" and "settled env (snd (cached env a c))"
    by simp_all
qed

lemma run_loads_static:
  assumes "key_determined env" and "statable env" and "settled env c"
  shows "fst (run_loads (map (Pair env) as) c) = map (uncached env) as"
  using assms(3)
proof (induction as arbitrary: c)
  case Nil
  show ?case by simp
next
  case (Cons a as)
  from assms(1,2) Cons.prems
  have "fst (cached env a c) = uncached env a" and "settled env (snd (cached env a c))"
    by (rule settled_cached)+
  with Cons.IH [of "snd (cached env a c)"] show ?case
    by (simp add: split_beta)
qed

text \<open>
  C24: Transparency of the cache in a static environment.  If nothing changes
  between the loads, every file that is transformed can be stat'ed, and resolution and
  classification depend on the cache key only, then a plugin with a new cache
  answers any sequence of requests exactly as a plugin without a cache does:
  same results, same exceptions, in the same order.
\<close>

theorem static_run_transparent:
  assumes "key_determined env" and "statable env"
  shows "fst (run_loads (map (Pair env) as) Map.empty) = map (uncached env) as"
proof -
  have "settled env Map.empty" by simp
  with assms show ?thesis
    by (rule run_loads_static)
qed

lemma demo_env_key_determined: "key_determined (demo_env m css)"
  by (simp add: key_determined_def key_of_eq_iff demo_env_def)

lemma demo_env_statable: "statable (demo_env m css)"
  by (simp add: statable_def demo_env_def)

theorem static_run_transparent_witness:
  "fst (run_loads (map (Pair (demo_env 1 ''a{}'')) [demo_args, other_args, demo_args]) Map.empty)
    = [Inr (css_result ''a{}''), Inr (css_result ''a{}''), Inr (css_result ''a{}'')]"
  using static_run_transparent [OF demo_env_key_determined demo_env_statable,
      of 1 "''a{}''" "[demo_args, other_args, demo_args]"]
  by (simp add: uncached_def demo_env_def)

end
