(* ===== verification/Cache_Spec.thy ===== *)
theory Cache_Spec
  imports Cache
begin

text \<open>
  The contract of the cache as section 4.4 of the specification words it
  (\<open>getOrCompute\<close>), written independently of the handler, and the comparison
  of the handler of \<^verbatim>\<open>src/src/plugin.ts\<close> with it.  The specification fixes the
  value returned after a recomputation as the recomputed one; the handler
  returns the one it replaced.  The theorems say exactly how far the handler
  refines the contract: on the cache always, on the returned value everywhere
  but there.
\<close>

section \<open>The contract\<close>

text \<open>Step 3 of the algorithm: resolve, classify, compute, stat; a new entry or the first failure.\<close>

definition compute_entry :: "load_env \<Rightarrow> on_resolve_args \<Rightarrow> cached_result result" where
  "compute_entry env args =
    and_then (env_resolve env args) (\<lambda>f.
      and_then (env_transform env f (env_typeOf env args)) (\<lambda>r.
        and_then (env_statSync env f) (\<lambda>m.
          Inr \<lparr>filename = f, ctype = env_typeOf env args, mtimeMs = m, result = r\<rparr>)))"

definition getOrCompute :: "load_env \<Rightarrow> on_resolve_args \<Rightarrow> cache \<Rightarrow> load_result result \<times> cache" where
  "getOrCompute env args c =
    (case entry_of c args of
       None \<Rightarrow>
         (case compute_entry env args of
            Inl err \<Rightarrow> (Inl err, opened c args)
          | Inr e \<Rightarrow> (Inr (result e), store c args e))
     | Some e \<Rightarrow>
         (case env_statSync env (filename e) of
            Inl err \<Rightarrow> (Inl err, c)
          | Inr now \<Rightarrow>
              if now \<le> mtimeMs e then (Inr (result e), c)
              else
                (case env_transform env (filename e) (ctype e) of
                   Inl err \<Rightarrow> (Inl err, c)
                 | Inr r \<Rightarrow> (Inr r, store c args (e\<lparr>result := r\<rparr>)))))"

section \<open>The contract, branch by branch\<close>

lemma getOrCompute_Absent:
  assumes "entry_of c args = None"
  shows "getOrCompute env args c =
    (case compute_entry env args of
       Inl err \<Rightarrow> (Inl err, opened c args)
     | Inr e \<Rightarrow> (Inr (result e), store c args e))"
  using assms by (simp add: getOrCompute_def)

lemma getOrCompute_Unreadable:
  assumes "entry_of c args = Some e" and "env_statSync env (filename e) = Inl err"
  shows "getOrCompute env args c = (Inl err, c)"
  using assms by (simp add: getOrCompute_def)

lemma getOrCompute_Fresh:
  assumes "entry_of c args = Some e" and "env_statSync env (filename e) = Inr now"
    and "now \<le> mtimeMs e"
  shows "getOrCompute env args c = (Inr (result e), c)"
  using assms by (simp add: getOrCompute_def)

lemma getOrCompute_Stale:
  assumes "entry_of c args = Some e" and "env_statSync env (filename e) = Inr now"
    and "mtimeMs e < now"
  shows "getOrCompute env args c =
    (case env_transform env (filename e) (ctype e) of
       Inl err \<Rightarrow> (Inl err, c)
     | Inr r \<Rightarrow> (Inr r, store c args (e\<lparr>result := r\<rparr>)))"
  using assms by (simp add: getOrCompute_def)

lemmas getOrCompute_branches =
  getOrCompute_Absent getOrCompute_Unreadable getOrCompute_Fresh getOrCompute_Stale

text \<open>On a miss the handler is the contract: the nested calls are \<open>compute_entry\<close>.\<close>

lemma cached_Absent:
  assumes "entry_of c args = None"
  shows "cached env args c =
    (case compute_entry env args of
       Inl err \<Rightarrow> (Inl err, opened c args)
     | Inr e \<Rightarrow> (Inr (result e), store c args e))"
proof -
  from assms have "status_of env args c = Absent"
    by (simp add: status_of_iffs)
  then show ?thesis
    by (simp add: cached_unfold compute_entry_def and_then_def split: sum.splits)
qed

lemma cached_eq_spec_Absent:
  assumes "entry_of c args = None"
  shows "cached env args c = getOrCompute env args c"
  using assms by (simp add: cached_Absent getOrCompute_Absent)

section \<open>Refinement\<close>

lemma cached_spec_stale:
  assumes "status_of env args c = Stale e"
  shows "cached env args c =
      (case env_transform env (filename e) (ctype e) of
         Inl err \<Rightarrow> (Inl err, c)
       | Inr r \<Rightarrow> (Inr (result e), store c args (e\<lparr>result := r\<rparr>)))"
    and "getOrCompute env args c =
      (case env_transform env (filename e) (ctype e) of
         Inl err \<Rightarrow> (Inl err, c)
       | Inr r \<Rightarrow> (Inr r, store c args (e\<lparr>result := r\<rparr>)))"
proof -
  from assms show "cached env args c =
      (case env_transform env (filename e) (ctype e) of
         Inl err \<Rightarrow> (Inl err, c)
       | Inr r \<Rightarrow> (Inr (result e), store c args (e\<lparr>result := r\<rparr>)))"
    by (simp add: cached_unfold)
  from assms obtain now where "entry_of c args = Some e"
    "env_statSync env (filename e) = Inr now" "mtimeMs e < now"
    by (auto simp: status_of_iffs)
  then show "getOrCompute env args c =
      (case env_transform env (filename e) (ctype e) of
         Inl err \<Rightarrow> (Inl err, c)
       | Inr r \<Rightarrow> (Inr r, store c args (e\<lparr>result := r\<rparr>)))"
    by (rule getOrCompute_Stale)
qed

lemma cached_eq_spec_unless_stale:
  assumes "\<forall>e. status_of env args c \<noteq> Stale e"
  shows "cached env args c = getOrCompute env args c"
proof (cases rule: cached_cases [where c = c and args = args and env = env])
  case (unreadable e err)
  then show ?thesis by (simp add: getOrCompute_Unreadable)
next
  case (fresh e now)
  then show ?thesis by (simp add: getOrCompute_Fresh)
next
  case (stale_ok e now r)
  with assms show ?thesis by (auto simp: status_of_iffs)
next
  case (stale_err e now err)
  with assms show ?thesis by (auto simp: status_of_iffs)
qed (simp_all add: cached_eq_spec_Absent)

text \<open>
  C21: The handler refines the contract on the state.  For every environment,
  request and cache, the cache the handler leaves is the cache the contract
  prescribes: the same entry created on a miss, the same entry updated on a
  stale hit, nothing changed on a fresh hit or on a failure.
\<close>

theorem cached_refines_state:
  "snd (cached env args c) = snd (getOrCompute env args c)"
proof (cases "\<exists>e. status_of env args c = Stale e")
  case False
  then show ?thesis
    by (simp add: cached_eq_spec_unless_stale)
next
  case True
  then obtain e where "status_of env args c = Stale e" ..
  then show ?thesis
    by (simp add: cached_spec_stale split: sum.split)
qed

text \<open>
  C20: Where the handler and the contract part.  The handler does what the
  contract prescribes, value and cache, exactly when it is not the case that
  the entry is stale and the recomputation succeeds with a result other than
  the stored one.  In that one case the contract returns the recomputed result
  and the handler the stored one.
\<close>

theorem cached_eq_spec_iff:
  "cached env args c = getOrCompute env args c \<longleftrightarrow>
    (\<forall>e r. status_of env args c = Stale e \<longrightarrow>
       env_transform env (filename e) (ctype e) = Inr r \<longrightarrow> r = result e)"
proof (cases "\<exists>e. status_of env args c = Stale e")
  case False
  then show ?thesis
    by (simp add: cached_eq_spec_unless_stale)
next
  case True
  then obtain e where e: "status_of env args c = Stale e" ..
  show ?thesis
  proof (cases "env_transform env (filename e) (ctype e)")
    case (Inl err)
    with e show ?thesis
      by (simp add: cached_spec_stale)
  next
    case (Inr r)
    with e show ?thesis
      by (auto simp: cached_spec_stale)
  qed
qed

theorem cached_eq_spec_iff_witness:
  "cached (demo_env 2 ''b{}'') demo_args (store Map.empty demo_args (demo_entry 1 ''a{}''))
    \<noteq> getOrCompute (demo_env 2 ''b{}'') demo_args (store Map.empty demo_args (demo_entry 1 ''a{}''))"
proof -
  have "status_of (demo_env 2 ''b{}'') demo_args (store Map.empty demo_args (demo_entry 1 ''a{}''))
      = Stale (demo_entry 1 ''a{}'')"
    by (simp add: status_of_after_store) (simp add: demo_defs)
  moreover have "env_transform (demo_env 2 ''b{}'') (filename (demo_entry 1 ''a{}''))
      (ctype (demo_entry 1 ''a{}'')) = Inr (css_result ''b{}'')"
    by (simp add: demo_env_def)
  moreover have "css_result ''b{}'' \<noteq> result (demo_entry 1 ''a{}'')"
    by (simp add: demo_defs)
  ultimately show ?thesis
    using cached_eq_spec_iff [of "demo_env 2 ''b{}''" demo_args
        "store Map.empty demo_args (demo_entry 1 ''a{}'')"]
    by blast
qed

section \<open>Idempotence\<close>

lemma getOrCompute_again:
  assumes "getOrCompute env a c = (Inr r, c')"
  shows "getOrCompute env a c' = (Inr r, c')"
proof (cases "entry_of c a")
  case None
  with assms obtain e where e: "compute_entry env a = Inr e" and "r = result e" "c' = store c a e"
    by (auto simp: getOrCompute_Absent split: sum.splits)
  moreover from e have "env_statSync env (filename e) = Inr (mtimeMs e)"
    by (auto simp: compute_entry_def and_then_eq_Inr_iff)
  ultimately show ?thesis
    by (simp add: getOrCompute_def)
next
  case (Some e)
  show ?thesis
  proof (cases "status_of env a c")
    case Absent
    with Some show ?thesis by (simp add: status_of_iffs)
  next
    case (Unreadable err)
    with Some assms show ?thesis by (auto simp: status_of_iffs getOrCompute_Unreadable)
  next
    case (Fresh e')
    with assms show ?thesis by (auto simp: status_of_iffs getOrCompute_Fresh)
  next
    case (Stale e')
    then obtain now where e': "entry_of c a = Some e'"
      and now: "env_statSync env (filename e') = Inr now" "mtimeMs e' < now"
      by (auto simp: status_of_iffs)
    with assms have tr: "env_transform env (filename e') (ctype e') = Inr r"
      and c': "c' = store c a (e'\<lparr>result := r\<rparr>)"
      by (auto simp: getOrCompute_Stale split: sum.splits)
    from now tr show ?thesis
      unfolding c' by (simp add: getOrCompute_def)
  qed
qed

lemma cached_again_stale:
  assumes "status_of env a c = Stale e" and "cached env a c = (Inr r, c')"
  shows "\<exists>r'. env_transform env (filename e) (ctype e) = Inr r' \<and> cached env a c' = (Inr r', c')"
proof -
  from assms(1) obtain now where now: "env_statSync env (filename e) = Inr now" "mtimeMs e < now"
    by (auto simp: status_of_iffs)
  from assms obtain r' where tr: "env_transform env (filename e) (ctype e) = Inr r'"
    and c': "c' = store c a (e\<lparr>result := r'\<rparr>)"
    by (auto simp: cached_unfold split: sum.splits)
  from now tr have "cached env a c' = (Inr r', c')"
    unfolding c' by (simp add: cached_unfold status_of_after_store)
  with tr show ?thesis by blast
qed

text \<open>
  C22: Idempotence.  Under the contract a load that succeeded, repeated at once
  in the same environment, returns the same result and leaves the cache as it
  is.  The handler does so exactly when the first load did not find a stale
  entry whose recomputation gave another result than the one returned: after a
  stale hit it returns first the old result and then the new one.
\<close>

theorem load_idempotent:
  "(getOrCompute env a c = (Inr r, c') \<longrightarrow> getOrCompute env a c' = (Inr r, c')) \<and>
   (cached env a c = (Inr r, c') \<longrightarrow>
      (cached env a c' = (Inr r, c') \<longleftrightarrow>
        (\<forall>e. status_of env a c = Stale e \<longrightarrow> env_transform env (filename e) (ctype e) = Inr r)))"
proof (intro conjI impI)
  assume "getOrCompute env a c = (Inr r, c')"
  then show "getOrCompute env a c' = (Inr r, c')"
    by (rule getOrCompute_again)
next
  assume first: "cached env a c = (Inr r, c')"
  show "cached env a c' = (Inr r, c') \<longleftrightarrow>
    (\<forall>e. status_of env a c = Stale e \<longrightarrow> env_transform env (filename e) (ctype e) = Inr r)"
  proof (cases "\<exists>e. status_of env a c = Stale e")
    case False
    then have "\<forall>e. status_of env a c \<noteq> Stale e" by simp
    with first have "cached env a c' = (Inr r, c')"
      by (rule cached_again)
    with False show ?thesis by simp
  next
    case True
    then obtain e where e: "status_of env a c = Stale e" ..
    from e first obtain r' where "env_transform env (filename e) (ctype e) = Inr r'"
      and "cached env a c' = (Inr r', c')"
      using cached_again_stale by blast
    with e show ?thesis by auto
  qed
qed

theorem load_idempotent_witness:
  "cached (demo_env 2 ''b{}'') demo_args (store Map.empty demo_args (demo_entry 1 ''b{}''))
    \<noteq> (Inr (css_result ''a{}''), store Map.empty demo_args (demo_entry 1 ''b{}''))"
proof -
  have st: "status_of (demo_env 2 ''b{}'') demo_args (store Map.empty demo_args (demo_entry 1 ''a{}''))
      = Stale (demo_entry 1 ''a{}'')"
    by (simp add: status_of_after_store) (simp add: demo_defs)
  then have first: "cached (demo_env 2 ''b{}'') demo_args (store Map.empty demo_args (demo_entry 1 ''a{}''))
      = (Inr (css_result ''a{}''), store Map.empty demo_args (demo_entry 1 ''b{}''))"
    by (simp add: cached_unfold) (simp add: demo_defs)
  have "env_transform (demo_env 2 ''b{}'') (filename (demo_entry 1 ''a{}'')) (ctype (demo_entry 1 ''a{}''))
      \<noteq> Inr (css_result ''a{}'')"
    by (simp add: demo_defs)
  with st first show ?thesis
    using load_idempotent [of "demo_env 2 ''b{}''" demo_args
        "store Map.empty demo_args (demo_entry 1 ''a{}'')" "css_result ''a{}''"
        "store Map.empty demo_args (demo_entry 1 ''b{}'')"]
    by blast
qed

end
