(* ===== verification/Cache_Growth.thy ===== *)
theory Cache_Growth
  imports Cache
begin

text \<open>
  How large the cache of \<^verbatim>\<open>src/src/plugin.ts\<close> can become.  Nothing in the
  plugin removes an entry: \<^verbatim>\<open>group.set\<close> (line 143) is the only call that adds
  one, under the key of the request, and the assignment of line 135 changes
  an entry that exists.  The keys of the cache are therefore among the keys of
  the requests that were answered, whatever the environments did.
\<close>

section \<open>The keys of a cache\<close>

definition cache_keys :: "cache \<Rightarrow> (string \<times> string) set" where
  "cache_keys c = {(d, p). lookup2 c d p \<noteq> None}"

lemma cache_keys_iff: "key_of a \<in> cache_keys c \<longleftrightarrow> entry_of c a \<noteq> None"
  by (simp add: cache_keys_def entry_of_def key_of_def)

lemma cache_keys_empty [simp]: "cache_keys Map.empty = {}"
  by (simp add: cache_keys_def)

lemma cache_keys_opened [simp]: "cache_keys (opened c a) = cache_keys c"
  by (simp add: cache_keys_def opened_def)

lemma cache_keys_store [simp]: "cache_keys (store c a e) = insert (key_of a) (cache_keys c)"
  by (auto simp: cache_keys_def store_def key_of_def lookup2_update2 split: if_splits)

text \<open>A load adds the key of its request if it returns, and no key if it throws.\<close>

lemma cached_keys:
  "cache_keys (snd (cached env a c)) =
    (if is_ok (fst (cached env a c)) then insert (key_of a) (cache_keys c) else cache_keys c)"
proof (cases rule: cached_cases [where c = c and args = a and env = env])
  case (fresh e now)
  then have "key_of a \<in> cache_keys c"
    by (simp add: cache_keys_iff)
  with fresh show ?thesis by (auto simp: insert_absorb)
next
  case (stale_ok e now r)
  then show ?thesis by simp
qed simp_all

lemma run_loads_keys:
  "cache_keys c \<subseteq> cache_keys (snd (run_loads xs c))
    \<and> cache_keys (snd (run_loads xs c)) \<subseteq> cache_keys c \<union> key_of ` snd ` set xs"
proof (induction xs arbitrary: c)
  case Nil
  show ?case by simp
next
  case (Cons x xs)
  obtain env a where x: "x = (env, a)"
    by (cases x)
  let ?c' = "snd (cached env a c)"
  have step: "cache_keys c \<subseteq> cache_keys ?c'" "cache_keys ?c' \<subseteq> insert (key_of a) (cache_keys c)"
    by (auto simp: cached_keys)
  have run: "snd (run_loads (x # xs) c) = snd (run_loads xs ?c')"
    by (simp add: x split_beta)
  from Cons.IH [of ?c'] step show ?case
    unfolding run by (auto simp: x)
qed

section \<open>The bound\<close>

text \<open>
  C17: A cache that started empty holds, after any sequence of loads in any
  environments, finitely many entries: at most one for each distinct key
  (resolve directory and specifier) among the requests, hence at most as many
  as there were loads.
\<close>

theorem run_loads_cache_bound:
  "finite (cache_keys (snd (run_loads xs Map.empty)))
    \<and> card (cache_keys (snd (run_loads xs Map.empty))) \<le> card (key_of ` snd ` set xs)
    \<and> card (key_of ` snd ` set xs) \<le> length xs"
proof -
  let ?K = "key_of ` snd ` set xs"
  have sub: "cache_keys (snd (run_loads xs Map.empty)) \<subseteq> ?K"
    using run_loads_keys [of Map.empty xs] by simp
  have fin: "finite ?K"
    by simp
  have "card ?K \<le> card (set xs)"
    by (simp add: image_image card_image_le)
  also have "\<dots> \<le> length xs"
    by (rule card_length)
  finally have "card ?K \<le> length xs" .
  with sub fin show ?thesis
    by (auto intro: finite_subset card_mono)
qed

end
