(* ===== verification/JS_Regex.thy ===== *)
theory JS_Regex
  imports Sass_Prelude
begin

text \<open>
  The regular expressions of \<^verbatim>\<open>src/src/plugin.ts\<close> are the filters of its
  hooks.  This theory gives the fragment of JavaScript's regular expressions
  they are written in (characters, character classes and negated classes,
  sequence, alternation, the optional operator, and the anchors \<^verbatim>\<open>^\<close> and
  \<^verbatim>\<open>$\<close> at the two ends), its meaning as a set of strings, and \<^verbatim>\<open>test\<close>:
  whether some part of a string, placed as the anchors demand, is in that set.

  The matcher is executable: it works by derivatives and is proved equal to the
  set-based meaning, so a filter can be evaluated on a concrete specifier and
  reasoned about through its language.
\<close>

section \<open>Syntax and meaning\<close>

datatype rx =
    Never
  | Eps
  | Chr char
  | OneOf "char list"
  | NoneOf "char list"
  | Seq rx rx
  | Alt rx rx
  | Opt rx

record js_regex =
  at_start :: bool
  rx_body :: rx
  at_end :: bool

primrec lang :: "rx \<Rightarrow> string set" where
  "lang Never = {}"
| "lang Eps = {[]}"
| "lang (Chr c) = {[c]}"
| "lang (OneOf cs) = {[c] | c. c \<in> set cs}"
| "lang (NoneOf cs) = {[c] | c. c \<notin> set cs}"
| "lang (Seq r s) = {u @ v | u v. u \<in> lang r \<and> v \<in> lang s}"
| "lang (Alt r s) = lang r \<union> lang s"
| "lang (Opt r) = insert [] (lang r)"

text \<open>A word as a sequence of its characters.\<close>

primrec Str :: "string \<Rightarrow> rx" where
  "Str [] = Eps"
| "Str (c # cs) = Seq (Chr c) (Str cs)"

section \<open>Matching by derivatives\<close>

primrec nullable :: "rx \<Rightarrow> bool" where
  "nullable Never = False"
| "nullable Eps = True"
| "nullable (Chr c) = False"
| "nullable (OneOf cs) = False"
| "nullable (NoneOf cs) = False"
| "nullable (Seq r s) = (nullable r \<and> nullable s)"
| "nullable (Alt r s) = (nullable r \<or> nullable s)"
| "nullable (Opt r) = True"

primrec deriv :: "char \<Rightarrow> rx \<Rightarrow> rx" where
  "deriv c Never = Never"
| "deriv c Eps = Never"
| "deriv c (Chr d) = (if c = d then Eps else Never)"
| "deriv c (OneOf cs) = (if c \<in> set cs then Eps else Never)"
| "deriv c (NoneOf cs) = (if c \<in> set cs then Never else Eps)"
| "deriv c (Seq r s) =
    (if nullable r then Alt (Seq (deriv c r) s) (deriv c s) else Seq (deriv c r) s)"
| "deriv c (Alt r s) = Alt (deriv c r) (deriv c s)"
| "deriv c (Opt r) = deriv c r"

text \<open>The whole string; a prefix of it; a suffix of it; any part of it.\<close>

fun matches :: "rx \<Rightarrow> string \<Rightarrow> bool" where
  "matches r [] = nullable r"
| "matches r (c # s) = matches (deriv c r) s"

fun match_prefix :: "rx \<Rightarrow> string \<Rightarrow> bool" where
  "match_prefix r [] = nullable r"
| "match_prefix r (c # s) = (nullable r \<or> match_prefix (deriv c r) s)"

fun match_suffix :: "rx \<Rightarrow> string \<Rightarrow> bool" where
  "match_suffix r [] = nullable r"
| "match_suffix r (c # s) = (matches r (c # s) \<or> match_suffix r s)"

fun match_part :: "rx \<Rightarrow> string \<Rightarrow> bool" where
  "match_part r [] = nullable r"
| "match_part r (c # s) = (match_prefix r (c # s) \<or> match_part r s)"

text \<open>\<^verbatim>\<open>RegExp.prototype.test\<close> for a regular expression without flags.\<close>

definition test :: "js_regex \<Rightarrow> string \<Rightarrow> bool" where
  "test re s =
    (if at_start re then
       (if at_end re then matches (rx_body re) s else match_prefix (rx_body re) s)
     else
       (if at_end re then match_suffix (rx_body re) s else match_part (rx_body re) s))"

section \<open>The matcher computes the meaning\<close>

lemma nullable_iff: "nullable r \<longleftrightarrow> [] \<in> lang r"
  by (induction r) auto

lemma lang_deriv: "lang (deriv c r) = {s. c # s \<in> lang r}"
proof (induction r)
  case (Seq r1 r2)
  have "{s. c # s \<in> lang (Seq r1 r2)}
      = {u @ v | u v. c # u \<in> lang r1 \<and> v \<in> lang r2} \<union> {s. [] \<in> lang r1 \<and> c # s \<in> lang r2}"
    by (auto simp: Cons_eq_append_conv)
  with Seq show ?case
    by (auto simp: nullable_iff)
qed auto

lemma matches_iff_lang: "matches r s \<longleftrightarrow> s \<in> lang r"
  by (induction s arbitrary: r) (simp_all add: nullable_iff lang_deriv)

lemma match_prefix_iff: "match_prefix r s \<longleftrightarrow> (\<exists>v w. s = v @ w \<and> v \<in> lang r)"
proof (induction s arbitrary: r)
  case Nil
  show ?case by (simp add: nullable_iff)
next
  case (Cons c s)
  have "(\<exists>v w. c # s = v @ w \<and> v \<in> lang r)
      \<longleftrightarrow> [] \<in> lang r \<or> (\<exists>v w. s = v @ w \<and> c # v \<in> lang r)"
    by (auto simp: Cons_eq_append_conv)
  with Cons show ?case
    by (simp add: nullable_iff lang_deriv)
qed

lemma match_suffix_iff: "match_suffix r s \<longleftrightarrow> (\<exists>u v. s = u @ v \<and> v \<in> lang r)"
proof (induction s)
  case Nil
  show ?case by (simp add: nullable_iff)
next
  case (Cons c s)
  have "(\<exists>u v. c # s = u @ v \<and> v \<in> lang r)
      \<longleftrightarrow> c # s \<in> lang r \<or> (\<exists>u v. s = u @ v \<and> v \<in> lang r)"
    by (auto simp: Cons_eq_append_conv)
  with Cons show ?case
    by (simp add: matches_iff_lang [symmetric])
qed

lemma match_part_iff: "match_part r s \<longleftrightarrow> (\<exists>u v w. s = u @ v @ w \<and> v \<in> lang r)"
proof (induction s)
  case Nil
  show ?case by (simp add: nullable_iff)
next
  case (Cons c s)
  have "(\<exists>u v w. c # s = u @ v @ w \<and> v \<in> lang r)
      \<longleftrightarrow> (\<exists>v w. c # s = v @ w \<and> v \<in> lang r) \<or> (\<exists>u v w. s = u @ v @ w \<and> v \<in> lang r)"
    (is "?L \<longleftrightarrow> ?P \<or> ?R")
  proof
    assume ?L
    then obtain u v w where "c # s = u @ v @ w" "v \<in> lang r"
      by blast
    then show "?P \<or> ?R"
      by (cases u) auto
  next
    assume "?P \<or> ?R"
    then show ?L
    proof
      assume ?P
      then obtain v w where "c # s = [] @ v @ w" and v: "v \<in> lang r"
        by auto
      then show ?L by blast
    next
      assume ?R
      then obtain u v w where "s = u @ v @ w" and v: "v \<in> lang r"
        by blast
      then have "c # s = (c # u) @ v @ w" by simp
      with v show ?L by blast
    qed
  qed
  with Cons show ?case
    by (simp only: match_part.simps match_prefix_iff)
qed

text \<open>
  The four cases of \<open>test\<close> in one statement: some part \<open>v\<close> of the string is in
  the language, with nothing before it if the expression starts with \<^verbatim>\<open>^\<close>
  and nothing after it if it ends with \<^verbatim>\<open>$\<close>.
\<close>

lemma test_iff:
  "test re s \<longleftrightarrow>
    (\<exists>u v w. s = u @ v @ w \<and> v \<in> lang (rx_body re)
       \<and> (at_start re \<longrightarrow> u = []) \<and> (at_end re \<longrightarrow> w = []))"
proof (cases "at_start re"; cases "at_end re")
  assume "at_start re" "at_end re"
  then show ?thesis
    by (auto simp: test_def matches_iff_lang)
next
  assume "at_start re" "\<not> at_end re"
  then show ?thesis
    by (auto simp: test_def match_prefix_iff)
next
  assume "\<not> at_start re" "at_end re"
  then show ?thesis
    by (auto simp: test_def match_suffix_iff)
next
  assume "\<not> at_start re" "\<not> at_end re"
  then show ?thesis
    by (simp add: test_def match_part_iff)
qed

section \<open>Languages of common shapes\<close>

lemma lang_Str [simp]: "lang (Str w) = {w}"
  by (induction w) auto

lemma lang_Seq_Chr [simp]: "lang (Seq (Chr c) r) = image ((#) c) (lang r)"
  by auto

lemma lang_Seq_OneOf: "lang (Seq (OneOf cs) r) = {c # v | c v. c \<in> set cs \<and> v \<in> lang r}"
proof (intro set_eqI iffI)
  fix s
  assume "s \<in> lang (Seq (OneOf cs) r)"
  then obtain c v where "s = [c] @ v" "c \<in> set cs" "v \<in> lang r"
    by auto
  then show "s \<in> {c # v | c v. c \<in> set cs \<and> v \<in> lang r}"
    by auto
next
  fix s
  assume "s \<in> {c # v | c v. c \<in> set cs \<and> v \<in> lang r}"
  then obtain c v where "s = [c] @ v" "[c] \<in> lang (OneOf cs)" "v \<in> lang r"
    by auto
  then show "s \<in> lang (Seq (OneOf cs) r)"
    unfolding lang.simps(6) by blast
qed

lemma lang_Seq_NoneOf: "lang (Seq (NoneOf cs) r) = {c # v | c v. c \<notin> set cs \<and> v \<in> lang r}"
proof (intro set_eqI iffI)
  fix s
  assume "s \<in> lang (Seq (NoneOf cs) r)"
  then obtain c v where "s = [c] @ v" "c \<notin> set cs" "v \<in> lang r"
    by auto
  then show "s \<in> {c # v | c v. c \<notin> set cs \<and> v \<in> lang r}"
    by auto
next
  fix s
  assume "s \<in> {c # v | c v. c \<notin> set cs \<and> v \<in> lang r}"
  then obtain c v where "s = [c] @ v" "[c] \<in> lang (NoneOf cs)" "v \<in> lang r"
    by auto
  then show "s \<in> lang (Seq (NoneOf cs) r)"
    unfolding lang.simps(6) by blast
qed

lemma lang_Seq_Opt: "lang (Seq (Opt r) s) = lang s \<union> lang (Seq r s)"
proof (intro set_eqI iffI)
  fix w
  assume "w \<in> lang (Seq (Opt r) s)"
  then obtain u v where w: "w = u @ v" and "u = [] \<or> u \<in> lang r" and v: "v \<in> lang s"
    by auto
  then show "w \<in> lang s \<union> lang (Seq r s)"
    by auto
next
  fix w
  assume "w \<in> lang s \<union> lang (Seq r s)"
  then have "\<exists>u v. w = u @ v \<and> u \<in> lang (Opt r) \<and> v \<in> lang s"
  proof
    assume "w \<in> lang s"
    then have "w = [] @ w \<and> [] \<in> lang (Opt r) \<and> w \<in> lang s" by simp
    then show ?thesis by blast
  next
    assume "w \<in> lang (Seq r s)"
    then obtain u v where "w = u @ v" "u \<in> lang r" "v \<in> lang s" by auto
    then have "w = u @ v \<and> u \<in> lang (Opt r) \<and> v \<in> lang s" by simp
    then show ?thesis by blast
  qed
  then show "w \<in> lang (Seq (Opt r) s)"
    by simp
qed

lemma test_anchored_start:
  "at_start re \<Longrightarrow> \<not> at_end re \<Longrightarrow> test re s \<longleftrightarrow> (\<exists>v \<in> lang (rx_body re). startsWith s v)"
  by (auto simp: test_iff startsWith_iff_prefix prefix_def)

lemma test_anchored_end:
  "\<not> at_start re \<Longrightarrow> at_end re \<Longrightarrow> test re s \<longleftrightarrow> (\<exists>v \<in> lang (rx_body re). endsWith s v)"
  by (auto simp: test_iff endsWith_iff_suffix suffix_def)

section \<open>Matching at the start, constructor by constructor\<close>

text \<open>
  The filters anchored at the start are sequences of characters and classes;
  these equations let \<open>simp\<close> read such a filter off the first characters of a
  string.
\<close>

lemma match_prefix_Never [simp]: "\<not> match_prefix Never s"
  by (simp add: match_prefix_iff)

lemma match_prefix_Eps [simp]: "match_prefix Eps s"
  by (simp add: match_prefix_iff)

lemma match_prefix_Seq_Never [simp]: "\<not> match_prefix (Seq Never r) s"
  by (simp add: match_prefix_iff)

lemma match_prefix_Seq_Eps [simp]: "match_prefix (Seq Eps r) s = match_prefix r s"
  by (simp add: match_prefix_iff)

lemma match_prefix_Alt: "match_prefix (Alt r q) s \<longleftrightarrow> match_prefix r s \<or> match_prefix q s"
  by (auto simp: match_prefix_iff)

lemma match_prefix_Chr: "match_prefix (Chr c) s \<longleftrightarrow> (\<exists>t. s = c # t)"
  by (cases s) auto

lemma match_prefix_NoneOf: "match_prefix (NoneOf cs) s \<longleftrightarrow> (\<exists>c t. s = c # t \<and> c \<notin> set cs)"
  by (cases s) auto

lemma match_prefix_OneOf: "match_prefix (OneOf cs) s \<longleftrightarrow> (\<exists>c t. s = c # t \<and> c \<in> set cs)"
  by (cases s) auto

lemma match_prefix_Seq_Chr:
  "match_prefix (Seq (Chr c) r) s \<longleftrightarrow> (\<exists>t. s = c # t \<and> match_prefix r t)"
  by (cases s) auto

lemma match_prefix_Seq_Opt:
  "match_prefix (Seq (Opt r) q) s \<longleftrightarrow> match_prefix q s \<or> match_prefix (Seq r q) s"
  unfolding match_prefix_iff lang_Seq_Opt by blast

lemmas match_prefix_simps =
  match_prefix_Alt match_prefix_Chr match_prefix_NoneOf match_prefix_OneOf
  match_prefix_Seq_Chr match_prefix_Seq_Opt

end
