(* ===== verification/JS_Replace.thy ===== *)
theory JS_Replace
  imports JS_Regex
begin

text \<open>
  \<^verbatim>\<open>String.prototype.replace\<close> with a regular expression and a replacement
  template, as \<^verbatim>\<open>src/src/plugin.ts\<close> calls it to escape CSS text (lines 11
  and 18, with the flag \<^verbatim>\<open>g\<close>) and to rewrite a leading tilde (line 94).

  A match is found the way the language defines it: by a backtracking matcher
  that tries the alternatives of an expression in their order and hands what
  is left of the string to a continuation.  The search tries the positions of
  the string from the left; a global replacement continues after each match
  and moves on by one character after an empty one, which is why it ends.
  The replacement template is expanded by \<open>expand\<close>, the operation
  \<^verbatim>\<open>GetSubstitution\<close> of the language.  Expressions have no construct for
  groups: the captures of a match are a function of the matched text, given
  with the expression (in the one expression of the source that has a group,
  the group is the whole expression).

  The theory relates the backtracking matcher to the meaning of expressions
  in \<open>JS_Regex\<close>; the component theories prove their own routines equal to
  the replacement defined here.
\<close>

section \<open>Matching with continuations\<close>

primrec bt :: "rx \<Rightarrow> string \<Rightarrow> (string \<Rightarrow> string option) \<Rightarrow> string option" where
  "bt Never s k = None"
| "bt Eps s k = k s"
| "bt (Chr c) s k = (case s of [] \<Rightarrow> None | d # t \<Rightarrow> if d = c then k t else None)"
| "bt (OneOf cs) s k = (case s of [] \<Rightarrow> None | d # t \<Rightarrow> if d \<in> set cs then k t else None)"
| "bt (NoneOf cs) s k = (case s of [] \<Rightarrow> None | d # t \<Rightarrow> if d \<notin> set cs then k t else None)"
| "bt (Seq r q) s k = bt r s (\<lambda>t. bt q t k)"
| "bt (Alt r q) s k = (case bt r s k of Some x \<Rightarrow> Some x | None \<Rightarrow> bt q s k)"
| "bt (Opt r) s k = (case bt r s k of Some x \<Rightarrow> Some x | None \<Rightarrow> k s)"

text \<open>
  A match at the current position: \<open>b\<close> is the part of the string before the
  position and \<open>s\<close> the part from it on; the result is what follows the match.
\<close>

definition match_here :: "js_regex \<Rightarrow> string \<Rightarrow> string \<Rightarrow> string option" where
  "match_here re b s =
    (if at_start re \<and> b \<noteq> [] then None
     else bt (rx_body re) s (\<lambda>t. if at_end re \<and> t \<noteq> [] then None else Some t))"

definition matched :: "string \<Rightarrow> string \<Rightarrow> string" where
  "matched s rest = take (length s - length rest) s"

text \<open>The first match from the left: what precedes it, the match, what follows it.\<close>

fun search :: "js_regex \<Rightarrow> string \<Rightarrow> string \<Rightarrow> (string \<times> string \<times> string) option" where
  "search re b [] =
    (case match_here re b [] of Some rest \<Rightarrow> Some (b, [], rest) | None \<Rightarrow> None)"
| "search re b (c # t) =
    (case match_here re b (c # t) of
       Some rest \<Rightarrow> Some (b, matched (c # t) rest, rest)
     | None \<Rightarrow> search re (b @ [c]) t)"

section \<open>The replacement template\<close>

definition digit_of :: "char \<Rightarrow> nat option" where
  "digit_of c =
    map_of [(CHR ''0'', 0), (CHR ''1'', 1), (CHR ''2'', 2), (CHR ''3'', 3), (CHR ''4'', 4),
            (CHR ''5'', 5), (CHR ''6'', 6), (CHR ''7'', 7), (CHR ''8'', 8), (CHR ''9'', 9)] c"

text \<open>The capture with the number \<open>n\<close>, if the expression has that many groups.\<close>

definition capture :: "string list \<Rightarrow> nat \<Rightarrow> string option" where
  "capture caps n = (if 1 \<le> n \<and> n \<le> length caps then Some (caps ! (n - 1)) else None)"

fun expand :: "string \<Rightarrow> string \<Rightarrow> string \<Rightarrow> string list \<Rightarrow> string \<Rightarrow> string" where
  "expand m b a caps (c # d # t) =
    (if c \<noteq> DOLLAR then c # expand m b a caps (d # t)
     else if d = DOLLAR then DOLLAR # expand m b a caps t
     else if d = CHR ''&'' then m @ expand m b a caps t
     else if d = BACKTICK then b @ expand m b a caps t
     else if d = CHR 0x27 then a @ expand m b a caps t
     else
       (case digit_of d of
          None \<Rightarrow> c # expand m b a caps (d # t)
        | Some n1 \<Rightarrow>
            (case t of
               [] \<Rightarrow>
                 (case capture caps n1 of
                    Some g \<Rightarrow> g
                  | None \<Rightarrow> [c, d])
             | e # t' \<Rightarrow>
                 (case (case digit_of e of None \<Rightarrow> None | Some n2 \<Rightarrow> capture caps (10 * n1 + n2)) of
                    Some g \<Rightarrow> g @ expand m b a caps t'
                  | None \<Rightarrow>
                      (case capture caps n1 of
                         Some g \<Rightarrow> g @ expand m b a caps (e # t')
                       | None \<Rightarrow> c # d # expand m b a caps (e # t'))))))"
| "expand m b a caps t = t"

section \<open>Replacement\<close>

text \<open>
  \<open>caps\<close> gives the captures of a match from its text: the expressions of the
  source have no group or one group around the whole expression.
\<close>

definition js_replace :: "js_regex \<Rightarrow> (string \<Rightarrow> string list) \<Rightarrow> string \<Rightarrow> string \<Rightarrow> string" where
  "js_replace re caps template s =
    (case search re [] s of
       None \<Rightarrow> s
     | Some (b, m, a) \<Rightarrow> b @ expand m b a (caps m) template @ a)"

function replace_from ::
  "js_regex \<Rightarrow> (string \<Rightarrow> string list) \<Rightarrow> string \<Rightarrow> string \<Rightarrow> string \<Rightarrow> string" where
  "replace_from re caps template b s =
    (case match_here re b s of
       None \<Rightarrow>
         (case s of [] \<Rightarrow> [] | c # t \<Rightarrow> c # replace_from re caps template (b @ [c]) t)
     | Some rest \<Rightarrow>
         expand (matched s rest) b rest (caps (matched s rest)) template @
           (if length rest < length s
            then replace_from re caps template (b @ matched s rest) rest
            else (case s of [] \<Rightarrow> [] | c # t \<Rightarrow> c # replace_from re caps template (b @ [c]) t)))"
  by pat_completeness auto
termination
  by (relation "measure (\<lambda>(re, caps, template, b, s). length s)") auto

declare replace_from.simps [simp del]

definition js_replace_all :: "js_regex \<Rightarrow> (string \<Rightarrow> string list) \<Rightarrow> string \<Rightarrow> string \<Rightarrow> string" where
  "js_replace_all re caps template s = replace_from re caps template [] s"

section \<open>The backtracking matcher and the meaning of expressions\<close>

lemma bt_sound:
  "bt r s k = Some y \<Longrightarrow> \<exists>v t. s = v @ t \<and> v \<in> lang r \<and> k t = Some y"
proof (induction r arbitrary: s k y)
  case (Seq r q)
  from Seq.prems have "bt r s (\<lambda>t. bt q t k) = Some y" by simp
  from Seq.IH(1) [OF this] obtain v t where "s = v @ t" "v \<in> lang r" "bt q t k = Some y"
    by blast
  moreover from Seq.IH(2) [OF \<open>bt q t k = Some y\<close>]
  obtain v' t' where "t = v' @ t'" "v' \<in> lang q" "k t' = Some y"
    by blast
  ultimately have "s = (v @ v') @ t'" "v @ v' \<in> lang (Seq r q)" "k t' = Some y"
    by auto
  then show ?case by blast
next
  case (Alt r q)
  then show ?case
    by (fastforce split: option.splits)
next
  case (Opt r)
  then show ?case
    by (fastforce split: option.splits)
next
  case (OneOf cs)
  then obtain d t where "s = [d] @ t" "d \<in> set cs" "k t = Some y"
    by (auto split: list.splits if_splits)
  then show ?case by (intro exI [of _ "[d]"] exI [of _ t]) simp
next
  case (NoneOf cs)
  then obtain d t where "s = [d] @ t" "d \<notin> set cs" "k t = Some y"
    by (auto split: list.splits if_splits)
  then show ?case by (intro exI [of _ "[d]"] exI [of _ t]) simp
qed (auto split: list.splits if_splits)

lemma bt_complete:
  "v \<in> lang r \<Longrightarrow> k t \<noteq> None \<Longrightarrow> bt r (v @ t) k \<noteq> None"
proof (induction r arbitrary: v t k)
  case (Seq r q)
  from Seq.prems(1) obtain v1 v2 where v: "v = v1 @ v2" "v1 \<in> lang r" "v2 \<in> lang q"
    by auto
  from v(3) Seq.prems(2) have "bt q (v2 @ t) k \<noteq> None"
    using Seq.IH(2) [of v2 k t] by simp
  with v(2) have "bt r (v1 @ v2 @ t) (\<lambda>u. bt q u k) \<noteq> None"
    using Seq.IH(1) [of v1 "\<lambda>u. bt q u k" "v2 @ t"] by simp
  with v(1) show ?case by simp
next
  case (Alt r q)
  from Alt.prems(1) have "v \<in> lang r \<or> v \<in> lang q" by simp
  then show ?case
  proof
    assume "v \<in> lang r"
    with Alt.IH(1) [of v k t] Alt.prems(2) show ?thesis
      by (auto split: option.splits)
  next
    assume "v \<in> lang q"
    with Alt.IH(2) [of v k t] Alt.prems(2) show ?thesis
      by (auto split: option.splits)
  qed
next
  case (Opt r)
  from Opt.prems(1) have "v = [] \<or> v \<in> lang r" by simp
  then show ?case
  proof
    assume "v = []"
    with Opt.prems(2) show ?thesis
      by (auto split: option.splits)
  next
    assume "v \<in> lang r"
    with Opt.IH [of v k t] Opt.prems(2) show ?thesis
      by (auto split: option.splits)
  qed
qed auto

lemma bt_Some_iff:
  "(\<exists>y. bt r s k = Some y) \<longleftrightarrow> (\<exists>v t. s = v @ t \<and> v \<in> lang r \<and> k t \<noteq> None)"
proof
  assume "\<exists>y. bt r s k = Some y"
  then obtain y where "bt r s k = Some y" ..
  from bt_sound [OF this] show "\<exists>v t. s = v @ t \<and> v \<in> lang r \<and> k t \<noteq> None"
    by force
next
  assume "\<exists>v t. s = v @ t \<and> v \<in> lang r \<and> k t \<noteq> None"
  then obtain v t where "s = v @ t" "v \<in> lang r" "k t \<noteq> None"
    by blast
  with bt_complete [of v r k t] show "\<exists>y. bt r s k = Some y"
    by auto
qed

lemma match_here_sound:
  assumes "match_here re b s = Some rest"
  shows "\<exists>v. s = v @ rest \<and> v \<in> lang (rx_body re)"
    and "at_start re \<longrightarrow> b = []" and "at_end re \<longrightarrow> rest = []"
proof -
  from assms have start: "at_start re \<longrightarrow> b = []"
    and "bt (rx_body re) s (\<lambda>t. if at_end re \<and> t \<noteq> [] then None else Some t) = Some rest"
    by (auto simp: match_here_def split: if_splits)
  from bt_sound [OF this(2)] obtain v t where "s = v @ t" "v \<in> lang (rx_body re)"
    and "(if at_end re \<and> t \<noteq> [] then None else Some t) = Some rest"
    by blast
  then show "\<exists>v. s = v @ rest \<and> v \<in> lang (rx_body re)" "at_end re \<longrightarrow> rest = []"
    by (auto split: if_splits)
  from start show "at_start re \<longrightarrow> b = []" .
qed

lemma match_here_Some_iff:
  "(\<exists>rest. match_here re b s = Some rest) \<longleftrightarrow>
    (at_start re \<longrightarrow> b = []) \<and>
    (\<exists>v t. s = v @ t \<and> v \<in> lang (rx_body re) \<and> (at_end re \<longrightarrow> t = []))"
  by (auto simp: match_here_def bt_Some_iff)

lemma match_here_length: "match_here re b s = Some rest \<Longrightarrow> length rest \<le> length s"
  by (auto dest: match_here_sound(1))

lemma matched_append [simp]: "matched (v @ rest) rest = v"
  by (simp add: matched_def)

lemma matched_self [simp]: "matched s s = []"
  by (simp add: matched_def)

lemma matched_Cons [simp]: "matched (c # t) t = [c]"
  by (simp add: matched_def)

text \<open>The search finds a match exactly when \<open>test\<close> says there is one.\<close>

lemma search_Some_iff:
  "(\<exists>x. search re b s = Some x) \<longleftrightarrow>
    (\<exists>u v w. s = u @ v @ w \<and> v \<in> lang (rx_body re)
       \<and> (at_start re \<longrightarrow> b = [] \<and> u = []) \<and> (at_end re \<longrightarrow> w = []))"
proof (induction s arbitrary: b)
  case Nil
  have "(\<exists>x. search re b [] = Some x) \<longleftrightarrow> (\<exists>rest. match_here re b [] = Some rest)"
    by (auto split: option.splits)
  then show ?case
    by (auto simp: match_here_Some_iff)
next
  case (Cons c s)
  have here: "(\<exists>rest. match_here re b (c # s) = Some rest) \<longleftrightarrow>
      (at_start re \<longrightarrow> b = []) \<and>
      (\<exists>v w. c # s = v @ w \<and> v \<in> lang (rx_body re) \<and> (at_end re \<longrightarrow> w = []))"
    by (rule match_here_Some_iff)
  have later: "(\<exists>x. search re (b @ [c]) s = Some x) \<longleftrightarrow>
      (\<exists>u v w. s = u @ v @ w \<and> v \<in> lang (rx_body re)
         \<and> \<not> at_start re \<and> (at_end re \<longrightarrow> w = []))"
    unfolding Cons.IH by simp
  have "(\<exists>x. search re b (c # s) = Some x) \<longleftrightarrow>
      (\<exists>rest. match_here re b (c # s) = Some rest) \<or> (\<exists>x. search re (b @ [c]) s = Some x)"
    by (cases "match_here re b (c # s)") simp_all
  also have "\<dots> \<longleftrightarrow>
      ((at_start re \<longrightarrow> b = []) \<and>
       (\<exists>v w. c # s = v @ w \<and> v \<in> lang (rx_body re) \<and> (at_end re \<longrightarrow> w = []))) \<or>
      (\<exists>u v w. s = u @ v @ w \<and> v \<in> lang (rx_body re)
         \<and> \<not> at_start re \<and> (at_end re \<longrightarrow> w = []))"
    by (simp only: here later)
  also have "\<dots> \<longleftrightarrow>
      (\<exists>u v w. c # s = u @ v @ w \<and> v \<in> lang (rx_body re)
         \<and> (at_start re \<longrightarrow> b = [] \<and> u = []) \<and> (at_end re \<longrightarrow> w = []))"
    (is "?L \<longleftrightarrow> ?R")
  proof
    assume ?L
    then show ?R
    proof
      assume "(at_start re \<longrightarrow> b = []) \<and>
        (\<exists>v w. c # s = v @ w \<and> v \<in> lang (rx_body re) \<and> (at_end re \<longrightarrow> w = []))"
      then obtain v w where "c # s = [] @ v @ w" "v \<in> lang (rx_body re)"
        "at_start re \<longrightarrow> b = []" "at_end re \<longrightarrow> w = []"
        by auto
      then show ?R by blast
    next
      assume "\<exists>u v w. s = u @ v @ w \<and> v \<in> lang (rx_body re)
        \<and> \<not> at_start re \<and> (at_end re \<longrightarrow> w = [])"
      then obtain u v w where "c # s = (c # u) @ v @ w" "v \<in> lang (rx_body re)"
        "\<not> at_start re" "at_end re \<longrightarrow> w = []"
        by auto
      then show ?R by blast
    qed
  next
    assume ?R
    then obtain u v w where uvw: "c # s = u @ v @ w" "v \<in> lang (rx_body re)"
      "at_start re \<longrightarrow> b = [] \<and> u = []" "at_end re \<longrightarrow> w = []"
      by blast
    show ?L
    proof (cases u)
      case Nil
      with uvw show ?thesis by auto
    next
      case (Cons d u')
      with uvw have "s = u' @ v @ w" "\<not> at_start re" by auto
      with uvw(2,4) show ?thesis by blast
    qed
  qed
  finally show ?case .
qed

text \<open>An expression anchored at the start matches at the first position or not at all.\<close>

lemma search_anchored_later: "at_start re \<Longrightarrow> b \<noteq> [] \<Longrightarrow> search re b s = None"
  by (induction s arbitrary: b) (simp_all add: match_here_def)

lemma search_iff_test: "(\<exists>x. search re [] s = Some x) \<longleftrightarrow> test re s"
  unfolding search_Some_iff test_iff by simp

lemma search_sound:
  "search re b s = Some (b', m, a) \<Longrightarrow> b @ s = b' @ m @ a \<and> m \<in> lang (rx_body re)"
proof (induction s arbitrary: b)
  case Nil
  then obtain rest where "match_here re b [] = Some rest" "b' = b" "m = []" "a = rest"
    by (auto split: option.splits)
  with match_here_sound(1) [OF this(1)] show ?case by auto
next
  case (Cons c s)
  show ?case
  proof (cases "match_here re b (c # s)")
    case None
    with Cons.prems have "search re (b @ [c]) s = Some (b', m, a)" by simp
    from Cons.IH [OF this] show ?thesis by simp
  next
    case (Some rest)
    from match_here_sound(1) [OF Some] obtain v where v: "c # s = v @ rest" "v \<in> lang (rx_body re)"
      by blast
    from Some Cons.prems have "b' = b" "m = matched (c # s) rest" "a = rest"
      by auto
    with v show ?thesis by simp
  qed
qed

section \<open>Templates\<close>

lemma expand_plain: "DOLLAR \<notin> set t \<Longrightarrow> expand m b a caps t = t"
  by (induction m b a caps t rule: expand.induct) auto

lemma digit_of_simps [simp]:
  "digit_of CHR ''1'' = Some 1" "digit_of DOLLAR = None" "digit_of BACKSLASH = None"
  by (simp_all add: digit_of_def)

lemma capture_simps [simp]:
  "capture [] n = None" "capture [g] (Suc 0) = Some g"
  by (simp_all add: capture_def)

section \<open>Replacement without a match, and with empty matches\<close>

lemma js_replace_no_match: "\<not> test re s \<Longrightarrow> js_replace re caps template s = s"
  using search_iff_test [of re s] by (auto simp: js_replace_def split: option.splits)

lemma replace_from_Nil:
  "replace_from re caps template b [] =
    (case match_here re b [] of None \<Rightarrow> [] | Some rest \<Rightarrow> expand [] b rest (caps []) template)"
proof (cases "match_here re b []")
  case None
  then show ?thesis by (simp add: replace_from.simps [of re caps template b "[]"])
next
  case (Some rest)
  with match_here_length [OF Some] show ?thesis
    by (simp add: replace_from.simps [of re caps template b "[]"])
qed

text \<open>No match at this position: the character is copied.\<close>

lemma replace_from_skip:
  "match_here re b (c # t) = None \<Longrightarrow>
    replace_from re caps template b (c # t) = c # replace_from re caps template (b @ [c]) t"
  by (simp add: replace_from.simps [of re caps template b "c # t"])

text \<open>A match of one or more characters: the expansion, then the rest from after the match.\<close>

lemma replace_from_match:
  assumes "match_here re b (v @ rest) = Some rest" and "v \<noteq> []"
  shows "replace_from re caps template b (v @ rest) =
    expand v b rest (caps v) template @ replace_from re caps template (b @ v) rest"
  using assms by (simp add: replace_from.simps [of re caps template b "v @ rest"])

text \<open>An empty match: the expansion, then the character, and on from the next position.\<close>

lemma replace_from_empty_match:
  assumes "match_here re b (c # t) = Some (c # t)"
  shows "replace_from re caps template b (c # t) =
    expand [] b (c # t) (caps []) template @ c # replace_from re caps template (b @ [c]) t"
  using assms by (simp add: replace_from.simps [of re caps template b "c # t"])

section \<open>Expressions that match the empty string\<close>

text \<open>
  The branch of the loop that no expression of the source reaches: after an
  empty match the scan copies one character and continues behind it.  For the
  empty expression and a template without dollar signs the result is the
  template before every character of the string and once more at its end.
\<close>

lemma replace_empty_matches:
  assumes "DOLLAR \<notin> set template"
  shows "replace_from \<lparr>at_start = False, rx_body = Eps, at_end = False\<rparr> caps template b s
    = concat (map (\<lambda>c. template @ [c]) s) @ template"
proof (induction s arbitrary: b)
  case Nil
  from assms show ?case
    by (simp add: replace_from_Nil match_here_def expand_plain)
next
  case (Cons c s)
  have "match_here \<lparr>at_start = False, rx_body = Eps, at_end = False\<rparr> b (c # s) = Some (c # s)"
    by (simp add: match_here_def)
  from replace_from_empty_match [OF this] assms Cons.IH show ?case
    by (simp add: expand_plain)
qed

lemma replace_empty_matches_example:
  "js_replace_all \<lparr>at_start = False, rx_body = Eps, at_end = False\<rparr> (\<lambda>m. []) ''-'' ''ab'' = ''-a-b-''"
  using replace_empty_matches [of "''-''" "\<lambda>m. []" "[]" "''ab''"]
  by (simp add: js_replace_all_def)

end
