(* ===== verification/Module_Builder.thy ===== *)
theory Module_Builder
  imports JS_Replace
begin

text \<open>
  The module builder of \<^verbatim>\<open>src/src/plugin.ts\<close> (lines 8 to 23): the escaping
  of CSS text for a template literal, the two JavaScript modules the text is
  wrapped in, and the choice between them.

  To say what escaping achieves, the theory also models how JavaScript reads a
  template literal without substitutions (ECMAScript, Template Literal Lexical
  Components): \<open>template_value\<close> takes the program text after the opening
  backtick and returns the string the literal denotes and the text after its
  closing backtick.  Only the escape sequences the builder can produce are
  read; any other is reported, not guessed.  The round-trip theorems say that
  the module's literal denotes the CSS text, up to the one change JavaScript
  makes in every template literal: a carriage return, alone or before a line
  feed, is read as a line feed.
\<close>

section \<open>Escaping\<close>

text \<open>
  The call of \<^verbatim>\<open>cssText.replace\<close> with the global expression for the class
  of the dollar sign, the backtick and the backslash, and the replacement
  \<^verbatim>\<open>"\\$1"\<close>: every dollar sign, backtick and backslash is preceded by a
  backslash; every other character is kept.
\<close>

definition is_special :: "char \<Rightarrow> bool" where
  "is_special c \<longleftrightarrow> c = DOLLAR \<or> c = BACKTICK \<or> c = BACKSLASH"

fun escape :: "string \<Rightarrow> string" where
  "escape [] = []"
| "escape (c # cs) = (if is_special c then BACKSLASH # c # escape cs else c # escape cs)"

section \<open>The two modules\<close>

text \<open>
  The call as the source writes it: the expression \<^verbatim>\<open>/([$...\\])/g\<close> is one
  group around the class of the three characters, and the replacement
  \<^verbatim>\<open>"\\$1"\<close> is a backslash followed by the reference to that group.
\<close>

definition escape_regex :: js_regex where
  "escape_regex =
    \<lparr>at_start = False, rx_body = OneOf [DOLLAR, BACKTICK, BACKSLASH], at_end = False\<rparr>"

definition escape_template :: string where
  "escape_template = [BACKSLASH, DOLLAR, CHR ''1'']"

definition escape_call :: "string \<Rightarrow> string" where
  "escape_call cssText = js_replace_all escape_regex (\<lambda>m. [m]) escape_template cssText"

definition css_module_head :: string where
  "css_module_head =
    ''import {css} from '' @ [DQUOTE] @ ''lit-element'' @ [DQUOTE] @ '';'' @ [LF]
    @ ''export default css''"

definition css_module_tail :: string where
  "css_module_tail = '';'' @ [LF]"

definition style_module_head :: string where
  "style_module_head =
    ''document.head'' @ [LF]
    @ ''    .appendChild(document.createElement('' @ [DQUOTE] @ ''style'' @ [DQUOTE] @ ''))'' @ [LF]
    @ ''    .appendChild(document.createTextNode(''"

definition style_module_tail :: string where
  "style_module_tail = ''));'' @ [LF]"

definition cssResultModule :: "string \<Rightarrow> string" where
  "cssResultModule cssText =
    css_module_head @ [BACKTICK, LF] @ escape cssText @ [BACKTICK] @ css_module_tail"

definition styleModule :: "string \<Rightarrow> string" where
  "styleModule cssText =
    style_module_head @ [BACKTICK, LF] @ escape cssText @ [BACKTICK] @ style_module_tail"

definition makeModule :: "string \<Rightarrow> string \<Rightarrow> string" where
  "makeModule contents type =
    (if type = ''style'' then styleModule contents else cssResultModule contents)"

section \<open>Reading a template literal\<close>

datatype tv_error = Unterminated | Substitution | UnsupportedEscape char

definition tv_cons :: "char \<Rightarrow> tv_error + string \<times> string \<Rightarrow> tv_error + string \<times> string" where
  "tv_cons c r = (case r of Inl e \<Rightarrow> Inl e | Inr (v, rest) \<Rightarrow> Inr (c # v, rest))"

fun template_value :: "string \<Rightarrow> tv_error + string \<times> string" where
  "template_value [] = Inl Unterminated"
| "template_value (c # cs) =
    (if c = BACKTICK then Inr ([], cs)
     else if c = BACKSLASH then
       (case cs of
          [] \<Rightarrow> Inl Unterminated
        | d # ds \<Rightarrow> if is_special d then tv_cons d (template_value ds) else Inl (UnsupportedEscape d))
     else if c = DOLLAR \<and> (case cs of [] \<Rightarrow> False | d # _ \<Rightarrow> d = CHR ''{'') then Inl Substitution
     else if c = CR then
       (case cs of
          [] \<Rightarrow> tv_cons LF (template_value cs)
        | d # ds \<Rightarrow> if d = LF then tv_cons LF (template_value ds) else tv_cons LF (template_value cs))
     else tv_cons c (template_value cs))"

text \<open>What JavaScript makes of the line ends of a template literal.\<close>

fun normalize_newlines :: "string \<Rightarrow> string" where
  "normalize_newlines [] = []"
| "normalize_newlines [c] = (if c = CR then [LF] else [c])"
| "normalize_newlines (c # d # cs) =
    (if c = CR then
       (if d = LF then LF # normalize_newlines cs else LF # normalize_newlines (d # cs))
     else c # normalize_newlines (d # cs))"

section \<open>Properties of escaping\<close>

lemma is_special_simps [simp]:
  "is_special DOLLAR" "is_special BACKTICK" "is_special BACKSLASH"
  "\<not> is_special CR" "\<not> is_special LF"
  by (simp_all add: is_special_def)

lemma escape_append [simp]: "escape (s @ t) = escape s @ escape t"
  by (induction s) simp_all

lemma escape_plain: "\<forall>c \<in> set s. \<not> is_special c \<Longrightarrow> escape s = s"
  by (induction s) simp_all

lemma length_escape: "length (escape s) = length s + length (filter is_special s)"
  by (induction s) simp_all

lemma escape_eq_Nil_iff [simp]: "escape s = [] \<longleftrightarrow> s = []"
  by (cases s) simp_all

lemma normalize_newlines_no_CR: "CR \<notin> set s \<Longrightarrow> normalize_newlines s = s"
  by (induction s rule: normalize_newlines.induct) auto

lemma length_normalize_newlines: "length (normalize_newlines s) \<le> length s"
  by (induction s rule: normalize_newlines.induct) auto

section \<open>Reading, character class by character class\<close>

lemma tv_cons_simps [simp]:
  "tv_cons c (Inl e) = Inl e"
  "tv_cons c (Inr (v, rest)) = Inr (c # v, rest)"
  by (simp_all add: tv_cons_def)

lemma tv_close [simp]: "template_value (BACKTICK # t) = Inr ([], t)"
  by simp

lemma tv_escaped: "is_special d \<Longrightarrow> template_value (BACKSLASH # d # t) = tv_cons d (template_value t)"
  by simp

lemma tv_plain:
  "\<not> is_special c \<Longrightarrow> c \<noteq> CR \<Longrightarrow> template_value (c # t) = tv_cons c (template_value t)"
  by (simp add: is_special_def)

lemma tv_CR_LF: "template_value (CR # LF # t) = tv_cons LF (template_value t)"
  by simp

lemma tv_CR_other:
  "(\<forall>ds. t \<noteq> LF # ds) \<Longrightarrow> template_value (CR # t) = tv_cons LF (template_value t)"
  by (cases t) simp_all

lemmas tv_steps = tv_escaped tv_plain tv_CR_LF tv_CR_other

declare template_value.simps [simp del]

lemma escape_not_LF_first: "d \<noteq> LF \<Longrightarrow> escape (d # cs) @ t \<noteq> LF # ds"
  by simp

text \<open>One character of CSS text, escaped and read back.\<close>

lemma tv_escape_char:
  assumes "c \<noteq> CR"
  shows "template_value (escape [c] @ t) = tv_cons c (template_value t)"
  using assms by (cases "is_special c") (simp_all add: tv_steps)

section \<open>The escaping as a replacement\<close>

lemma match_here_escape_regex:
  "match_here escape_regex b (c # t) = (if is_special c then Some t else None)"
  "match_here escape_regex b [] = None"
  by (auto simp: match_here_def escape_regex_def is_special_def)

lemma expand_escape_template: "expand [c] b a [[c]] escape_template = [BACKSLASH, c]"
  by (simp add: escape_template_def)

lemma replace_from_escape:
  "replace_from escape_regex (\<lambda>m. [m]) escape_template b s = escape s"
proof (induction s arbitrary: b)
  case Nil
  show ?case
    by (simp add: replace_from_Nil match_here_escape_regex)
next
  case (Cons c s)
  show ?case
  proof (cases "is_special c")
    case True
    then have "match_here escape_regex b ([c] @ s) = Some s"
      by (simp add: match_here_escape_regex)
    from replace_from_match [OF this] True Cons.IH show ?thesis
      by (simp add: expand_escape_template)
  next
    case False
    then have "match_here escape_regex b (c # s) = None"
      by (simp add: match_here_escape_regex)
    from replace_from_skip [OF this] False Cons.IH show ?thesis
      by simp
  qed
qed

text \<open>
  C14: The escaping is the replacement the source calls.  The global
  replacement of every match of the class of dollar sign, backtick and
  backslash by a backslash and the matched character, computed by the
  matcher and the template expansion of the language, is \<open>escape\<close>: each of
  the three characters gets one backslash before it, whatever surrounds it,
  and nothing else changes.
\<close>

theorem escape_is_replace: "escape_call cssText = escape cssText"
proof -
  have "escape_call cssText = replace_from escape_regex (\<lambda>m. [m]) escape_template [] cssText"
    by (simp add: escape_call_def js_replace_all_def)
  also have "\<dots> = escape cssText"
    by (rule replace_from_escape)
  finally show ?thesis .
qed

section \<open>Round trip\<close>

lemma template_value_escape:
  "template_value (escape s @ BACKTICK # rest) = Inr (normalize_newlines s, rest)"
proof (induction s rule: normalize_newlines.induct)
  case 1
  show ?case by simp
next
  case (2 c)
  show ?case
  proof (cases "c = CR")
    case True
    then show ?thesis by (simp add: tv_CR_other)
  next
    case False
    with tv_escape_char [OF False, of "BACKTICK # rest"] show ?thesis by simp
  qed
next
  case (3 c d cs)
  let ?t = "escape (d # cs) @ BACKTICK # rest"
  show ?case
  proof (cases "c = CR")
    case False
    then have IH: "template_value ?t = Inr (normalize_newlines (d # cs), rest)"
      by (rule "3.IH"(3))
    have "template_value (escape (c # d # cs) @ BACKTICK # rest) = template_value (escape [c] @ ?t)"
      by simp
    also from False have "\<dots> = tv_cons c (template_value ?t)"
      by (rule tv_escape_char)
    also have "\<dots> = Inr (c # normalize_newlines (d # cs), rest)"
      by (simp only: IH tv_cons_simps)
    also from False have "c # normalize_newlines (d # cs) = normalize_newlines (c # d # cs)"
      by simp
    finally show ?thesis .
  next
    case True
    show ?thesis
    proof (cases "d = LF")
      case LF: True
      with True have "template_value (escape cs @ BACKTICK # rest) = Inr (normalize_newlines cs, rest)"
        by (rule "3.IH"(1))
      with True LF show ?thesis
        by (simp add: tv_CR_LF)
    next
      case False
      with True have IH: "template_value ?t = Inr (normalize_newlines (d # cs), rest)"
        by (rule "3.IH"(2))
      from False have "\<forall>ds. ?t \<noteq> LF # ds"
        by simp
      then have "template_value (CR # ?t) = tv_cons LF (template_value ?t)"
        by (rule tv_CR_other)
      also have "\<dots> = Inr (LF # normalize_newlines (d # cs), rest)"
        by (simp only: IH tv_cons_simps)
      also from True False have "LF # normalize_newlines (d # cs) = normalize_newlines (c # d # cs)"
        by simp
      also from True have "CR # ?t = escape (c # d # cs) @ BACKTICK # rest"
        by simp
      finally show ?thesis .
    qed
  qed
qed

text \<open>
  Escaping round trip.  For CSS text without carriage returns, the
  escaped text followed by a backtick, read as the body of a JavaScript
  template literal, denotes the CSS text exactly, and the literal ends at that
  backtick: no character of the text closes the literal early, starts a
  substitution or forms an escape sequence of its own.
\<close>

theorem escape_roundtrip:
  assumes "CR \<notin> set css"
  shows "template_value (escape css @ BACKTICK # rest) = Inr (css, rest)"
proof -
  have "template_value (escape css @ BACKTICK # rest) = Inr (normalize_newlines css, rest)"
    by (rule template_value_escape)
  with assms show ?thesis
    by (simp add: normalize_newlines_no_CR)
qed

theorem escape_roundtrip_witness:
  "template_value (escape [CHR ''a'', BACKTICK, DOLLAR, CHR ''{'', BACKSLASH, CHR ''n''] @ BACKTICK # '';'')
    = Inr ([CHR ''a'', BACKTICK, DOLLAR, CHR ''{'', BACKSLASH, CHR ''n''], '';'')"
  using escape_roundtrip [of "[CHR ''a'', BACKTICK, DOLLAR, CHR ''{'', BACKSLASH, CHR ''n'']" "'';''"]
  by simp

text \<open>
  C4: What the round trip does to line ends.  For any CSS text the literal
  denotes the text with every carriage return, alone or followed by a line
  feed, replaced by one line feed; so text with Windows or old Macintosh line
  ends does not come back byte for byte.
\<close>

theorem escape_roundtrip_newlines:
  "template_value (escape css @ BACKTICK # rest) = Inr (normalize_newlines css, rest)
    \<and> (normalize_newlines css = css \<longleftrightarrow> CR \<notin> set css)"
proof
  show "template_value (escape css @ BACKTICK # rest) = Inr (normalize_newlines css, rest)"
    by (rule template_value_escape)
  show "normalize_newlines css = css \<longleftrightarrow> CR \<notin> set css"
  proof
    assume "CR \<notin> set css"
    then show "normalize_newlines css = css"
      by (rule normalize_newlines_no_CR)
  next
    assume "normalize_newlines css = css"
    moreover have "CR \<notin> set (normalize_newlines css)"
      by (induction css rule: normalize_newlines.induct) auto
    ultimately show "CR \<notin> set css" by simp
  qed
qed

theorem escape_roundtrip_newlines_witness:
  "template_value (escape [CHR ''a'', CR, LF, CHR ''b''] @ BACKTICK # []) = Inr ([CHR ''a'', LF, CHR ''b''], [])"
  using escape_roundtrip_newlines [of "[CHR ''a'', CR, LF, CHR ''b'']" "[]"]
  by simp

section \<open>The modules as JavaScript\<close>

definition module_head :: "string \<Rightarrow> string" where
  "module_head type = (if type = ''style'' then style_module_head else css_module_head)"

definition module_tail :: "string \<Rightarrow> string" where
  "module_tail type = (if type = ''style'' then style_module_tail else css_module_tail)"

lemma makeModule_shape:
  "makeModule css type = module_head type @ BACKTICK # LF # escape css @ BACKTICK # module_tail type"
  by (simp add: makeModule_def module_head_def module_tail_def styleModule_def cssResultModule_def)

lemma length_escape_bounds: "length s \<le> length (escape s)" "length (escape s) \<le> 2 * length s"
proof -
  have "length (filter is_special s) \<le> length s"
    by (rule length_filter_le)
  then show "length s \<le> length (escape s)" "length (escape s) \<le> 2 * length s"
    by (simp_all add: length_escape)
qed

text \<open>
  The module built for CSS text without carriage returns is: a fixed
  head (chosen by the type: the style-injecting script for \<open>style\<close>, the
  \<^verbatim>\<open>lit-element\<close> import and export for every other type), one template literal,
  and a fixed tail.  The literal denotes a line feed followed by the CSS text,
  unchanged, and ends where the builder closes it.
\<close>

theorem makeModule_literal:
  assumes "CR \<notin> set css"
  shows "\<exists>body. makeModule css type = module_head type @ BACKTICK # body
    \<and> template_value body = Inr (LF # css, module_tail type)"
proof (intro exI conjI)
  show "makeModule css type = module_head type @ BACKTICK # (LF # escape css @ BACKTICK # module_tail type)"
    by (simp add: makeModule_shape)
  have "template_value (LF # escape css @ BACKTICK # module_tail type)
      = tv_cons LF (template_value (escape css @ BACKTICK # module_tail type))"
    by (simp add: tv_plain)
  also have "\<dots> = Inr (LF # normalize_newlines css, module_tail type)"
    by (simp add: template_value_escape)
  also from assms have "normalize_newlines css = css"
    by (rule normalize_newlines_no_CR)
  finally show "template_value (LF # escape css @ BACKTICK # module_tail type)
      = Inr (LF # css, module_tail type)" .
qed

theorem makeModule_literal_witness:
  "\<exists>body. makeModule ''body{color:red}'' ''style'' =
      (''document.head'' @ [LF]
       @ ''    .appendChild(document.createElement('' @ [DQUOTE] @ ''style'' @ [DQUOTE] @ ''))'' @ [LF]
       @ ''    .appendChild(document.createTextNode('') @ BACKTICK # body
    \<and> template_value body = Inr (LF # ''body{color:red}'', ''));'' @ [LF])"
  using makeModule_literal [of "''body{color:red}''" "''style''"]
  by (simp add: module_head_def module_tail_def style_module_head_def style_module_tail_def)

end
