(* ===== verification/Platform.thy ===== *)
theory Platform
  imports Esbuild_Types
begin

text \<open>
  The pure library functions \<^verbatim>\<open>src/src/plugin.ts\<close> calls but does not define,
  as a record of functions: \<^verbatim>\<open>path.resolve\<close> (called with two segments),
  \<^verbatim>\<open>path.dirname\<close>, \<^verbatim>\<open>posix.dirname\<close>, \<^verbatim>\<open>picomatch\<close> and \<^verbatim>\<open>moduleRelativeUrl\<close>
  of \<^verbatim>\<open>./utils\<close>.  \<^verbatim>\<open>picomatch(glob, options)\<close> returns a function from
  strings to booleans; \<open>picomatch pf options glob s\<close> is that function applied
  to \<open>s\<close>.  It is a total predicate: the globs the plugin builds are
  non-empty strings, for which picomatch does not throw.

  Nothing is assumed about these functions.  Every theorem of the component
  theories holds for all platforms unless it states a hypothesis on them; the
  closed instances use the small platform defined at the end of this theory.
\<close>

section \<open>Pure library functions\<close>

text \<open>
  The options of picomatch.  The plugin sets one of them, \<^verbatim>\<open>unixify\<close>, when
  the user gives none, and passes the object on unread.
\<close>

record pm_options =
  unixify :: bool

type_synonym picomatch_lib = "pm_options \<Rightarrow> string \<Rightarrow> string \<Rightarrow> bool"

record platform =
  path_resolve :: "string \<Rightarrow> string \<Rightarrow> string"
  path_dirname :: "string \<Rightarrow> string"
  posix_dirname :: "string \<Rightarrow> string"
  picomatch :: picomatch_lib
  moduleRelativeUrl :: "string \<Rightarrow> string \<Rightarrow> string"

text \<open>
  The function \<^verbatim>\<open>renderSync\<close> gives to the compiler to rewrite import URLs:
  given the URL and the importing file, it returns the file to import.
\<close>

type_synonym sass_importer = "string \<Rightarrow> string \<Rightarrow> string"

section \<open>A small platform for closed instances\<close>

text \<open>
  Paths are joined with a slash, the directory of a path is what precedes its
  last slash, and a glob \<open>**/p\<close> without wildcards in \<open>p\<close> matches the paths
  that are \<open>p\<close> or end in a slash followed by \<open>p\<close>.  With the option
  \<^verbatim>\<open>unixify\<close> the backslashes of the path are read as slashes first.
\<close>

definition dir_of :: "string \<Rightarrow> string" where
  "dir_of p = rev (tl (dropWhile (\<lambda>c. c \<noteq> CHR ''/'') (rev p)))"

definition literal_glob :: "string \<Rightarrow> string \<Rightarrow> bool" where
  "literal_glob g s \<longleftrightarrow>
    startsWith g ''**/'' \<and> (s = drop 3 g \<or> endsWith s (CHR ''/'' # drop 3 g))"

primrec unixified :: "string \<Rightarrow> string" where
  "unixified [] = []"
| "unixified (c # s) = (if c = BACKSLASH then CHR ''/'' else c) # unixified s"

definition demo_picomatch :: picomatch_lib where
  "demo_picomatch pm g s = literal_glob g (if unixify pm then unixified s else s)"

definition demo_platform :: platform where
  "demo_platform =
    \<lparr>path_resolve = (\<lambda>d p. d @ ''/'' @ p),
     path_dirname = dir_of,
     posix_dirname = dir_of,
     picomatch = demo_picomatch,
     moduleRelativeUrl = (\<lambda>d m. m @ ''/'')\<rparr>"

lemma unixified_plain: "BACKSLASH \<notin> set s \<Longrightarrow> unixified s = s"
  by (induction s) auto

lemma dir_of_simps [simp]: "dir_of (d @ CHR ''/'' # ''a.scss'') = d" "dir_of (d @ CHR ''/'' # ''a.css'') = d"
  by (simp_all add: dir_of_def)

end
