(* ===== verification/Matcher.thy ===== *)
theory Matcher
  imports Platform
begin

text \<open>
  The classifier of \<^verbatim>\<open>src/src/plugin.ts\<close> (lines 40 to 73): the default type,
  the list of matchers built from \<^verbatim>\<open>options.type\<close>, and \<^verbatim>\<open>typeOf\<close>, which
  gives each resolve request the type of the first rule that matches it.

  \<^verbatim>\<open>options.type\<close> is a string, a list of rules, or absent.  A rule pairs a type
  with a pattern; what the code distinguishes in a pattern is whether it is an
  array (then its first element is a glob for the importer and its second, if
  truthy, a glob for the resolved path), a truthy value (a glob for the
  resolved path) or a falsy one (the rule matches everything).  An array
  element that is missing reads as \<^verbatim>\<open>undefined\<close>, which JavaScript concatenates
  as the text \<open>undefined\<close>.

  Every matcher is \<^verbatim>\<open>picomatch\<close> called with a glob and \<^verbatim>\<open>options.picomatch\<close>;
  the definitions take these options as the parameter \<open>pm\<close>.
\<close>

section \<open>Configuration\<close>

datatype pattern =
    NoPattern
  | GlobPattern string
  | PairPattern "string option" "string option"

type_synonym rule = "string \<times> pattern"

datatype type_option = TypeUndefined | TypeString string | TypeRules "rule list"

section \<open>Construction\<close>

definition js_string :: "string option \<Rightarrow> string" where
  "js_string v = (case v of None \<Rightarrow> ''undefined'' | Some s \<Rightarrow> s)"

definition default_type :: "type_option \<Rightarrow> string" where
  "default_type t = (case t of TypeString s \<Rightarrow> s | _ \<Rightarrow> ''css'')"

definition importer_matches :: "platform \<Rightarrow> pm_options \<Rightarrow> string option \<Rightarrow> on_resolve_args \<Rightarrow> bool" where
  "importer_matches pf pm g args = picomatch pf pm (''**/'' @ js_string g) (importer args)"

definition path_matches :: "platform \<Rightarrow> pm_options \<Rightarrow> string \<Rightarrow> on_resolve_args \<Rightarrow> bool" where
  "path_matches pf pm g args =
    picomatch pf pm (''**/'' @ g) (path_resolve pf (resolveDir args) (path args))"

definition matcher_of :: "platform \<Rightarrow> pm_options \<Rightarrow> pattern \<Rightarrow> on_resolve_args \<Rightarrow> bool" where
  "matcher_of pf pm pat =
    (case pat of
       PairPattern g0 g1 \<Rightarrow>
         (case g1 of
            Some g \<Rightarrow>
              if truthy g then (\<lambda>args. importer_matches pf pm g0 args \<and> path_matches pf pm g args)
              else importer_matches pf pm g0
          | None \<Rightarrow> importer_matches pf pm g0)
     | GlobPattern g \<Rightarrow> if truthy g then path_matches pf pm g else (\<lambda>_. True)
     | NoPattern \<Rightarrow> (\<lambda>_. True))"

definition matchers :: "platform \<Rightarrow> pm_options \<Rightarrow> type_option \<Rightarrow> (string \<times> (on_resolve_args \<Rightarrow> bool)) list option" where
  "matchers pf pm t =
    (case t of
       TypeRules rules \<Rightarrow> Some (map (\<lambda>(ty, pat). (ty, matcher_of pf pm pat)) rules)
     | _ \<Rightarrow> None)"

section \<open>Classification\<close>

fun first_match :: "(string \<times> (on_resolve_args \<Rightarrow> bool)) list \<Rightarrow> on_resolve_args \<Rightarrow> string option" where
  "first_match [] args = None"
| "first_match ((ty, isMatch) # ms) args = (if isMatch args then Some ty else first_match ms args)"

definition typeOf :: "platform \<Rightarrow> pm_options \<Rightarrow> type_option \<Rightarrow> on_resolve_args \<Rightarrow> string" where
  "typeOf pf pm t args =
    (case matchers pf pm t of
       Some ms \<Rightarrow> (case first_match ms args of Some ty \<Rightarrow> ty | None \<Rightarrow> default_type t)
     | None \<Rightarrow> default_type t)"

section \<open>The scan of the matcher list\<close>

lemma first_match_append:
  "first_match (ms @ ms') args =
    (case first_match ms args of Some ty \<Rightarrow> Some ty | None \<Rightarrow> first_match ms' args)"
  by (induction ms args rule: first_match.induct) simp_all

lemma first_match_None_iff:
  "first_match ms args = None \<longleftrightarrow> (\<forall>(ty, isMatch) \<in> set ms. \<not> isMatch args)"
  by (induction ms args rule: first_match.induct) auto

lemma first_match_Some_mem:
  "first_match ms args = Some ty \<Longrightarrow> \<exists>isMatch. (ty, isMatch) \<in> set ms \<and> isMatch args"
  by (induction ms args rule: first_match.induct) (auto split: if_splits)

lemma first_match_hit:
  assumes "first_match pre args = None" and "isMatch args"
  shows "first_match (pre @ (ty, isMatch) # post) args = Some ty"
  using assms by (simp add: first_match_append)

lemma first_match_cong:
  assumes "\<forall>(ty, isMatch) \<in> set ms. isMatch a = isMatch b"
  shows "first_match ms a = first_match ms b"
  using assms by (induction ms a rule: first_match.induct) auto

section \<open>Rules\<close>

definition rule_matchers :: "platform \<Rightarrow> pm_options \<Rightarrow> rule list \<Rightarrow> (string \<times> (on_resolve_args \<Rightarrow> bool)) list" where
  "rule_matchers pf pm rules = map (\<lambda>(ty, pat). (ty, matcher_of pf pm pat)) rules"

lemma matchers_simps [simp]:
  "matchers pf pm (TypeRules rules) = Some (rule_matchers pf pm rules)"
  "matchers pf pm (TypeString s) = None"
  "matchers pf pm TypeUndefined = None"
  by (simp_all add: matchers_def rule_matchers_def)

lemma default_type_simps [simp]:
  "default_type (TypeRules rules) = ''css''"
  "default_type (TypeString s) = s"
  "default_type TypeUndefined = ''css''"
  by (simp_all add: default_type_def)

lemma rule_matchers_append [simp]:
  "rule_matchers pf pm (rs @ rs') = rule_matchers pf pm rs @ rule_matchers pf pm rs'"
  by (simp add: rule_matchers_def)

lemma rule_matchers_Cons [simp]:
  "rule_matchers pf pm ((ty, pat) # rs) = (ty, matcher_of pf pm pat) # rule_matchers pf pm rs"
  by (simp add: rule_matchers_def)

lemma rule_matchers_Nil [simp]: "rule_matchers pf pm [] = []"
  by (simp add: rule_matchers_def)

lemma first_match_rules_None_iff:
  "first_match (rule_matchers pf pm rules) args = None \<longleftrightarrow>
    (\<forall>(ty, pat) \<in> set rules. \<not> matcher_of pf pm pat args)"
  by (auto simp: first_match_None_iff rule_matchers_def)

lemma typeOf_rules:
  "typeOf pf pm (TypeRules rules) args =
    (case first_match (rule_matchers pf pm rules) args of Some ty \<Rightarrow> ty | None \<Rightarrow> ''css'')"
  by (simp add: typeOf_def split: option.split)

lemma typeOf_fixed [simp]:
  "typeOf pf pm (TypeString s) args = s"
  "typeOf pf pm TypeUndefined args = ''css''"
  by (simp_all add: typeOf_def)

lemma matcher_of_simps [simp]:
  "matcher_of pf pm NoPattern args"
  "matcher_of pf pm (GlobPattern g) args \<longleftrightarrow> (truthy g \<longrightarrow> path_matches pf pm g args)"
  "matcher_of pf pm (PairPattern g0 None) args \<longleftrightarrow> importer_matches pf pm g0 args"
  "matcher_of pf pm (PairPattern g0 (Some g)) args \<longleftrightarrow>
    importer_matches pf pm g0 args \<and> (truthy g \<longrightarrow> path_matches pf pm g args)"
  by (simp_all add: matcher_of_def)

section \<open>Routing\<close>

text \<open>
  C5: Routing precedence.  A request gets the type of the first rule, in the
  order of the configuration, whose pattern matches it: if a rule matches and
  no rule before it does, its type is the answer, whatever rules follow and
  whether or not they match too.
\<close>

theorem typeOf_first_match:
  assumes "matcher_of pf pm pat args"
    and "\<forall>(ty', pat') \<in> set pre. \<not> matcher_of pf pm pat' args"
  shows "typeOf pf pm (TypeRules (pre @ (ty, pat) # post)) args = ty"
proof -
  from assms(2) have "first_match (rule_matchers pf pm pre) args = None"
    by (simp add: first_match_rules_None_iff)
  with assms(1) have "first_match (rule_matchers pf pm (pre @ (ty, pat) # post)) args = Some ty"
    by (simp add: first_match_hit)
  then show ?thesis
    by (simp add: typeOf_rules)
qed

theorem typeOf_first_match_witness:
  "typeOf demo_platform \<lparr>unixify = True\<rparr>
     (TypeRules ([(''x'', GlobPattern ''b.scss'')]
        @ (''style'', GlobPattern ''a.scss'') # [(''lit'', GlobPattern ''a.scss'')])) demo_args
    = ''style''"
proof -
  have a: "path_matches demo_platform \<lparr>unixify = True\<rparr> ''a.scss'' demo_args"
    by (simp add: path_matches_def demo_platform_def demo_picomatch_def literal_glob_def demo_args_def
        startsWith_def endsWith_def)
  have b: "\<not> path_matches demo_platform \<lparr>unixify = True\<rparr> ''b.scss'' demo_args"
    by (simp add: path_matches_def demo_platform_def demo_picomatch_def literal_glob_def demo_args_def
        startsWith_def endsWith_def)
  show ?thesis
    by (rule typeOf_first_match) (simp_all add: a b truthy_def)
qed

text \<open>
  C31: Fallback.  With a list of rules none of which matches the request, the
  type is \<open>css\<close>: the default of a rule list is fixed and is not configurable,
  since a string given as \<^verbatim>\<open>options.type\<close> and a rule list exclude each other.
\<close>

theorem typeOf_no_match:
  assumes "\<forall>(ty, pat) \<in> set rules. \<not> matcher_of pf pm pat args"
  shows "typeOf pf pm (TypeRules rules) args = ''css''"
proof -
  from assms have "first_match (rule_matchers pf pm rules) args = None"
    by (simp add: first_match_rules_None_iff)
  then show ?thesis
    by (simp add: typeOf_rules)
qed

theorem typeOf_no_match_witness:
  "typeOf demo_platform \<lparr>unixify = True\<rparr> (TypeRules [(''style'', GlobPattern ''b.scss'')]) demo_args = ''css''"
proof -
  have "\<not> path_matches demo_platform \<lparr>unixify = True\<rparr> ''b.scss'' demo_args"
    by (simp add: path_matches_def demo_platform_def demo_picomatch_def literal_glob_def demo_args_def
        startsWith_def endsWith_def)
  then show ?thesis
    by (intro typeOf_no_match) (simp add: truthy_def)
qed

section \<open>What the classification depends on\<close>

definition uses_importer :: "pattern \<Rightarrow> bool" where
  "uses_importer pat = (case pat of PairPattern _ _ \<Rightarrow> True | _ \<Rightarrow> False)"

definition catch_all :: "pattern \<Rightarrow> bool" where
  "catch_all pat = (case pat of NoPattern \<Rightarrow> True | GlobPattern g \<Rightarrow> \<not> truthy g | _ \<Rightarrow> False)"

lemma path_matches_key_cong:
  assumes "resolveDir a = resolveDir b" and "path a = path b"
  shows "path_matches pf pm g a = path_matches pf pm g b"
  using assms by (simp add: path_matches_def)

lemma matcher_of_key_cong:
  assumes "\<not> uses_importer pat" and "resolveDir a = resolveDir b" and "path a = path b"
  shows "matcher_of pf pm pat a = matcher_of pf pm pat b"
proof (cases pat)
  case (GlobPattern g)
  with path_matches_key_cong [OF assms(2,3)] show ?thesis by simp
next
  case (PairPattern g0 g1)
  with assms(1) show ?thesis by (simp add: uses_importer_def)
qed simp

lemma catch_all_matches: "catch_all pat \<Longrightarrow> matcher_of pf pm pat args"
  by (cases pat) (simp_all add: catch_all_def)

definition importer_free :: "type_option \<Rightarrow> bool" where
  "importer_free t =
    (case t of TypeRules rules \<Rightarrow> list_all (\<lambda>(ty, pat). \<not> uses_importer pat) rules | _ \<Rightarrow> True)"

lemma first_match_rules_key_cong:
  assumes "\<forall>(ty, pat) \<in> set rules. \<not> uses_importer pat"
    and "resolveDir a = resolveDir b" and "path a = path b"
  shows "first_match (rule_matchers pf pm rules) a = first_match (rule_matchers pf pm rules) b"
proof -
  have "matcher_of pf pm pat a = matcher_of pf pm pat b" if "(ty, pat) \<in> set rules" for ty pat
  proof -
    from assms(1) that have "\<not> uses_importer pat" by blast
    then show ?thesis using assms(2,3) by (rule matcher_of_key_cong)
  qed
  then have "\<forall>(ty, isMatch) \<in> set (rule_matchers pf pm rules). isMatch a = isMatch b"
    by (auto simp: rule_matchers_def)
  then show ?thesis
    by (rule first_match_cong)
qed

lemma typeOf_key_cong:
  assumes "importer_free t" and "resolveDir a = resolveDir b" and "path a = path b"
  shows "typeOf pf pm t a = typeOf pf pm t b"
proof (cases t)
  case (TypeRules rules)
  with assms(1) have "\<forall>(ty, pat) \<in> set rules. \<not> uses_importer pat"
    by (simp add: importer_free_def list_all_iff)
  then have "first_match (rule_matchers pf pm rules) a = first_match (rule_matchers pf pm rules) b"
    using assms(2,3) by (rule first_match_rules_key_cong)
  with TypeRules show ?thesis
    by (simp add: typeOf_rules)
qed simp_all

text \<open>
  C32: If no rule has an importer pattern, the type of a request depends on
  its resolve directory and its specifier only: two requests that agree on both
  are classified alike, whoever imports them.  (This is the condition under
  which filing results under that pair, as the cache does, loses nothing.)
\<close>

theorem typeOf_key_determined:
  assumes "\<forall>(ty, pat) \<in> set rules. \<not> uses_importer pat"
    and "resolveDir a = resolveDir b" and "path a = path b"
  shows "typeOf pf pm (TypeRules rules) a = typeOf pf pm (TypeRules rules) b"
proof -
  from assms
  have "first_match (rule_matchers pf pm rules) a = first_match (rule_matchers pf pm rules) b"
    by (rule first_match_rules_key_cong)
  then show ?thesis
    by (simp add: typeOf_rules)
qed

theorem typeOf_key_determined_witness:
  "typeOf demo_platform \<lparr>unixify = True\<rparr> (TypeRules [(''style'', GlobPattern ''a.scss'')]) demo_args
    = typeOf demo_platform \<lparr>unixify = True\<rparr> (TypeRules [(''style'', GlobPattern ''a.scss'')])
        (demo_args\<lparr>importer := ''/p/src/widget.ts''\<rparr>)"
  using typeOf_key_determined [of "[(''style'', GlobPattern ''a.scss'')]" demo_args
      "demo_args\<lparr>importer := ''/p/src/widget.ts''\<rparr>" demo_platform "\<lparr>unixify = True\<rparr>"]
  by (simp add: uses_importer_def)

text \<open>
  An importer rule, for contrast: the same specifier in the same directory is
  classified by who imports it.
\<close>

lemma typeOf_importer_rule:
  assumes "importer_matches pf pm g0 a" and "\<not> importer_matches pf pm g0 b"
  shows "typeOf pf pm (TypeRules [(ty, PairPattern g0 None)]) a = ty"
    and "typeOf pf pm (TypeRules [(ty, PairPattern g0 None)]) b = ''css''"
  using assms by (simp_all add: typeOf_rules)

text \<open>
  C33: A rule whose pattern is absent or the empty string matches every
  request, so the rules after it are never consulted: the classifier is the
  one of the list cut after that rule.
\<close>

theorem rules_after_catch_all_dead:
  assumes "catch_all pat"
  shows "typeOf pf pm (TypeRules (pre @ (ty, pat) # post)) args
    = typeOf pf pm (TypeRules (pre @ [(ty, pat)])) args"
proof -
  from assms have "matcher_of pf pm pat args"
    by (rule catch_all_matches)
  then have "first_match (rule_matchers pf pm (pre @ (ty, pat) # post)) args
      = first_match (rule_matchers pf pm (pre @ [(ty, pat)])) args"
    by (simp add: first_match_append split: option.split)
  then show ?thesis
    by (simp only: typeOf_rules)
qed

theorem rules_after_catch_all_dead_witness:
  "typeOf demo_platform \<lparr>unixify = True\<rparr>
      (TypeRules ([] @ (''style'', GlobPattern []) # [(''lit'', GlobPattern ''a.scss'')])) demo_args
    = typeOf demo_platform \<lparr>unixify = True\<rparr> (TypeRules ([] @ [(''style'', GlobPattern [])])) demo_args"
  using rules_after_catch_all_dead [of "GlobPattern []" demo_platform "\<lparr>unixify = True\<rparr>" "[]" "''style''"
      "[(''lit'', GlobPattern ''a.scss'')]" demo_args]
  by (simp add: catch_all_def truthy_def)

end
