(* ===== verification/Hooks.thy ===== *)
theory Hooks
  imports JS_Regex Esbuild_Types
begin

text \<open>
  The registrations \<^verbatim>\<open>setup\<close> makes with the bundler in
  \<^verbatim>\<open>src/src/plugin.ts\<close>: the resolve hook with its filter (lines 112 to 114)
  and the two load hooks with theirs (lines 164 and 165), and the bundler's
  rule for choosing among load hooks (the callbacks registered for the
  namespace whose filter matches the path are tried in the order of
  registration; a callback of this plugin always answers or throws, so the
  first one decides).

  Each filter is the regular expression of the source, written in the syntax
  of \<open>JS_Regex\<close>.  The theory proves a closed form for each and draws the
  consequences for the routing of a specifier to a resolution strategy.
\<close>

section \<open>The filters\<close>

definition resolve_filter :: js_regex where
  "resolve_filter =
    \<lparr>at_start = False,
     rx_body = Seq (Chr CHR ''.'')
       (Alt (Seq (Chr CHR ''s'') (Seq (OneOf ''ac'') (Str ''ss''))) (Str ''css'')),
     at_end = True\<rparr>"

definition relative_filter :: js_regex where
  "relative_filter =
    \<lparr>at_start = True,
     rx_body = Seq (Chr CHR ''.'') (Seq (Opt (Chr CHR ''.'')) (Chr CHR ''/'')),
     at_end = False\<rparr>"

definition module_filter :: js_regex where
  "module_filter =
    \<lparr>at_start = True,
     rx_body = Alt (NoneOf ''.'')
       (Seq (Chr CHR ''.'') (Seq (Opt (Chr CHR ''.'')) (NoneOf ''/''))),
     at_end = False\<rparr>"

section \<open>The resolve hook\<close>

definition resolve_callback :: "on_resolve_args \<Rightarrow> on_resolve_result" where
  "resolve_callback args =
    \<lparr>res_path = path args, res_namespace = ''sass'', res_pluginData = args\<rparr>"

definition onResolve :: "on_resolve_args \<Rightarrow> on_resolve_result option" where
  "onResolve args =
    (if test resolve_filter (path args) then Some (resolve_callback args) else None)"

text \<open>The load request the bundler derives from an answer of the resolve hook.\<close>

definition load_args_of :: "on_resolve_result \<Rightarrow> on_load_args" where
  "load_args_of r =
    \<lparr>load_path = res_path r, load_namespace = res_namespace r, pluginData = res_pluginData r\<rparr>"

section \<open>The load hooks\<close>

datatype strategy = Relative | ModuleLookup

definition load_hooks :: "(js_regex \<times> strategy) list" where
  "load_hooks = [(relative_filter, Relative), (module_filter, ModuleLookup)]"

fun first_hook :: "(js_regex \<times> strategy) list \<Rightarrow> string \<Rightarrow> strategy option" where
  "first_hook [] p = None"
| "first_hook ((re, h) # hooks) p = (if test re p then Some h else first_hook hooks p)"

definition select_hook :: "on_load_args \<Rightarrow> strategy option" where
  "select_hook la =
    (if load_namespace la = ''sass'' then first_hook load_hooks (load_path la) else None)"

section \<open>The plugin object\<close>

text \<open>
  What \<^verbatim>\<open>sassPlugin\<close> returns: a name and \<^verbatim>\<open>setup\<close>, which registers one resolve
  callback and two load callbacks with the bundler.  A registration is its
  filter, for a load callback its namespace, and the callback: the one of
  line 113, or \<^verbatim>\<open>cached\<close> over a strategy.
\<close>

datatype registration = OnResolve js_regex | OnLoad js_regex string strategy

record plugin_object =
  plugin_name :: string
  plugin_setup :: "registration list"

definition registrations :: "registration list" where
  "registrations =
    [OnResolve resolve_filter,
     OnLoad relative_filter ''sass'' Relative,
     OnLoad module_filter ''sass'' ModuleLookup]"

definition plugin_object :: plugin_object where
  "plugin_object = \<lparr>plugin_name = ''sass-plugin'', plugin_setup = registrations\<rparr>"

text \<open>
  The bundler runs the callbacks of a kind in the order of their
  registration, and the first whose filter (and namespace) accepts the
  request answers it.
\<close>

fun host_resolve :: "registration list \<Rightarrow> on_resolve_args \<Rightarrow> on_resolve_result option" where
  "host_resolve [] args = None"
| "host_resolve (OnResolve re # regs) args =
    (if test re (path args) then Some (resolve_callback args) else host_resolve regs args)"
| "host_resolve (OnLoad re ns h # regs) args = host_resolve regs args"

fun host_load :: "registration list \<Rightarrow> on_load_args \<Rightarrow> strategy option" where
  "host_load [] la = None"
| "host_load (OnResolve re # regs) la = host_load regs la"
| "host_load (OnLoad re ns h # regs) la =
    (if load_namespace la = ns \<and> test re (load_path la) then Some h else host_load regs la)"

section \<open>Closed forms\<close>

definition is_stylesheet :: "string \<Rightarrow> bool" where
  "is_stylesheet s \<longleftrightarrow> endsWith s ''.scss'' \<or> endsWith s ''.sass'' \<or> endsWith s ''.css''"

definition is_relative :: "string \<Rightarrow> bool" where
  "is_relative s \<longleftrightarrow> startsWith s ''./'' \<or> startsWith s ''../''"

definition is_module_like :: "string \<Rightarrow> bool" where
  "is_module_like s =
    (case s of
       [] \<Rightarrow> False
     | c # cs \<Rightarrow> c \<noteq> CHR ''.'' \<or> (case cs of [] \<Rightarrow> False | d # _ \<Rightarrow> d \<noteq> CHR ''/''))"

section \<open>What the filters accept\<close>

lemma lang_resolve_filter: "lang (rx_body resolve_filter) = {''.scss'', ''.sass'', ''.css''}"
  by (auto simp: resolve_filter_def lang_Seq_OneOf)

text \<open>
  The resolve filter, \<^verbatim>\<open>/\.(s[ac]ss|css)$/\<close>, accepts a specifier exactly when
  it ends with \<^verbatim>\<open>.scss\<close>, \<^verbatim>\<open>.sass\<close> or \<^verbatim>\<open>.css\<close>.
\<close>

lemma resolve_filter_iff: "test resolve_filter s = is_stylesheet s"
proof -
  have "test resolve_filter s \<longleftrightarrow> (\<exists>v \<in> lang (rx_body resolve_filter). endsWith s v)"
    by (rule test_anchored_end) (simp_all add: resolve_filter_def)
  then show ?thesis
    by (simp add: lang_resolve_filter is_stylesheet_def)
qed

lemma relative_filter_iff: "test relative_filter s = is_relative s"
  by (auto simp: test_def relative_filter_def match_prefix_simps is_relative_def startsWith_Cons)

text \<open>
  The filter of the second load hook, \<^verbatim>\<open>/^([^.]|\.\.?[^/])/\<close>: the second
  alternative does not ask for anything after \<^verbatim>\<open>..\<close> but a character other
  than a slash, and the dot is such a character.
\<close>

lemma module_filter_iff: "test module_filter s = is_module_like s"
  by (auto simp: test_def module_filter_def match_prefix_simps is_module_like_def
      split: list.splits)

lemma is_stylesheet_nonempty: "is_stylesheet s \<Longrightarrow> s \<noteq> [] \<and> s \<noteq> ''.''"
  by (auto simp: is_stylesheet_def endsWith_def)

lemma is_relative_iff:
  "is_relative s \<longleftrightarrow> (\<exists>t. s = CHR ''.'' # CHR ''/'' # t) \<or> (\<exists>t. s = CHR ''.'' # CHR ''.'' # CHR ''/'' # t)"
  by (auto simp: is_relative_def startsWith_Cons)

lemma first_hook_load_hooks:
  "first_hook load_hooks p =
    (if is_relative p then Some Relative
     else if is_module_like p then Some ModuleLookup else None)"
  by (simp add: load_hooks_def relative_filter_iff module_filter_iff)

text \<open>
  C19: The three filters in closed form.  The resolve filter,
  \<^verbatim>\<open>/\.(s[ac]ss|css)$/\<close>, accepts a specifier exactly when it ends with
  \<^verbatim>\<open>.scss\<close>, \<^verbatim>\<open>.sass\<close> or \<^verbatim>\<open>.css\<close>; the filter of the first load hook,
  \<^verbatim>\<open>/^\.\.?\//\<close>, a path exactly when it starts with \<^verbatim>\<open>./\<close> or \<^verbatim>\<open>../\<close>; the
  filter of the second, \<^verbatim>\<open>/^([^.]|\.\.?[^/])/\<close>, a path exactly when its first
  character is not a dot, or its first character is a dot and its second
  character exists and is not a slash.
\<close>

theorem filters_closed_form:
  "test resolve_filter s = is_stylesheet s
    \<and> test relative_filter s = is_relative s
    \<and> test module_filter s = is_module_like s"
proof (intro conjI)
  show "test resolve_filter s = is_stylesheet s"
    by (rule resolve_filter_iff)
  show "test relative_filter s = is_relative s"
    by (rule relative_filter_iff)
  show "test module_filter s = is_module_like s"
    by (rule module_filter_iff)
qed

section \<open>Routing\<close>

text \<open>
  C6: Which load hook answers.  A load request outside the namespace
  \<^verbatim>\<open>sass\<close> is not answered by this plugin.  Inside it, a path that starts
  with \<^verbatim>\<open>./\<close> or \<^verbatim>\<open>../\<close> goes to the hook that resolves against the
  directory of the importer, every other path but the empty one and
  \<^verbatim>\<open>.\<close> goes to the hook that resolves as a module, and those two are
  answered by neither.
\<close>

theorem select_hook_routing:
  "select_hook la =
    (if load_namespace la \<noteq> ''sass'' \<or> load_path la = [] \<or> load_path la = ''.'' then None
     else if is_relative (load_path la) then Some Relative
     else Some ModuleLookup)"
  by (auto simp: select_hook_def first_hook_load_hooks is_module_like_def is_relative_iff
      split: list.splits)

theorem select_hook_routing_witness:
  "select_hook \<lparr>load_path = ''../a.scss'', load_namespace = ''sass'', pluginData = demo_args\<rparr>
    = Some Relative"
  using select_hook_routing [of "\<lparr>load_path = ''../a.scss'', load_namespace = ''sass'',
      pluginData = demo_args\<rparr>"]
  by (simp add: is_relative_def startsWith_def)

text \<open>
  C34: The two load filters overlap, and the order of registration decides.  A
  path is accepted by both filters exactly when it starts with \<^verbatim>\<open>../\<close>; for
  such a path the hooks in the order of the source choose the relative
  strategy, and in the other order would choose the module lookup.
\<close>

theorem load_filters_overlap:
  "(test relative_filter p \<and> test module_filter p \<longleftrightarrow> startsWith p ''../'') \<and>
   (startsWith p ''../'' \<longrightarrow>
      first_hook load_hooks p = Some Relative \<and> first_hook (rev load_hooks) p = Some ModuleLookup)"
  by (auto simp: relative_filter_iff module_filter_iff load_hooks_def is_relative_def
      is_module_like_def startsWith_Cons split: list.splits)

theorem load_filters_overlap_witness:
  "test relative_filter ''../a.scss'' \<and> test module_filter ''../a.scss''
    \<and> first_hook load_hooks ''../a.scss'' = Some Relative
    \<and> first_hook (rev load_hooks) ''../a.scss'' = Some ModuleLookup"
  using load_filters_overlap [of "''../a.scss''"] by (simp add: startsWith_def)

text \<open>
  C35: From the resolve hook to a load hook.  The resolve hook answers a
  request exactly when its specifier ends with one of the three extensions,
  and the answer is in the namespace \<^verbatim>\<open>sass\<close> with the specifier as written
  and the request itself as plugin data.  The load request derived from an
  answer is answered by exactly one strategy: the relative one if the
  specifier starts with \<^verbatim>\<open>./\<close> or \<^verbatim>\<open>../\<close>, the module lookup otherwise.
\<close>

theorem onResolve_routes:
  "(onResolve args = Some r \<longleftrightarrow>
      is_stylesheet (path args)
      \<and> r = \<lparr>res_path = path args, res_namespace = ''sass'', res_pluginData = args\<rparr>)
   \<and> (onResolve args = Some r \<longrightarrow>
      pluginData (load_args_of r) = args
      \<and> load_path (load_args_of r) = path args
      \<and> select_hook (load_args_of r) =
        Some (if is_relative (path args) then Relative else ModuleLookup))"
proof (intro conjI impI)
  show answers: "onResolve args = Some r \<longleftrightarrow>
      is_stylesheet (path args)
      \<and> r = \<lparr>res_path = path args, res_namespace = ''sass'', res_pluginData = args\<rparr>"
    by (auto simp: onResolve_def resolve_callback_def resolve_filter_iff)
  assume "onResolve args = Some r"
  with answers have s: "is_stylesheet (path args)"
    and r: "r = \<lparr>res_path = path args, res_namespace = ''sass'', res_pluginData = args\<rparr>"
    by simp_all
  from r show "pluginData (load_args_of r) = args" "load_path (load_args_of r) = path args"
    by (simp_all add: load_args_of_def)
  from s have "path args \<noteq> [] \<and> path args \<noteq> ''.''"
    by (rule is_stylesheet_nonempty)
  with r show "select_hook (load_args_of r) =
      Some (if is_relative (path args) then Relative else ModuleLookup)"
    by (simp add: select_hook_def first_hook_load_hooks load_args_of_def is_module_like_def
        is_relative_iff split: list.splits)
qed

theorem onResolve_routes_witness:
  "onResolve demo_args =
      Some \<lparr>res_path = ''./a.scss'', res_namespace = ''sass'', res_pluginData = demo_args\<rparr>
   \<and> select_hook (load_args_of
       \<lparr>res_path = ''./a.scss'', res_namespace = ''sass'', res_pluginData = demo_args\<rparr>)
      = Some Relative
   \<and> onResolve (demo_args\<lparr>path := ''./a.ts''\<rparr>) = None"
proof -
  have paths: "path demo_args = ''./a.scss''" "is_stylesheet ''./a.scss''" "is_relative ''./a.scss''"
    "\<not> is_stylesheet ''./a.ts''"
    by (simp_all add: demo_args_def is_stylesheet_def is_relative_def endsWith_def startsWith_def)
  from onResolve_routes [of demo_args
      "\<lparr>res_path = ''./a.scss'', res_namespace = ''sass'', res_pluginData = demo_args\<rparr>"]
    onResolve_routes [of "demo_args\<lparr>path := ''./a.ts''\<rparr>"]
  show ?thesis
    by (simp add: paths) (metis option.exhaust)
qed

text \<open>
  The hook declines exactly the specifiers that do not end with one of the
  three extensions, whatever the importer, the namespace and the directory.
\<close>

lemma onResolve_None_iff: "onResolve args = None \<longleftrightarrow> \<not> is_stylesheet (path args)"
  by (simp add: onResolve_def resolve_filter_iff)

section \<open>The registrations and the two hooks\<close>

text \<open>
  The bundler, dispatching over the registrations of \<^verbatim>\<open>setup\<close>, answers a
  resolve request as \<open>onResolve\<close> does and selects for a load request the
  callback \<open>select_hook\<close> selects: the two hooks are the plugin the bundler
  sees.
\<close>

lemma setup_dispatch:
  "host_resolve (plugin_setup plugin_object) args = onResolve args
    \<and> host_load (plugin_setup plugin_object) la = select_hook la"
  by (simp add: plugin_object_def registrations_def onResolve_def select_hook_def load_hooks_def)

end
