(* ===== verification/Options.thy ===== *)
theory Options
  imports Matcher Cache
begin

text \<open>
  The options object of \<^verbatim>\<open>sassPlugin\<close> (the type \<^verbatim>\<open>Index\<close> of
  \<^verbatim>\<open>src/src/plugin.ts\<close>), restricted to the properties the plugin reads or
  that change what it passes on: \<^verbatim>\<open>basedir\<close>, \<^verbatim>\<open>type\<close>,
  \<^verbatim>\<open>includePaths\<close>, \<^verbatim>\<open>cache\<close>, \<^verbatim>\<open>picomatch\<close>, and \<^verbatim>\<open>importer\<close>, which the
  spread in \<^verbatim>\<open>renderSync\<close> lets replace the plugin's own.  An absent property is
  \<open>None\<close>.  For \<^verbatim>\<open>importer\<close> a property that is present with the value
  \<^verbatim>\<open>undefined\<close> is \<open>Some None\<close>: the spread copies it all the same.
\<close>

datatype cache_option = CacheOff | CacheOn | CacheMap cache

record options =
  opt_basedir :: "string option"
  opt_type :: type_option
  opt_includePaths :: "string list option"
  opt_cache :: cache_option
  opt_picomatch :: "pm_options option"
  opt_importer :: "sass_importer option option"

text \<open>\<^verbatim>\<open>sassPlugin()\<close>: no property set.\<close>

definition no_options :: options where
  "no_options =
    \<lparr>opt_basedir = None, opt_type = TypeUndefined, opt_includePaths = None,
     opt_cache = CacheOff, opt_picomatch = None, opt_importer = None\<rparr>"

end
