(* ===== verification/World.thy ===== *)
theory World
  imports Options
begin

text \<open>
  What \<^verbatim>\<open>src/src/plugin.ts\<close> calls that depends on the file system and on the
  installed compiler at the moment of the call, as a record of functions:
  \<^verbatim>\<open>fs.statSync(f).mtimeMs\<close>, \<^verbatim>\<open>fs.readFileSync(f, "utf-8")\<close>,
  \<^verbatim>\<open>require.resolve(id, {paths})\<close>, \<^verbatim>\<open>findModuleDirectory\<close> and \<^verbatim>\<open>loadSass\<close>
  of \<^verbatim>\<open>./utils\<close>, and \<^verbatim>\<open>sass.renderSync\<close>.  A function that can throw
  returns a \<^typ>\<open>'a result\<close>.  \<^verbatim>\<open>loadSass\<close> throws or returns the compiler;
  the compiler is reached through \<open>sass_renderSync\<close>, so the value returned
  carries nothing.

  Nothing is assumed about these functions.  Every theorem of the component
  theories holds for all worlds unless it states a hypothesis on them; the
  closed instances use the small world defined at the end of this theory.
\<close>

section \<open>The file system and the compiler\<close>

text \<open>
  What \<^verbatim>\<open>renderSync\<close> passes to the compiler, the object
  \<^verbatim>\<open>{importer, ...options, file}\<close>: the file to compile, the function that
  rewrites import URLs unless the property is \<^verbatim>\<open>undefined\<close>, and every
  property of the options of the plugin.
\<close>

record render_request =
  rq_file :: string
  rq_importer :: "sass_importer option"
  rq_options :: options

record world =
  fs_statSync :: "string \<Rightarrow> real result"
  fs_readFileSync :: "string \<Rightarrow> string result"
  require_resolve :: "string \<Rightarrow> string list \<Rightarrow> string result"
  findModuleDirectory :: "options \<Rightarrow> string option"
  sass_renderSync :: "render_request \<Rightarrow> string result"
  loadSass :: "options \<Rightarrow> unit result"

section \<open>A small world for closed instances\<close>

text \<open>
  Files are given by an association list from names to modification time and
  text; the module directory is \<^verbatim>\<open>node_modules\<close> in the base directory; the
  compiler is installed and returns the text of the file in angle
  brackets, so that compiled and raw text can be told apart.
\<close>

definition demo_world :: "(string \<times> real \<times> string) list \<Rightarrow> world" where
  "demo_world files =
    \<lparr>fs_statSync = (\<lambda>f. case map_of files f of
        None \<Rightarrow> Inl (FileSystemError f) | Some (m, _) \<Rightarrow> Inr m),
     fs_readFileSync = (\<lambda>f. case map_of files f of
        None \<Rightarrow> Inl (FileSystemError f) | Some (_, text) \<Rightarrow> Inr text),
     require_resolve = (\<lambda>p dirs. case dirs of
        [] \<Rightarrow> Inl (ResolutionError p) | d # _ \<Rightarrow> Inr (d @ ''/node_modules/'' @ p)),
     findModuleDirectory = (\<lambda>opts. case opt_basedir opts of
        None \<Rightarrow> None | Some d \<Rightarrow> Some (d @ ''/node_modules'')),
     sass_renderSync = (\<lambda>rq. case map_of files (rq_file rq) of
        None \<Rightarrow> Inl (CompileError (rq_file rq)) | Some (_, text) \<Rightarrow> Inr (''<'' @ text @ ''>'')),
     loadSass = (\<lambda>opts. Inr ())\<rparr>"

end
