(* ===== verification/Resolver.thy ===== *)
theory Resolver
  imports World Hooks
begin

text \<open>
  The two resolution strategies of \<^verbatim>\<open>src/src/plugin.ts\<close>: \<^verbatim>\<open>pathResolve\<close>
  (lines 75 to 77), which joins the specifier to the resolve directory and
  cannot fail, and \<^verbatim>\<open>requireResolve\<close> (lines 79 to 82), which asks Node's
  module resolution with the resolve directory first and the configured
  include paths after it.  \<open>resolve_with\<close> is the first argument the two
  registrations of lines 164 and 165 give to \<^verbatim>\<open>cached\<close>.
\<close>

section \<open>The strategies\<close>

definition pathResolve :: "platform \<Rightarrow> on_resolve_args \<Rightarrow> string" where
  "pathResolve pf args = path_resolve pf (resolveDir args) (path args)"

definition search_paths :: "string list option \<Rightarrow> on_resolve_args \<Rightarrow> string list" where
  "search_paths includePaths args =
    (case includePaths of
       Some ps \<Rightarrow> resolveDir args # ps
     | None \<Rightarrow> [resolveDir args])"

definition requireResolve :: "world \<Rightarrow> options \<Rightarrow> on_resolve_args \<Rightarrow> string result" where
  "requireResolve w opts args =
    require_resolve w (path args) (search_paths (opt_includePaths opts) args)"

definition resolve_with ::
  "platform \<Rightarrow> world \<Rightarrow> options \<Rightarrow> strategy \<Rightarrow> on_resolve_args \<Rightarrow> string result" where
  "resolve_with pf w opts h args =
    (case h of
       Relative \<Rightarrow> Inr (pathResolve pf args)
     | ModuleLookup \<Rightarrow> requireResolve w opts args)"

section \<open>Properties\<close>

lemma search_paths_hd [simp]: "hd (search_paths ps args) = resolveDir args"
  by (simp add: search_paths_def split: option.split)

lemma search_paths_empty [simp]: "search_paths (Some []) args = search_paths None args"
  by (simp add: search_paths_def)

lemma resolve_with_simps [simp]:
  "resolve_with pf w opts Relative args = Inr (pathResolve pf args)"
  "resolve_with pf w opts ModuleLookup args = requireResolve w opts args"
  by (simp_all add: resolve_with_def)

lemma resolve_with_key_cong:
  assumes "resolveDir a = resolveDir b" and "path a = path b"
  shows "resolve_with pf w opts h a = resolve_with pf w opts h b"
  using assms
  by (cases h) (simp_all add: pathResolve_def requireResolve_def search_paths_def split: option.split)

text \<open>
  C10: Resolution reads the resolve directory and the specifier and nothing
  else.  Under either strategy two requests with the same resolve directory
  and specifier resolve to the same file or fail with the same error, whatever
  their importers and namespaces.  The relative strategy returns what
  \<^verbatim>\<open>path.resolve\<close> makes of the resolve directory and the specifier, and never
  fails.  The module lookup returns what Node's resolution returns for the
  specifier on the search path that starts with the resolve directory and
  continues with the include paths in their order, its errors included.
\<close>

theorem resolve_with_total:
  "resolve_with pf w opts h (a\<lparr>importer := i, namespace := n\<rparr>) = resolve_with pf w opts h a
    \<and> resolve_with pf w opts Relative a = Inr (path_resolve pf (resolveDir a) (path a))
    \<and> resolve_with pf w opts ModuleLookup a =
        require_resolve w (path a)
          (resolveDir a # (case opt_includePaths opts of None \<Rightarrow> [] | Some ps \<Rightarrow> ps))"
proof -
  have "resolve_with pf w opts h (a\<lparr>importer := i, namespace := n\<rparr>) = resolve_with pf w opts h a"
    by (rule resolve_with_key_cong) simp_all
  then show ?thesis
    by (simp add: pathResolve_def requireResolve_def search_paths_def split: option.split)
qed

theorem resolve_with_total_witness:
  "resolve_with demo_platform (demo_world []) (no_options\<lparr>opt_includePaths := Some [''/lib'']\<rparr>)
      Relative demo_args = Inr ''/p/src/./a.scss''
    \<and> resolve_with demo_platform (demo_world []) (no_options\<lparr>opt_includePaths := Some [''/lib'']\<rparr>)
      ModuleLookup (demo_args\<lparr>path := ''pkg/a.scss''\<rparr>) = Inr ''/p/src/node_modules/pkg/a.scss''"
proof (intro conjI)
  let ?opts = "no_options\<lparr>opt_includePaths := Some [''/lib'']\<rparr>"
  let ?b = "demo_args\<lparr>path := ''pkg/a.scss''\<rparr>"
  have "resolve_with demo_platform (demo_world []) ?opts Relative demo_args
      = Inr (path_resolve demo_platform (resolveDir demo_args) (path demo_args))"
    by (rule resolve_with_total [THEN conjunct2, THEN conjunct1])
  also have "\<dots> = Inr ''/p/src/./a.scss''"
    by (simp add: demo_platform_def demo_args_def)
  finally show "resolve_with demo_platform (demo_world []) ?opts Relative demo_args
      = Inr ''/p/src/./a.scss''" .
  have "resolve_with demo_platform (demo_world []) ?opts ModuleLookup ?b
      = require_resolve (demo_world []) (path ?b)
          (resolveDir ?b # (case opt_includePaths ?opts of None \<Rightarrow> [] | Some ps \<Rightarrow> ps))"
    by (rule resolve_with_total [THEN conjunct2, THEN conjunct2])
  also have "\<dots> = Inr ''/p/src/node_modules/pkg/a.scss''"
    by (simp add: demo_world_def demo_args_def)
  finally show "resolve_with demo_platform (demo_world []) ?opts ModuleLookup ?b
      = Inr ''/p/src/node_modules/pkg/a.scss''" .
qed

end
