(* ===== verification/Renderer.thy ===== *)
theory Renderer
  imports World JS_Replace
begin

text \<open>
  \<^verbatim>\<open>renderSync\<close> of \<^verbatim>\<open>src/src/plugin.ts\<close> (lines 90 to 100): the call of the
  Sass compiler on one file, with the importer that rewrites a leading tilde
  of an import URL to the module directory.

  The rewriting is \<^verbatim>\<open>url.replace(/^~/, relativeBaseUrl)\<close>.  The second
  argument of \<^verbatim>\<open>String.prototype.replace\<close> is a replacement template: in it
  \<^verbatim>\<open>$$\<close> stands for a dollar sign, \<^verbatim>\<open>$&\<close> for the matched text and
  \<^verbatim>\<open>$'\<close> for the text after the match, and the text before the match, which
  a backtick after the dollar sign stands for, is empty when the
  match is at the start.  The expression has no groups, so a dollar sign
  before anything else stands for itself.  \<open>substitution\<close> expands a template
  for a match of \<^verbatim>\<open>~\<close> at the start of the URL.
\<close>

section \<open>Replacing the tilde\<close>

fun substitution :: "string \<Rightarrow> string \<Rightarrow> string" where
  "substitution after (c # d # t) =
    (if c = DOLLAR then
       (if d = DOLLAR then DOLLAR # substitution after t
        else if d = CHR ''&'' then CHR ''~'' # substitution after t
        else if d = BACKTICK then substitution after t
        else if d = CHR 0x27 then after @ substitution after t
        else c # substitution after (d # t))
     else c # substitution after (d # t))"
| "substitution after t = t"

definition replace_tilde :: "string \<Rightarrow> string \<Rightarrow> string" where
  "replace_tilde url template =
    (case url of
       [] \<Rightarrow> url
     | c # rest \<Rightarrow> if c = CHR ''~'' then substitution rest template @ rest else url)"

text \<open>The call as the source writes it: the expression \<^verbatim>\<open>/^~/\<close>, without groups.\<close>

definition tilde_regex :: js_regex where
  "tilde_regex = \<lparr>at_start = True, rx_body = Chr CHR ''~'', at_end = False\<rparr>"

definition tilde_call :: "string \<Rightarrow> string \<Rightarrow> string" where
  "tilde_call url relativeBaseUrl = js_replace tilde_regex (\<lambda>m. []) relativeBaseUrl url"

section \<open>The importer and the call of the compiler\<close>

definition tilde_importer :: "platform \<Rightarrow> string \<Rightarrow> sass_importer" where
  "tilde_importer pf moduleDirectory url prev =
    replace_tilde url (moduleRelativeUrl pf (posix_dirname pf prev) moduleDirectory)"

definition render_options :: "platform \<Rightarrow> options \<Rightarrow> string \<Rightarrow> string \<Rightarrow> render_request" where
  "render_options pf opts moduleDirectory file =
    \<lparr>rq_file = file,
     rq_importer =
       (case opt_importer opts of
          None \<Rightarrow> Some (tilde_importer pf moduleDirectory)
        | Some user \<Rightarrow> user),
     rq_options = opts\<rparr>"

definition renderSync :: "platform \<Rightarrow> world \<Rightarrow> options \<Rightarrow> string \<Rightarrow> string \<Rightarrow> string result" where
  "renderSync pf w opts moduleDirectory file =
    sass_renderSync w (render_options pf opts moduleDirectory file)"

section \<open>The request\<close>

lemma render_options_simps [simp]:
  "rq_file (render_options pf opts md f) = f"
  "rq_options (render_options pf opts md f) = opts"
  "opt_importer opts = None \<Longrightarrow>
    rq_importer (render_options pf opts md f) = Some (tilde_importer pf md)"
  "opt_importer opts = Some user \<Longrightarrow> rq_importer (render_options pf opts md f) = user"
  by (simp_all add: render_options_def)

section \<open>The replacement template\<close>

lemma substitution_plain: "DOLLAR \<notin> set t \<Longrightarrow> substitution after t = t"
  by (induction after t rule: substitution.induct) auto

lemma substitution_append_plain:
  "DOLLAR \<notin> set u \<Longrightarrow> substitution after (u @ t) = u @ substitution after t"
proof (induction u)
  case Nil
  show ?case by simp
next
  case (Cons c u)
  then show ?case
    by (cases "u @ t") auto
qed

lemma substitution_special [simp]:
  "substitution after (DOLLAR # DOLLAR # t) = DOLLAR # substitution after t"
  "substitution after (DOLLAR # CHR ''&'' # t) = CHR ''~'' # substitution after t"
  "substitution after (DOLLAR # BACKTICK # t) = substitution after t"
  "substitution after (DOLLAR # CHR 0x27 # t) = after @ substitution after t"
  by simp_all

lemma replace_tilde_simps [simp]:
  "replace_tilde [] template = []"
  "replace_tilde (CHR ''~'' # rest) template = substitution rest template @ rest"
  "c \<noteq> CHR ''~'' \<Longrightarrow> replace_tilde (c # rest) template = c # rest"
  by (simp_all add: replace_tilde_def)

section \<open>The rewriting as a replacement\<close>

lemma expand_no_groups: "expand ''~'' [] a [] t = substitution a t"
  by (induction a t rule: substitution.induct)
    (auto simp: capture_def split: option.splits list.splits)

lemma search_tilde_regex:
  "search tilde_regex [] url =
    (case url of
       [] \<Rightarrow> None
     | c # rest \<Rightarrow> if c = CHR ''~'' then Some ([], ''~'', rest) else None)"
proof (cases url)
  case Nil
  then show ?thesis by (simp add: match_here_def tilde_regex_def)
next
  case (Cons c rest)
  have "search tilde_regex [c] rest = None"
    by (rule search_anchored_later) (simp_all add: tilde_regex_def)
  with Cons show ?thesis
    by (simp add: match_here_def) (simp add: tilde_regex_def)
qed

text \<open>
  C18: The rewriting is the replacement the source calls.  The replacement of
  the first match of \<^verbatim>\<open>/^~/\<close> in the URL by the relative URL of the module
  directory as replacement template, computed by the matcher and the template
  expansion of the language, is \<open>replace_tilde\<close>: only a tilde that is the
  first character is replaced, and the template is expanded with the tilde as
  the match, nothing before it and the rest of the URL after it.
\<close>

theorem replace_tilde_is_replace: "tilde_call url template = replace_tilde url template"
  unfolding tilde_call_def js_replace_def search_tilde_regex
  by (cases url) (simp_all add: replace_tilde_def expand_no_groups)

text \<open>
  C9: The importer on a tilde URL.  When the relative URL of the module
  directory contains no dollar sign, the importer answers a URL that starts
  with a tilde by that relative URL followed by the rest of the URL, computed
  from the directory of the importing file, and answers every other URL
  unchanged.
\<close>

theorem tilde_importer_rewrites:
  assumes "DOLLAR \<notin> set (moduleRelativeUrl pf (posix_dirname pf prev) md)"
  shows "tilde_importer pf md (CHR ''~'' # rest) prev
      = moduleRelativeUrl pf (posix_dirname pf prev) md @ rest
    \<and> (\<not> startsWith url ''~'' \<longrightarrow> tilde_importer pf md url prev = url)"
  using assms
  by (auto simp: tilde_importer_def substitution_plain replace_tilde_def startsWith_Cons
      split: list.splits)

theorem tilde_importer_rewrites_witness:
  "tilde_importer demo_platform ''/project/node_modules'' ''~foo/bar.scss'' ''/project/src/a.scss''
    = ''/project/node_modules/foo/bar.scss''"
  using tilde_importer_rewrites [of demo_platform "''/project/src/a.scss''"
      "''/project/node_modules''" "''foo/bar.scss''"]
  by (simp add: demo_platform_def)

text \<open>
  C37: A dollar sign in the module directory is read as a pattern.  If the
  relative URL of the module directory is \<open>u\<close>, a dollar sign, an ampersand
  and \<open>v\<close>, with no dollar sign in \<open>u\<close> and \<open>v\<close>, the importer answers
  \<^verbatim>\<open>~rest\<close> by \<open>u\<close>, a tilde, \<open>v\<close> and the rest: the two characters are
  replaced by the matched tilde, and the answer is not the URL under the module
  directory.
\<close>

theorem tilde_importer_dollar:
  assumes "moduleRelativeUrl pf (posix_dirname pf prev) md = u @ ''$&'' @ v"
    and "DOLLAR \<notin> set u" and "DOLLAR \<notin> set v"
  shows "tilde_importer pf md (CHR ''~'' # rest) prev = u @ ''~'' @ v @ rest
    \<and> tilde_importer pf md (CHR ''~'' # rest) prev
      \<noteq> moduleRelativeUrl pf (posix_dirname pf prev) md @ rest"
  using assms
  by (simp add: tilde_importer_def substitution_append_plain substitution_plain)

theorem tilde_importer_dollar_witness:
  "tilde_importer demo_platform ''/p/$&x/node_modules'' ''~foo/bar.scss'' ''/p/src/a.scss''
    = ''/p/~x/node_modules/foo/bar.scss''"
  using tilde_importer_dollar [of demo_platform "''/p/src/a.scss''" "''/p/$&x/node_modules''"
      "''/p/''" "''x/node_modules/''" "''foo/bar.scss''"]
  by (simp add: demo_platform_def)

text \<open>
  C38: An importer among the options replaces the plugin's.  The options are
  spread after the plugin's importer, so when they have a property
  \<^verbatim>\<open>importer\<close> the compiler is called with that value, and the call does not
  depend on the module directory or on the path functions: no tilde is
  rewritten.  The file to compile is always the one asked for, and the options
  of the plugin are passed on as they are.
\<close>

theorem renderSync_user_importer:
  assumes "opt_importer opts = Some user"
  shows "renderSync pf w opts md file = sass_renderSync w \<lparr>rq_file = file, rq_importer = user, rq_options = opts\<rparr>
    \<and> renderSync pf w opts md file = renderSync pf' w opts md' file"
  using assms by (simp add: renderSync_def render_options_def)

text \<open>
  The closed instance: a compiler that answers with what the importer it is
  given makes of the URL \<^verbatim>\<open>~x\<close>, and options whose importer answers
  \<open>mine\<close>.  The plugin's own importer would answer \<^verbatim>\<open>/p/node_modules/x\<close>.
\<close>

definition echo_compiler :: "render_request \<Rightarrow> string result" where
  "echo_compiler rq =
    (case rq_importer rq of
       None \<Rightarrow> Inr ''no importer''
     | Some f \<Rightarrow> Inr (f ''~x'' (rq_file rq)))"

theorem renderSync_user_importer_witness:
  "renderSync demo_platform ((demo_world [])\<lparr>sass_renderSync := echo_compiler\<rparr>)
      (no_options\<lparr>opt_importer := Some (Some (\<lambda>url prev. ''mine''))\<rparr>) ''/p/node_modules'' ''/p/a.scss''
    = Inr ''mine''
   \<and> renderSync demo_platform ((demo_world [])\<lparr>sass_renderSync := echo_compiler\<rparr>)
      no_options ''/p/node_modules'' ''/p/a.scss''
    = Inr ''/p/node_modules/x''"
proof (intro conjI)
  from renderSync_user_importer [of "no_options\<lparr>opt_importer := Some (Some (\<lambda>url prev. ''mine''))\<rparr>"
      "Some (\<lambda>url prev. ''mine'')" demo_platform "(demo_world [])\<lparr>sass_renderSync := echo_compiler\<rparr>"
      "''/p/node_modules''" "''/p/a.scss''"]
  show "renderSync demo_platform ((demo_world [])\<lparr>sass_renderSync := echo_compiler\<rparr>)
      (no_options\<lparr>opt_importer := Some (Some (\<lambda>url prev. ''mine''))\<rparr>) ''/p/node_modules'' ''/p/a.scss''
    = Inr ''mine''"
    by (simp add: no_options_def echo_compiler_def)
  show "renderSync demo_platform ((demo_world [])\<lparr>sass_renderSync := echo_compiler\<rparr>)
      no_options ''/p/node_modules'' ''/p/a.scss''
    = Inr ''/p/node_modules/x''"
    by (simp add: renderSync_def render_options_def no_options_def echo_compiler_def
        tilde_importer_def demo_platform_def)
qed

end
