(* ===== verification/Transform.thy ===== *)
theory Transform
  imports Renderer Module_Builder
begin

text \<open>
  \<^verbatim>\<open>transform\<close> of \<^verbatim>\<open>src/src/plugin.ts\<close> (lines 152 to 162): the text of a
  resolved file, read as it is when the file name ends with \<^verbatim>\<open>.css\<close> and
  compiled by \<^verbatim>\<open>renderSync\<close> otherwise, packaged for the bundler according to
  the type the classifier gave.  A failure of the read or of the compiler
  is the failure of the transform.
\<close>

section \<open>The transform\<close>

definition source_text :: "platform \<Rightarrow> world \<Rightarrow> options \<Rightarrow> string \<Rightarrow> string \<Rightarrow> string result" where
  "source_text pf w opts moduleDirectory file =
    (if endsWith file ''.css'' then fs_readFileSync w file
     else renderSync pf w opts moduleDirectory file)"

definition wrap_contents :: "platform \<Rightarrow> string \<Rightarrow> string \<Rightarrow> string \<Rightarrow> load_result" where
  "wrap_contents pf file type css =
    (if type = ''css'' then \<lparr>contents = css, loader = Css, out_resolveDir = None\<rparr>
     else \<lparr>contents = makeModule css type, loader = Js,
           out_resolveDir = Some (path_dirname pf file)\<rparr>)"

definition transform ::
  "platform \<Rightarrow> world \<Rightarrow> options \<Rightarrow> string \<Rightarrow> string \<Rightarrow> string \<Rightarrow> load_result result" where
  "transform pf w opts moduleDirectory file type =
    and_then (source_text pf w opts moduleDirectory file)
      (\<lambda>css. Inr (wrap_contents pf file type css))"

section \<open>Branches\<close>

lemma source_text_css [simp]:
  "endsWith file ''.css'' \<Longrightarrow> source_text pf w opts md file = fs_readFileSync w file"
  by (simp add: source_text_def)

lemma source_text_sass [simp]:
  "\<not> endsWith file ''.css'' \<Longrightarrow> source_text pf w opts md file = renderSync pf w opts md file"
  by (simp add: source_text_def)

lemma wrap_contents_simps [simp]:
  "wrap_contents pf file ''css'' css = \<lparr>contents = css, loader = Css, out_resolveDir = None\<rparr>"
  "type \<noteq> ''css'' \<Longrightarrow> wrap_contents pf file type css =
     \<lparr>contents = makeModule css type, loader = Js, out_resolveDir = Some (path_dirname pf file)\<rparr>"
  by (simp_all add: wrap_contents_def)

lemma transform_eq_Inr_iff:
  "transform pf w opts md file type = Inr r \<longleftrightarrow>
    (\<exists>css. source_text pf w opts md file = Inr css \<and> r = wrap_contents pf file type css)"
  by (auto simp: transform_def and_then_eq_Inr_iff)

lemma transform_eq_Inl_iff:
  "transform pf w opts md file type = Inl err \<longleftrightarrow> source_text pf w opts md file = Inl err"
  by (simp add: transform_def and_then_eq_Inl_iff)

lemma transform_Inr:
  "source_text pf w opts md file = Inr css \<Longrightarrow>
    transform pf w opts md file type = Inr (wrap_contents pf file type css)"
  by (simp add: transform_def)

section \<open>Properties\<close>

text \<open>
  C7: What a successful transform returns, and when a transform succeeds.  A
  transform returns a result exactly when its source gives a text: the
  content of the file when its name ends with \<^verbatim>\<open>.css\<close>, the output of the
  compiler otherwise.  With the type \<open>css\<close> the result is that text with the
  loader \<open>css\<close> and no resolve directory.  With any other type it is the
  module \<open>makeModule\<close> builds from that text, with the loader \<open>js\<close> and the
  directory of the file as resolve directory.
\<close>

theorem transform_result:
  "transform pf w opts md file type = Inr r \<longleftrightarrow>
    (\<exists>css. (if endsWith file ''.css'' then fs_readFileSync w file
                 else renderSync pf w opts md file) = Inr css
      \<and> r = (if type = ''css'' then \<lparr>contents = css, loader = Css, out_resolveDir = None\<rparr>
             else \<lparr>contents = makeModule css type, loader = Js,
                   out_resolveDir = Some (path_dirname pf file)\<rparr>))"
proof -
  have "transform pf w opts md file type = Inr r \<longleftrightarrow>
      (\<exists>css. source_text pf w opts md file = Inr css \<and> r = wrap_contents pf file type css)"
    by (rule transform_eq_Inr_iff)
  then show ?thesis
    by (simp add: source_text_def wrap_contents_def)
qed

theorem transform_result_witness:
  "transform demo_platform
      (demo_world [(''/p/a.css'', 1, ''body{color:red}''), (''/p/b.scss'', 1, ''b{}'')]) no_options
      ''/p/node_modules'' ''/p/a.css'' ''css''
    = Inr \<lparr>contents = ''body{color:red}'', loader = Css, out_resolveDir = None\<rparr>
   \<and> transform demo_platform
      (demo_world [(''/p/a.css'', 1, ''body{color:red}''), (''/p/b.scss'', 1, ''b{}'')]) no_options
      ''/p/node_modules'' ''/p/b.scss'' ''style''
    = Inr \<lparr>contents = makeModule ''<b{}>'' ''style'', loader = Js, out_resolveDir = Some ''/p''\<rparr>"
proof (intro conjI)
  let ?w = "demo_world [(''/p/a.css'', 1, ''body{color:red}''), (''/p/b.scss'', 1, ''b{}'')]"
  have read: "fs_readFileSync ?w ''/p/a.css'' = Inr ''body{color:red}''"
    by (simp add: demo_world_def)
  have compiled: "renderSync demo_platform ?w no_options ''/p/node_modules'' ''/p/b.scss'' = Inr ''<b{}>''"
    by (simp add: renderSync_def demo_world_def)
  from read show "transform demo_platform ?w no_options ''/p/node_modules'' ''/p/a.css'' ''css''
      = Inr \<lparr>contents = ''body{color:red}'', loader = Css, out_resolveDir = None\<rparr>"
    by (simp add: transform_result endsWith_def)
  from compiled show "transform demo_platform ?w no_options ''/p/node_modules'' ''/p/b.scss'' ''style''
      = Inr \<lparr>contents = makeModule ''<b{}>'' ''style'', loader = Js, out_resolveDir = Some ''/p''\<rparr>"
    by (simp add: transform_result endsWith_def demo_platform_def dir_of_def)
qed

text \<open>
  A transform fails exactly when its source does, with the same error:
  the read of a file whose name ends with \<^verbatim>\<open>.css\<close>, the compilation of any
  other file.  Packaging adds no failure of its own.
\<close>

lemma transform_error:
  "transform pf w opts md file type = Inl err \<longleftrightarrow>
    (if endsWith file ''.css'' then fs_readFileSync w file = Inl err
     else renderSync pf w opts md file = Inl err)"
  by (simp add: transform_eq_Inl_iff source_text_def)

text \<open>
  C36: A file whose name ends with \<^verbatim>\<open>.css\<close> never reaches the compiler, and
  any other file is never read by the plugin itself: the transform of the
  first is the same in every world with the same \<^verbatim>\<open>readFileSync\<close>, whatever
  the compiler, the options and the module directory; the transform of the
  second is the same in every world with the same compiler.
\<close>

theorem transform_source_choice:
  "(endsWith f ''.css'' \<longrightarrow>
      transform pf w opts md f ty
        = transform pf (w\<lparr>sass_renderSync := compiler, fs_statSync := st\<rparr>) opts' md' f ty) \<and>
   (\<not> endsWith f ''.css'' \<longrightarrow>
      transform pf w opts md f ty
        = transform pf (w\<lparr>fs_readFileSync := reader, fs_statSync := st\<rparr>) opts md f ty)"
  by (simp add: transform_def renderSync_def)

theorem transform_source_choice_witness:
  "transform demo_platform (demo_world [(''/p/a.css'', 1, ''a{}'')]) no_options ''/m'' ''/p/a.css'' ''css''
    = transform demo_platform
        ((demo_world [(''/p/a.css'', 1, ''a{}'')])\<lparr>sass_renderSync := (\<lambda>_. Inl (CompileError [])),
           fs_statSync := (\<lambda>_. Inr 2)\<rparr>)
        (no_options\<lparr>opt_importer := Some None\<rparr>) ''/n'' ''/p/a.css'' ''css''"
  using transform_source_choice [where f = "''/p/a.css''" and pf = demo_platform
      and w = "demo_world [(''/p/a.css'', 1, ''a{}'')]" and opts = no_options and md = "''/m''"
      and ty = "''css''" and compiler = "\<lambda>_. Inl (CompileError [])" and st = "\<lambda>_. Inr 2"
      and opts' = "no_options\<lparr>opt_importer := Some None\<rparr>" and md' = "''/n''"]
  by (simp add: endsWith_def)

end
