(* ===== verification/Plugin.thy ===== *)
theory Plugin
  imports Resolver Transform Cache_Soundness
begin

text \<open>
  \<^verbatim>\<open>sassPlugin\<close> of \<^verbatim>\<open>src/src/plugin.ts\<close>: what the call establishes before it
  returns the plugin (the defaults of the base directory and of the options
  of picomatch, the compiler, the module directory or the fatal exit, the
  cache; lines 29 to 38, 84 to 88 and 102 to 106), and the load callback
  \<^verbatim>\<open>setup\<close> registers, assembled from the resolver, the classifier, the
  transform and the cache (lines 116 to 165).

  An instance is what the closures of the plugin share.  Its cache is the one
  piece of state: a load takes the instance and returns it with the cache as
  the load left it.  The file system and the compiler are the \<open>world\<close> of the
  moment of the call.
\<close>

section \<open>Construction\<close>

record plugin_instance =
  inst_options :: options
  inst_moduleDirectory :: string
  inst_cache :: "cache option"

definition effective_basedir :: "string \<Rightarrow> options \<Rightarrow> string" where
  "effective_basedir cwd opts =
    (case opt_basedir opts of
       None \<Rightarrow> cwd
     | Some b \<Rightarrow> if truthy b then b else cwd)"

definition effective_picomatch :: "options \<Rightarrow> pm_options" where
  "effective_picomatch opts =
    (case opt_picomatch opts of
       None \<Rightarrow> \<lparr>unixify = True\<rparr>
     | Some pm \<Rightarrow> pm)"

text \<open>The options after the two assignments at the head of \<^verbatim>\<open>sassPlugin\<close>.\<close>

definition with_defaults :: "string \<Rightarrow> options \<Rightarrow> options" where
  "with_defaults cwd opts =
    opts\<lparr>opt_basedir := Some (effective_basedir cwd opts),
         opt_picomatch := Some (effective_picomatch opts)\<rparr>"

definition initial_cache :: "cache_option \<Rightarrow> cache option" where
  "initial_cache co =
    (case co of
       CacheOff \<Rightarrow> None
     | CacheMap c \<Rightarrow> Some c
     | CacheOn \<Rightarrow> Some Map.empty)"

definition no_module_directory :: "string \<Rightarrow> error" where
  "no_module_directory basedir =
    ConfigurationError (''Unable to find '' @ [CHR 0x27] @ ''node_modules'' @ [CHR 0x27]
      @ '' from: '' @ basedir)"

definition sassPlugin :: "world \<Rightarrow> string \<Rightarrow> options \<Rightarrow> plugin_instance result" where
  "sassPlugin w cwd opts =
    (let options = with_defaults cwd opts;
         basedir = effective_basedir cwd opts in
     and_then (loadSass w options) (\<lambda>sass.
       case findModuleDirectory w options of
         None \<Rightarrow> Inl (no_module_directory basedir)
       | Some moduleDirectory \<Rightarrow>
           if \<not> truthy moduleDirectory then Inl (no_module_directory basedir)
           else Inr \<lparr>inst_options = options,
                     inst_moduleDirectory = moduleDirectory,
                     inst_cache = initial_cache (opt_cache opts)\<rparr>))"

text \<open>
  \<^verbatim>\<open>typeOf\<close> as the closures of an instance hold it (lines 42 to 73): the
  matchers are built from the option \<^verbatim>\<open>type\<close> with \<^verbatim>\<open>picomatch\<close> and the
  options of picomatch of the instance.  The source builds them once, at
  construction; \<^verbatim>\<open>picomatch\<close> is a function of its arguments, so building
  them at each call gives the same answers.
\<close>

abbreviation inst_typeOf :: "platform \<Rightarrow> plugin_instance \<Rightarrow> on_resolve_args \<Rightarrow> string" where
  "inst_typeOf pf inst \<equiv>
    typeOf pf (effective_picomatch (inst_options inst)) (opt_type (inst_options inst))"

section \<open>The load callback\<close>

text \<open>
  The collaborators of \<^verbatim>\<open>cached\<close> for one registration: the strategy given as
  its first argument, the \<^verbatim>\<open>transform\<close> of the instance, and the captured
  \<^verbatim>\<open>typeOf\<close> and \<^verbatim>\<open>statSync\<close>.
\<close>

definition load_env_of :: "platform \<Rightarrow> world \<Rightarrow> plugin_instance \<Rightarrow> strategy \<Rightarrow> load_env" where
  "load_env_of pf w inst h =
    \<lparr>env_resolve = resolve_with pf w (inst_options inst) h,
     env_typeOf = inst_typeOf pf inst,
     env_transform = transform pf w (inst_options inst) (inst_moduleDirectory inst),
     env_statSync = fs_statSync w\<rparr>"

definition onLoad ::
  "platform \<Rightarrow> world \<Rightarrow> plugin_instance \<Rightarrow> on_load_args
    \<Rightarrow> (load_result result \<times> plugin_instance) option" where
  "onLoad pf w inst la =
    (case select_hook la of
       None \<Rightarrow> None
     | Some h \<Rightarrow>
         (case load_with (load_env_of pf w inst h) (pluginData la) (inst_cache inst) of
            (r, c) \<Rightarrow> Some (r, inst\<lparr>inst_cache := c\<rparr>)))"

text \<open>
  One import as the bundler handles it: the resolve hook, and if it answers,
  the load hook on the request derived from the answer.  \<open>None\<close> is an import
  the plugin leaves to others.
\<close>

definition import_stylesheet ::
  "platform \<Rightarrow> world \<Rightarrow> plugin_instance \<Rightarrow> on_resolve_args
    \<Rightarrow> (load_result result \<times> plugin_instance) option" where
  "import_stylesheet pf w inst args =
    (case onResolve args of
       None \<Rightarrow> None
     | Some r \<Rightarrow> onLoad pf w inst (load_args_of r))"

text \<open>Successive imports, each in the world of its moment; the answers in order.\<close>

fun run_imports ::
  "platform \<Rightarrow> (world \<times> on_resolve_args) list \<Rightarrow> plugin_instance
    \<Rightarrow> load_result result option list \<times> plugin_instance" where
  "run_imports pf [] inst = ([], inst)"
| "run_imports pf ((w, a) # rest) inst =
    (case import_stylesheet pf w inst a of
       None \<Rightarrow> (case run_imports pf rest inst of (rs, i) \<Rightarrow> (None # rs, i))
     | Some (r, inst') \<Rightarrow> (case run_imports pf rest inst' of (rs, i) \<Rightarrow> (Some r # rs, i)))"

section \<open>The strategy of a stylesheet\<close>

definition strategy_of :: "string \<Rightarrow> strategy" where
  "strategy_of p = (if is_relative p then Relative else ModuleLookup)"

text \<open>
  The two registrations as one environment: each request is resolved by the
  strategy its specifier selects.
\<close>

definition plugin_env :: "platform \<Rightarrow> world \<Rightarrow> plugin_instance \<Rightarrow> load_env" where
  "plugin_env pf w inst =
    \<lparr>env_resolve = (\<lambda>a. resolve_with pf w (inst_options inst) (strategy_of (path a)) a),
     env_typeOf = inst_typeOf pf inst,
     env_transform = transform pf w (inst_options inst) (inst_moduleDirectory inst),
     env_statSync = fs_statSync w\<rparr>"

lemma select_hook_stylesheet:
  assumes "is_stylesheet p"
  shows "select_hook \<lparr>load_path = p, load_namespace = ''sass'', pluginData = a\<rparr> = Some (strategy_of p)"
proof -
  from assms have "p \<noteq> [] \<and> p \<noteq> ''.''"
    by (rule is_stylesheet_nonempty)
  then show ?thesis
    by (simp add: select_hook_def first_hook_load_hooks is_module_like_def is_relative_iff
        strategy_of_def split: list.splits)
qed

lemma import_stylesheet_unfold:
  "import_stylesheet pf w inst args =
    (if is_stylesheet (path args) then
       (case load_with (load_env_of pf w inst (strategy_of (path args))) args (inst_cache inst) of
          (r, c) \<Rightarrow> Some (r, inst\<lparr>inst_cache := c\<rparr>))
     else None)"
  by (simp add: import_stylesheet_def onResolve_def resolve_callback_def resolve_filter_iff onLoad_def load_args_of_def
      select_hook_stylesheet)

lemma load_env_of_simps [simp]:
  "env_resolve (load_env_of pf w inst h) = resolve_with pf w (inst_options inst) h"
  "env_typeOf (load_env_of pf w inst h) = inst_typeOf pf inst"
  "env_transform (load_env_of pf w inst h) = transform pf w (inst_options inst) (inst_moduleDirectory inst)"
  "env_statSync (load_env_of pf w inst h) = fs_statSync w"
  by (simp_all add: load_env_of_def)

lemma with_defaults_simps [simp]:
  "opt_basedir (with_defaults cwd opts) = Some (effective_basedir cwd opts)"
  "opt_picomatch (with_defaults cwd opts) = Some (effective_picomatch opts)"
  "opt_type (with_defaults cwd opts) = opt_type opts"
  "opt_includePaths (with_defaults cwd opts) = opt_includePaths opts"
  "opt_cache (with_defaults cwd opts) = opt_cache opts"
  "opt_importer (with_defaults cwd opts) = opt_importer opts"
  by (simp_all add: with_defaults_def)

lemma effective_with_defaults [simp]:
  "effective_picomatch (with_defaults cwd opts) = effective_picomatch opts"
  "effective_basedir cwd (with_defaults cwd opts) = effective_basedir cwd opts"
  by (simp_all add: effective_picomatch_def effective_basedir_def truthy_def
      split: option.split)

text \<open>
  The defaults are written into the options object, so a second construction
  from the same object finds them set: it keeps the base directory of the
  first, whatever the working directory is by then.
\<close>

lemma with_defaults_idem:
  assumes "truthy cwd"
  shows "with_defaults cwd' (with_defaults cwd opts) = with_defaults cwd opts"
proof -
  from assms have "truthy (effective_basedir cwd opts)"
    by (simp add: effective_basedir_def split: option.split)
  then have "effective_basedir cwd' (with_defaults cwd opts) = effective_basedir cwd opts"
    by (simp add: effective_basedir_def)
  then show ?thesis
    by (simp add: with_defaults_def effective_picomatch_def)
qed

lemma sassPlugin_Inr_iff:
  "sassPlugin w cwd opts = Inr inst \<longleftrightarrow>
    (\<exists>md. is_ok (loadSass w (with_defaults cwd opts)) \<and>
       findModuleDirectory w (with_defaults cwd opts) = Some md \<and> md \<noteq> [] \<and>
       inst = \<lparr>inst_options = with_defaults cwd opts,
               inst_moduleDirectory = md, inst_cache = initial_cache (opt_cache opts)\<rparr>)"
  by (cases "loadSass w (with_defaults cwd opts)")
    (auto simp: sassPlugin_def Let_def truthy_def split: option.splits)

section \<open>Properties of the construction\<close>

text \<open>
  C8: The plugin is not constructed in exactly two cases.  Either the compiler
  cannot be loaded with the options after the defaults, and the failure is
  the one of \<^verbatim>\<open>loadSass\<close>; or it can, no module directory is found from the
  base directory (the option \<^verbatim>\<open>basedir\<close> if it is a non-empty string, the
  working directory otherwise), and the failure is the configuration error
  that names that directory.
\<close>

theorem sassPlugin_fails_iff:
  "sassPlugin w cwd opts = Inl err \<longleftrightarrow>
    loadSass w (with_defaults cwd opts) = Inl err
    \<or> (is_ok (loadSass w (with_defaults cwd opts))
      \<and> findModuleDirectory w (with_defaults cwd opts) \<in> {None, Some []}
      \<and> err = no_module_directory (effective_basedir cwd opts))"
  by (cases "loadSass w (with_defaults cwd opts)")
    (auto simp: sassPlugin_def Let_def truthy_def split: option.splits)

section \<open>The load callback over the joint environment\<close>

lemma plugin_env_simps [simp]:
  "env_resolve (plugin_env pf w inst) a = resolve_with pf w (inst_options inst) (strategy_of (path a)) a"
  "env_typeOf (plugin_env pf w inst) = inst_typeOf pf inst"
  "env_transform (plugin_env pf w inst) = transform pf w (inst_options inst) (inst_moduleDirectory inst)"
  "env_statSync (plugin_env pf w inst) = fs_statSync w"
  "plugin_env pf w (inst\<lparr>inst_cache := c\<rparr>) = plugin_env pf w inst"
  by (simp_all add: plugin_env_def)

lemma cached_load_env_of:
  "cached (load_env_of pf w inst (strategy_of (path a))) a c = cached (plugin_env pf w inst) a c"
  by (rule cached_env_cong) simp_all

lemma uncached_load_env_of:
  "uncached (load_env_of pf w inst (strategy_of (path a))) a = uncached (plugin_env pf w inst) a"
  by (rule uncached_env_cong) simp_all

lemma import_stylesheet_cached:
  assumes "inst_cache inst = Some c"
  shows "import_stylesheet pf w inst a =
    (if is_stylesheet (path a) then
       Some (fst (cached (plugin_env pf w inst) a c),
             inst\<lparr>inst_cache := Some (snd (cached (plugin_env pf w inst) a c))\<rparr>)
     else None)"
  using assms
  by (simp add: import_stylesheet_unfold load_with_def cached_load_env_of split_beta)

lemma import_stylesheet_uncached:
  assumes "inst_cache inst = None"
  shows "import_stylesheet pf w inst a =
    (if is_stylesheet (path a) then Some (uncached (plugin_env pf w inst) a, inst) else None)"
  using assms
  by (simp add: import_stylesheet_unfold load_with_def uncached_load_env_of)

lemma plugin_env_key_determined:
  assumes "importer_free (opt_type (inst_options inst))"
  shows "key_determined (plugin_env pf w inst)"
  unfolding key_determined_def
proof (intro allI impI conjI)
  fix a b
  assume "key_of a = key_of b"
  then have k: "resolveDir a = resolveDir b" "path a = path b"
    by (simp_all add: key_of_eq_iff)
  then have "resolve_with pf w (inst_options inst) (strategy_of (path a)) a
      = resolve_with pf w (inst_options inst) (strategy_of (path a)) b"
    by (rule resolve_with_key_cong)
  with k show "env_resolve (plugin_env pf w inst) a = env_resolve (plugin_env pf w inst) b"
    by simp
  from assms k have "inst_typeOf pf inst a = inst_typeOf pf inst b"
    by (rule typeOf_key_cong)
  then show "env_typeOf (plugin_env pf w inst) a = env_typeOf (plugin_env pf w inst) b"
    by simp
qed

lemma run_imports_static:
  assumes "key_determined (plugin_env pf w inst)" and "statable (plugin_env pf w inst)"
    and "settled (plugin_env pf w inst) c"
  shows "fst (run_imports pf (map (Pair w) as) (inst\<lparr>inst_cache := Some c\<rparr>))
    = fst (run_imports pf (map (Pair w) as) (inst\<lparr>inst_cache := None\<rparr>))"
  using assms(3)
proof (induction as arbitrary: c)
  case Nil
  show ?case by simp
next
  case (Cons a as)
  from assms(1,2) Cons.prems
  have "fst (cached (plugin_env pf w inst) a c) = uncached (plugin_env pf w inst) a"
    and "settled (plugin_env pf w inst) (snd (cached (plugin_env pf w inst) a c))"
    by (rule settled_cached)+
  with Cons.IH [of "snd (cached (plugin_env pf w inst) a c)"] Cons.IH [of c] Cons.prems
  show ?case
    by (simp add: import_stylesheet_cached import_stylesheet_uncached split_beta)
qed

end
