(* ===== verification/Result_Typing.thy ===== *)
theory Result_Typing
  imports Plugin
begin

text \<open>
  The shape of what the plugin of \<^verbatim>\<open>src/src/plugin.ts\<close> hands to the bundler,
  as a typing of load results by the type of the stylesheet, and the
  invariant of the cache that goes with it.

  \<^verbatim>\<open>transform\<close> (lines 152 to 162) builds a result in one of two shapes: CSS
  text for the loader \<open>css\<close> with no resolve directory, or a script for the
  loader \<open>js\<close> with a resolve directory, whose text is a module of
  \<^verbatim>\<open>makeModule\<close>.  A module is recognised by reading it back: \<open>module_css\<close>
  removes the head and the tail of the type and undoes the escaping, and
  fails on any other text.  \<open>wf_result\<close> is the typing, \<open>typed_cache\<close> says that
  every entry holds a result of the type recorded with it, and the theorems
  show that every load keeps the invariant and answers with a well-formed
  result, on a hit as on a miss.
\<close>

section \<open>Reading a module back\<close>

text \<open>
  The inverse of the escaping: a backslash is followed by one of the three
  special characters, which is kept, and no special character occurs
  otherwise.
\<close>

fun unescape :: "string \<Rightarrow> string option" where
  "unescape [] = Some []"
| "unescape [c] = (if is_special c then None else Some [c])"
| "unescape (c # d # t) =
    (if c = BACKSLASH then (if is_special d then map_option ((#) d) (unescape t) else None)
     else if is_special c then None
     else map_option ((#) c) (unescape (d # t)))"

text \<open>The CSS text of a module of the given type, if the text is one.\<close>

definition module_css :: "string \<Rightarrow> string \<Rightarrow> string option" where
  "module_css type m =
    (let h = module_head type @ [BACKTICK, LF];
         t = BACKTICK # module_tail type
     in if startsWith m h \<and> endsWith m t \<and> length h + length t \<le> length m
        then unescape (take (length m - length h - length t) (drop (length h) m))
        else None)"

section \<open>Well-formed results\<close>

text \<open>
  A result of a type: for \<open>css\<close> the loader \<open>css\<close> and no resolve directory,
  for every other type the loader \<open>js\<close>, a resolve directory, and the text of
  a module of that type.  \<open>loadable\<close> is the same without the type: the head
  of a module is the one of \<open>style\<close> or the other one.
\<close>

definition wf_result :: "string \<Rightarrow> load_result \<Rightarrow> bool" where
  "wf_result type r \<longleftrightarrow>
    (if type = ''css'' then loader r = Css \<and> out_resolveDir r = None
     else loader r = Js \<and> out_resolveDir r \<noteq> None \<and> module_css type (contents r) \<noteq> None)"

definition loadable :: "load_result \<Rightarrow> bool" where
  "loadable r \<longleftrightarrow>
    (case loader r of
       Css \<Rightarrow> out_resolveDir r = None
     | Js \<Rightarrow> out_resolveDir r \<noteq> None
         \<and> (module_css ''style'' (contents r) \<noteq> None \<or> module_css [] (contents r) \<noteq> None))"

definition typed_entry :: "cached_result \<Rightarrow> bool" where
  "typed_entry e \<longleftrightarrow> wf_result (ctype e) (result e)"

definition typed_cache :: "cache \<Rightarrow> bool" where
  "typed_cache c \<longleftrightarrow> (\<forall>a e. entry_of c a = Some e \<longrightarrow> typed_entry e)"

definition typed_instance :: "plugin_instance \<Rightarrow> bool" where
  "typed_instance inst \<longleftrightarrow> (case inst_cache inst of None \<Rightarrow> True | Some c \<Rightarrow> typed_cache c)"

text \<open>The type by which a request is served: the one recorded, or the one of the request.\<close>

definition served_type :: "load_env \<Rightarrow> on_resolve_args \<Rightarrow> cache option \<Rightarrow> string" where
  "served_type env a co =
    (case co of
       None \<Rightarrow> env_typeOf env a
     | Some c \<Rightarrow> (case entry_of c a of None \<Rightarrow> env_typeOf env a | Some e \<Rightarrow> ctype e))"

section \<open>Escaping and its inverse\<close>

lemma unescape_Cons_plain:
  "\<not> is_special c \<Longrightarrow> unescape (c # s) = map_option ((#) c) (unescape s)"
  by (cases s) (auto simp: is_special_def)

lemma unescape_Cons_escaped:
  "is_special d \<Longrightarrow> unescape (BACKSLASH # d # s) = map_option ((#) d) (unescape s)"
  by simp

lemma unescape_escape [simp]: "unescape (escape s) = Some s"
  by (induction s) (simp_all add: unescape_Cons_plain unescape_Cons_escaped)

text \<open>Building a module and reading it back gives the CSS text, character by character.\<close>

lemma module_css_makeModule: "module_css type (makeModule css type) = Some css"
proof -
  let ?h = "module_head type @ [BACKTICK, LF]" and ?t = "BACKTICK # module_tail type"
  have m: "makeModule css type = ?h @ escape css @ ?t"
    by (simp add: makeModule_shape)
  have "startsWith (?h @ escape css @ ?t) ?h"
    by (rule startsWith_append)
  moreover have "endsWith ((?h @ escape css) @ ?t) ?t"
    by (rule endsWith_append)
  ultimately show ?thesis
    unfolding module_css_def m by (simp add: Let_def)
qed

lemma module_css_type_cong:
  "(type = ''style'') = (type' = ''style'') \<Longrightarrow> module_css type m = module_css type' m"
  by (simp add: module_css_def module_head_def module_tail_def)

section \<open>The transform produces well-formed results\<close>

lemma wf_result_wrap_contents: "wf_result type (wrap_contents pf file type css)"
  by (simp add: wf_result_def wrap_contents_def module_css_makeModule)

lemma transform_typed:
  "transform pf w opts md file type = Inr r \<Longrightarrow> wf_result type r"
  by (auto simp: transform_eq_Inr_iff wf_result_wrap_contents)

lemma wf_result_loadable: "wf_result type r \<Longrightarrow> loadable r"
proof (cases "type = ''css''")
  case True
  assume "wf_result type r"
  with True show ?thesis by (simp add: wf_result_def loadable_def)
next
  case False
  assume "wf_result type r"
  with False have r: "loader r = Js" "out_resolveDir r \<noteq> None" "module_css type (contents r) \<noteq> None"
    by (simp_all add: wf_result_def)
  have "module_css type (contents r) = module_css ''style'' (contents r)
      \<or> module_css type (contents r) = module_css [] (contents r)"
    by (cases "type = ''style''") (auto intro: module_css_type_cong)
  with r show ?thesis
    by (auto simp: loadable_def)
qed

section \<open>The cache keeps well-formed entries\<close>

lemma typed_cacheD: "typed_cache c \<Longrightarrow> entry_of c a = Some e \<Longrightarrow> typed_entry e"
  by (auto simp: typed_cache_def)

lemma typed_cache_empty [simp]: "typed_cache Map.empty"
  by (simp add: typed_cache_def)

lemma typed_cache_opened [simp]: "typed_cache (opened c a) = typed_cache c"
  by (simp add: typed_cache_def)

lemma typed_cache_store:
  "typed_cache c \<Longrightarrow> typed_entry e \<Longrightarrow> typed_cache (store c a e)"
  by (auto simp: typed_cache_def entry_of_store split: if_splits)

lemma cached_typed:
  assumes tr: "\<And>f t r. env_transform env f t = Inr r \<Longrightarrow> wf_result t r"
    and c: "typed_cache c"
  shows "typed_cache (snd (cached env a c))"
    and "fst (cached env a c) = Inr r \<Longrightarrow> wf_result (served_type env a (Some c)) r"
proof -
  have "typed_cache (snd (cached env a c))
    \<and> (fst (cached env a c) = Inr r \<longrightarrow> wf_result (served_type env a (Some c)) r)"
  proof (cases rule: cached_cases [where c = c and args = a and env = env])
    case (miss_ok f r' m)
    from miss_ok(3) have "wf_result (env_typeOf env a) r'"
      by (rule tr)
    with miss_ok c show ?thesis
      by (auto simp: served_type_def typed_entry_def intro: typed_cache_store)
  next
    case (fresh e now)
    with c typed_cacheD [OF c fresh(1)] show ?thesis
      by (auto simp: served_type_def typed_entry_def)
  next
    case (stale_ok e now r')
    from stale_ok(4) have "wf_result (ctype e) r'"
      by (rule tr)
    with stale_ok c typed_cacheD [OF c stale_ok(1)] show ?thesis
      by (auto simp: served_type_def typed_entry_def intro: typed_cache_store)
  qed (use c in simp_all)
  then show "typed_cache (snd (cached env a c))"
    and "fst (cached env a c) = Inr r \<Longrightarrow> wf_result (served_type env a (Some c)) r"
    by simp_all
qed

lemma uncached_typed:
  assumes tr: "\<And>f t r. env_transform env f t = Inr r \<Longrightarrow> wf_result t r"
    and "uncached env a = Inr r"
  shows "wf_result (served_type env a None) r"
  using assms(2) by (auto simp: uncached_def served_type_def split: sum.splits intro: tr)

section \<open>The plugin\<close>

lemma plugin_env_typed:
  "env_transform (plugin_env pf w inst) f t = Inr r \<Longrightarrow> wf_result t r"
  by (simp add: transform_typed)

lemma import_typed:
  assumes "typed_instance inst" and "import_stylesheet pf w inst a = Some (res, inst')"
  shows "typed_instance inst'"
    and "res = Inr r \<Longrightarrow> wf_result (served_type (plugin_env pf w inst) a (inst_cache inst)) r"
proof -
  have "typed_instance inst'
    \<and> (res = Inr r \<longrightarrow> wf_result (served_type (plugin_env pf w inst) a (inst_cache inst)) r)"
  proof (cases "inst_cache inst")
    case None
    with assms(2) have "res = uncached (plugin_env pf w inst) a" "inst_cache inst' = None"
      by (auto simp: import_stylesheet_uncached split: if_splits)
    with None show ?thesis
      by (auto simp: typed_instance_def intro: uncached_typed plugin_env_typed)
  next
    case (Some c)
    with assms(1) have c: "typed_cache c"
      by (simp add: typed_instance_def)
    from Some assms(2) have "res = fst (cached (plugin_env pf w inst) a c)"
      "inst_cache inst' = Some (snd (cached (plugin_env pf w inst) a c))"
      by (auto simp: import_stylesheet_cached split: if_splits)
    with Some cached_typed [where env = "plugin_env pf w inst" and c = c, OF plugin_env_typed c]
    show ?thesis
      by (auto simp: typed_instance_def)
  qed
  then show "typed_instance inst'"
    and "res = Inr r \<Longrightarrow> wf_result (served_type (plugin_env pf w inst) a (inst_cache inst)) r"
    by simp_all
qed

lemma run_imports_typed:
  assumes "typed_instance inst"
  shows "typed_instance (snd (run_imports pf xs inst))
    \<and> (\<forall>r. Some (Inr r) \<in> set (fst (run_imports pf xs inst)) \<longrightarrow> loadable r)"
  using assms
proof (induction xs arbitrary: inst)
  case Nil
  then show ?case by simp
next
  case (Cons x xs)
  obtain w a where x: "x = (w, a)"
    by (cases x)
  show ?case
  proof (cases "import_stylesheet pf w inst a")
    case None
    with Cons show ?thesis
      by (simp add: x split_beta)
  next
    case (Some p)
    obtain res inst' where p: "p = (res, inst')"
      by (cases p)
    from Cons.prems Some have t: "typed_instance inst'"
      and r: "\<And>r. res = Inr r \<Longrightarrow> loadable r"
      unfolding p by (auto dest: import_typed intro: wf_result_loadable)
    from Cons.IH [OF t] Some r show ?thesis
      by (auto simp: x p split_beta)
  qed
qed

text \<open>
  A new plugin is typed unless the user supplies the map of the cache, whose
  entries the plugin does not check.
\<close>

lemma sassPlugin_typed:
  assumes "sassPlugin w cwd opts = Inr inst" and "opt_cache opts \<in> {CacheOff, CacheOn}"
  shows "typed_instance inst"
  using assms by (auto simp: sassPlugin_Inr_iff typed_instance_def initial_cache_def)

text \<open>
  C15: Every answer of the plugin is well formed.  For a plugin constructed
  with the cache off or with a new map, after any sequence of imports in any
  worlds, every result returned is either CSS text for the loader \<open>css\<close>
  without a resolve directory, or, for the loader \<open>js\<close>, a module of
  \<^verbatim>\<open>makeModule\<close> with a resolve directory; and every entry of the cache holds a
  result of the type recorded with it.
\<close>

theorem plugin_answers_typed:
  assumes "sassPlugin w cwd opts = Inr inst"
    and "opt_cache opts \<in> {CacheOff, CacheOn}"
    and "Some (Inr r) \<in> set (fst (run_imports pf xs inst))"
  shows "loadable r \<and> typed_instance (snd (run_imports pf xs inst))"
proof -
  from assms(1,2) have "typed_instance inst"
    by (rule sassPlugin_typed)
  from run_imports_typed [OF this, of pf xs] assms(3) show ?thesis
    by simp
qed

text \<open>
  The closed instance: a plugin with a new cache and the type \<open>style\<close>, and
  the same Sass file imported twice.
\<close>

theorem plugin_answers_typed_witness:
  "loadable \<lparr>contents = makeModule ''<a{}>'' ''style'', loader = Js, out_resolveDir = Some ''/p/src/.''\<rparr>
    \<and> typed_instance (snd (run_imports demo_platform
        [(demo_world [(''/p/src/./a.scss'', 1, ''a{}'')], demo_args),
         (demo_world [(''/p/src/./a.scss'', 1, ''a{}'')], demo_args)]
        \<lparr>inst_options = with_defaults ''/p'' (no_options\<lparr>opt_type := TypeString ''style'', opt_cache := CacheOn\<rparr>),
         inst_moduleDirectory = ''/p/node_modules'', inst_cache = Some Map.empty\<rparr>))"
proof -
  let ?w = "demo_world [(''/p/src/./a.scss'', 1, ''a{}'')]"
  let ?opts = "no_options\<lparr>opt_type := TypeString ''style'', opt_cache := CacheOn\<rparr>"
  let ?inst = "\<lparr>inst_options = with_defaults ''/p'' ?opts,
    inst_moduleDirectory = ''/p/node_modules'', inst_cache = Some Map.empty\<rparr>"
  let ?r = "\<lparr>contents = makeModule ''<a{}>'' ''style'', loader = Js, out_resolveDir = Some ''/p/src/.''\<rparr>"
  have built: "sassPlugin ?w ''/p'' ?opts = Inr ?inst"
    by (simp add: sassPlugin_Inr_iff effective_basedir_def initial_cache_def no_options_def
        demo_world_def)
  have "transform demo_platform ?w (with_defaults ''/p'' ?opts) ''/p/node_modules''
      ''/p/src/./a.scss'' ''style'' = Inr ?r"
    by (simp add: transform_def source_text_def renderSync_def endsWith_def demo_world_def
        demo_platform_def dir_of_def)
  moreover have "fs_statSync ?w ''/p/src/./a.scss'' = Inr 1"
    by (simp add: demo_world_def)
  moreover have "path_resolve demo_platform (resolveDir demo_args) (path demo_args) = ''/p/src/./a.scss''"
    and "is_stylesheet (path demo_args)" and "is_relative (path demo_args)"
    by (simp_all add: demo_args_def demo_platform_def is_stylesheet_def is_relative_def
        endsWith_def startsWith_def)
  ultimately have "fst (cached (plugin_env demo_platform ?w ?inst) demo_args Map.empty) = Inr ?r"
    by (simp add: cached_unfold status_of_def strategy_of_def pathResolve_def)
  then have "Some (Inr ?r) \<in> set (fst (run_imports demo_platform [(?w, demo_args), (?w, demo_args)] ?inst))"
    by (simp add: import_stylesheet_cached split_beta is_stylesheet_def endsWith_def demo_args_def)
  from plugin_answers_typed [OF built _ this] show ?thesis
    by (simp add: no_options_def)
qed

end
