(* ===== verification/Spec2Isabelle.thy ===== *)
theory Spec2Isabelle
  imports Cache_Soundness Cache_Spec Cache_Growth Module_Builder Matcher Hooks Resolver Renderer Transform Plugin Result_Typing
begin

text \<open>
  \<^bold>\<open>Verification of the esbuild Sass plugin\<close> (\<^verbatim>\<open>src/src/plugin.ts\<close>).

  \<^bold>\<open>The program.\<close>  \<^verbatim>\<open>sassPlugin(options)\<close> returns an esbuild plugin.  Its resolve
  hook claims every import whose specifier ends with \<^verbatim>\<open>.scss\<close>, \<^verbatim>\<open>.sass\<close> or
  \<^verbatim>\<open>.css\<close> for the namespace \<^verbatim>\<open>sass\<close> and hands the request on as plugin
  data.  Two load hooks, told apart by the shape of the specifier, resolve the
  request to a file (\<^verbatim>\<open>pathResolve\<close> or \<^verbatim>\<open>requireResolve\<close>), classify it
  (\<^verbatim>\<open>typeOf\<close>, from the option \<^verbatim>\<open>type\<close>: a string or an ordered list of rules
  with glob patterns), and transform it (\<^verbatim>\<open>transform\<close>: read a \<^verbatim>\<open>.css\<close> file or
  compile with \<^verbatim>\<open>renderSync\<close>, then return the text or wrap it by
  \<^verbatim>\<open>makeModule\<close> in a script).  With the option \<^verbatim>\<open>cache\<close>, \<^verbatim>\<open>cached\<close> keeps
  the result of each request in a two-level map by resolve directory and
  specifier and reuses it while the modification time of the file has not grown.

  \<^bold>\<open>The theories\<close>, in the order of their dependencies.

  \<^item> \<open>Sass_Prelude\<close>: results with errors as values (\<open>error + 'a\<close>, \<open>Inl\<close> is a
    thrown exception), the string functions of JavaScript the source uses
    (\<^verbatim>\<open>startsWith\<close>, \<^verbatim>\<open>endsWith\<close>, truthiness), and two-level maps, the model
    of \<^verbatim>\<open>Map<string, Map<string, CachedResult>>\<close>.
  \<^item> \<open>Esbuild_Types\<close>: the records exchanged with the bundler.
  \<^item> \<open>Platform\<close> and \<open>World\<close>: what the plugin calls and does not define, as
    two records of functions: \<open>platform\<close> (\<^verbatim>\<open>path.resolve\<close>, \<^verbatim>\<open>dirname\<close>,
    \<^verbatim>\<open>picomatch\<close>, which takes its options, the glob and the string to test,
    \<^verbatim>\<open>moduleRelativeUrl\<close>) and \<open>world\<close> (\<^verbatim>\<open>statSync\<close>,
    \<^verbatim>\<open>readFileSync\<close>, \<^verbatim>\<open>require.resolve\<close>, \<^verbatim>\<open>findModuleDirectory\<close>,
    \<^verbatim>\<open>loadSass\<close>, \<^verbatim>\<open>sass.renderSync\<close>, the last called with the file, the
    importer and the options of the plugin).  Nothing is assumed of them: a
    theorem holds for every platform and world unless it states a hypothesis.
  \<^item> \<open>Cache\<close>: the two definitions of \<^verbatim>\<open>cached\<close> (lines 116 to 150) as
    \<open>cached\<close> and \<open>uncached\<close>.  The cache is passed in and returned; a throw
    is an \<open>Inl\<close> together with the cache as the throw leaves it.  The lemmas
    give the handler on each of its six paths (case rule \<open>cached_cases\<close>), what
    a failure leaves behind, the frame (other keys untouched), and what is stable
    in an entry over any sequence of loads.
  \<^item> \<open>Cache_Soundness\<close>: the caches reachable by loads in a history of
    environments (\<open>reaches\<close>), the invariant that every entry holds a result
    the transform gave at a modification time not after the recorded one
    (\<open>coherent\<close>), and from it: a fresh hit returns what the transform would
    return now, and in an environment that does not change a cache is
    invisible.  The history is constrained by \<open>evolves\<close> (modification times do
    not decrease, and a file whose time is unchanged transforms as before); the
    theorems that need it say so.  The same invariant gives the liveness
    property of the cache: with an entry present, the second of two loads in
    an environment that stays as it is returns the current result.
  \<^item> \<open>Cache_Spec\<close>: the contract \<open>getOrCompute\<close> as the specification words it,
    and the refinement: the handler leaves the cache the contract prescribes,
    and returns the value the contract prescribes except on a stale hit; the
    contract is idempotent and the handler is so except after a stale hit.
  \<^item> \<open>Cache_Growth\<close>: the keys of a cache (\<open>cache_keys\<close>), that a load adds
    the key of its request and no other, and the bound: a cache that started
    empty holds at most one entry for each distinct key among the requests.
  \<^item> \<open>JS_Regex\<close>: the fragment of regular expressions the filters and the two
    calls of \<^verbatim>\<open>replace\<close> are written in, an executable matcher by derivatives
    for \<^verbatim>\<open>test\<close>, and its equivalence with the meaning as a language.
  \<^item> \<open>JS_Replace\<close>: \<^verbatim>\<open>String.prototype.replace\<close> with an expression as the
    source calls it in lines 11, 18 and 94: a backtracking matcher in
    continuation-passing style (\<open>bt\<close>, sound and complete for the language),
    the leftmost match (\<open>search\<close>), the replacement patterns \<^verbatim>\<open>$$\<close>, \<^verbatim>\<open>$&\<close>,
    \<^verbatim>\<open>$'\<close>, \<^verbatim>\<open>$n\<close> and the one with a backtick (\<open>expand\<close>), one replacement
    (\<open>js_replace\<close>) and the loop of the flag \<^verbatim>\<open>g\<close> (\<open>replace_from\<close>, a
    \<^theory_text>\<open>function\<close> whose termination is proved by the length of the rest of the
    input, which an empty match shortens by one character; no expression of
    the source matches the empty string, so this case belongs to the
    semantics and not to the plugin).
  \<^item> \<open>Module_Builder\<close>: \<^verbatim>\<open>cssResultModule\<close>, \<^verbatim>\<open>styleModule\<close>, \<^verbatim>\<open>makeModule\<close>
    (lines 8 to 23) with the escaping of dollar signs, backticks and
    backslashes as \<open>escape\<close>, proved equal to the call of \<^verbatim>\<open>replace\<close> the
    source makes (\<open>escape_call\<close>), and a reader of JavaScript template literals
    (\<open>template_value\<close>) against which the escaping is proved to round-trip.
  \<^item> \<open>Matcher\<close>: the option \<^verbatim>\<open>type\<close>, the construction of \<^verbatim>\<open>matchers\<close> and
    \<^verbatim>\<open>typeOf\<close> (lines 40 to 73): first match wins, the fall-back, dead rules,
    and when the classification depends on the cache key only.  The
    definitions take the options of picomatch as a parameter, as every call
    of \<^verbatim>\<open>picomatch\<close> in lines 45, 46 and 57 passes \<^verbatim>\<open>options.picomatch\<close>.  The
    source builds the matchers once, at construction; the model applies
    \<open>matchers\<close> when \<open>typeOf\<close> runs, which gives the same answers because
    picomatch is a function of its arguments.
  \<^item> \<open>Hooks\<close>: the three filters (lines 112, 164, 165) as expressions of
    \<open>JS_Regex\<close>, the resolve hook (\<open>onResolve\<close>), and the choice among load
    hooks in the order of registration (\<open>select_hook\<close>); closed forms of the
    filters and the routing they imply.  The object \<^verbatim>\<open>sassPlugin\<close> returns
    (lines 108 to 110) is \<open>plugin_object\<close>, its \<^verbatim>\<open>setup\<close> the list
    \<open>registrations\<close>; the bundler's dispatch over a list of registrations
    (\<open>host_resolve\<close>, \<open>host_load\<close>) is proved to be the two hooks.
  \<^item> \<open>Options\<close>: the options object.
  \<^item> \<open>Resolver\<close>: \<^verbatim>\<open>pathResolve\<close> and \<^verbatim>\<open>requireResolve\<close> (lines 75 to 82).
  \<^item> \<open>Renderer\<close>: \<^verbatim>\<open>renderSync\<close> and its importer (lines 90 to 100), with the
    replacement patterns of \<^verbatim>\<open>String.prototype.replace\<close>; the rewriting of
    the tilde is proved equal to the call of \<^verbatim>\<open>replace\<close> the source makes
    (\<open>tilde_call\<close>).
  \<^item> \<open>Transform\<close>: \<^verbatim>\<open>transform\<close> (lines 152 to 162).
  \<^item> \<open>Plugin\<close>: the construction (\<open>sassPlugin\<close>: the defaults of the base
    directory and of the options of picomatch, \<^verbatim>\<open>loadSass\<close>, the module
    directory or the fatal exit, the cache) and the load callback assembled
    from the components (\<open>onLoad\<close>, \<open>import_stylesheet\<close>, \<open>run_imports\<close>).
    \<open>inst_typeOf\<close> is \<open>typeOf\<close> as the callbacks of an instance call it: over
    the option \<^verbatim>\<open>type\<close> and the options of picomatch of that instance.
  \<^item> \<open>Result_Typing\<close>: the typing of load results by the type of the
    stylesheet (\<open>wf_result\<close>; a module is recognised by reading it back,
    \<open>module_css\<close>), the invariant that every entry of the cache holds a result
    of its recorded type (\<open>typed_cache\<close>), its preservation by every import,
    and that every answer of a plugin that started without a user's map is
    well formed.
  \<^item> This theory: properties of whole imports and of sequences of imports: a
    plain CSS file and a Sass file packaged as a module, end to end; what a
    rebuild after an edit returns; that a cache does not show in a world that
    does not change, and the two conditions this needs (\<open>importer_free\<close>: no
    rule reads the importer; every file that can be read or compiled can be
    stat'ed); and what is lost when a rule does read the importer.  The last
    section joins the construction to the first import: what a plugin built
    from given options does with a stylesheet, in terms of those options.

  \<^bold>\<open>Conventions.\<close>  Names are those of the source where Isabelle allows.  A
  JavaScript string is a \<^typ>\<open>string\<close>, a number that holds a modification time
  a \<^typ>\<open>real\<close>, \<^verbatim>\<open>undefined\<close> is \<open>None\<close>.  All functions are total and
  executable, and no fuel is needed: the one loop of the source, over the
  matchers, is the structural recursion \<open>first_match\<close>, and the loop inside a
  global \<^verbatim>\<open>replace\<close> is a \<^theory_text>\<open>function\<close> with its termination proof.  Closed
  instances are evaluated over a small platform and world (\<open>demo_platform\<close>,
  \<open>demo_world\<close>) in which the compiler puts the text of a file in angle
  brackets.

  \<^bold>\<open>Not modelled.\<close>  The Sass compiler, picomatch, Node's \<^verbatim>\<open>path\<close>, \<^verbatim>\<open>fs\<close>
  and module resolution, and \<^verbatim>\<open>./utils\<close> (\<^verbatim>\<open>loadSass\<close>,
  \<^verbatim>\<open>findModuleDirectory\<close>, \<^verbatim>\<open>moduleRelativeUrl\<close>) are parameters, not
  definitions: their code is not among the sources, and the specification
  treats them as opaque.  Of the options, the properties the plugin reads or
  sets are fields of \<open>options\<close>; other properties, which only the compiler
  reads, are not.  The bundler is modelled only as far as it calls the
  hooks: one resolve, then one load on the answer, the callbacks tried in the
  order of registration; its own table of modules, in which one pair of
  namespace and path is loaded once in a build, is not.  The construction
  raises what \<^verbatim>\<open>loadSass\<close> raises or exits for want of a module directory; that
  picomatch could refuse a glob while the matchers are built (lines 42 to 64),
  or that options not of the type \<^verbatim>\<open>Index\<close> could make that code throw, is
  not modelled: the options are typed, and picomatch is a total predicate.
  Objects are values:
  that the handler returns the very object it keeps in the cache, which a
  caller could mutate, is not expressed, and of the assignment of the
  defaults to the caller's options object only what a second construction
  from the same object finds (\<open>with_defaults_idem\<close>).  Modification times are totally
  ordered (no \<^verbatim>\<open>NaN\<close>), and strings are sequences of characters, not of
  UTF-16 code units.  Of regular expressions only the constructs the five
  expressions of the source use are modelled (no repetition, no
  backreference, no flag but \<^verbatim>\<open>g\<close>).
\<close>

section \<open>One import, end to end\<close>

text \<open>
  An instance for the closed instances, as \<^verbatim>\<open>sassPlugin\<close> builds it in the
  working directory \<^verbatim>\<open>/p\<close> from options that set the type at most: module
  directory \<^verbatim>\<open>/p/node_modules\<close>, options of picomatch \<^verbatim>\<open>{unixify: true}\<close>.
\<close>

definition demo_inst :: "type_option \<Rightarrow> cache option \<Rightarrow> plugin_instance" where
  "demo_inst t c =
    \<lparr>inst_options = with_defaults ''/p'' (no_options\<lparr>opt_type := t\<rparr>),
     inst_moduleDirectory = ''/p/node_modules'', inst_cache = c\<rparr>"

lemma demo_inst_simps [simp]:
  "inst_cache (demo_inst t c) = c"
  "opt_type (inst_options (demo_inst t c)) = t"
  "opt_importer (inst_options (demo_inst t c)) = None"
  "opt_includePaths (inst_options (demo_inst t c)) = None"
  "effective_picomatch (inst_options (demo_inst t c)) = \<lparr>unixify = True\<rparr>"
  "inst_moduleDirectory (demo_inst t c) = ''/p/node_modules''"
  "(demo_inst t c)\<lparr>inst_cache := c'\<rparr> = demo_inst t c'"
  by (simp_all add: demo_inst_def no_options_def effective_picomatch_def)

lemma import_relative_uncached:
  assumes "inst_cache inst = None" and "is_stylesheet (path a)" and "is_relative (path a)"
  shows "import_stylesheet pf w inst a =
    Some (transform pf w (inst_options inst) (inst_moduleDirectory inst)
            (path_resolve pf (resolveDir a) (path a)) (inst_typeOf pf inst a),
          inst)"
  using assms
  by (simp add: import_stylesheet_uncached uncached_def strategy_of_def pathResolve_def)

lemma demo_args_path [simp]:
  "is_stylesheet (path demo_args)" "is_relative (path demo_args)"
  "path_resolve demo_platform (resolveDir demo_args) (path demo_args) = ''/p/src/./a.scss''"
  by (simp_all add: demo_args_def is_stylesheet_def is_relative_def endsWith_def startsWith_def
      demo_platform_def)

text \<open>
  A plain CSS file with the type \<open>css\<close>.  Without a cache, with the type
  option absent or the string \<open>css\<close>, an import whose specifier is relative
  and whose resolved file ends with \<^verbatim>\<open>.css\<close> is answered with the content
  of that file as it is read, the loader \<open>css\<close> and no resolve directory;
  the compiler is not involved and the instance is unchanged.
\<close>

theorem import_css_file:
  assumes "inst_cache inst = None"
    and "opt_type (inst_options inst) = TypeUndefined \<or> opt_type (inst_options inst) = TypeString ''css''"
    and "is_relative (path a)" and "is_stylesheet (path a)"
    and "endsWith (path_resolve pf (resolveDir a) (path a)) ''.css''"
    and "fs_readFileSync w (path_resolve pf (resolveDir a) (path a)) = Inr css"
  shows "import_stylesheet pf w inst a =
    Some (Inr \<lparr>contents = css, loader = Css, out_resolveDir = None\<rparr>, inst)"
proof -
  from assms(2) have "inst_typeOf pf inst a = ''css''"
    by auto
  with assms(5,6) have "transform pf w (inst_options inst) (inst_moduleDirectory inst)
      (path_resolve pf (resolveDir a) (path a)) (inst_typeOf pf inst a)
    = Inr \<lparr>contents = css, loader = Css, out_resolveDir = None\<rparr>"
    by (simp add: transform_Inr)
  with assms(1,3,4) show ?thesis
    by (simp add: import_relative_uncached)
qed

theorem import_css_file_witness:
  "import_stylesheet demo_platform (demo_world [(''/p/src/./a.css'', 1, ''body{color:red}'')])
     (demo_inst TypeUndefined None) (demo_args\<lparr>path := ''./a.css''\<rparr>)
   = Some (Inr \<lparr>contents = ''body{color:red}'', loader = Css, out_resolveDir = None\<rparr>,
           demo_inst TypeUndefined None)"
  by (rule import_css_file)
    (simp_all add: demo_args_def is_stylesheet_def is_relative_def endsWith_def startsWith_def
      demo_platform_def demo_world_def)

text \<open>
  C30: A Sass file packaged as a module.  Without a cache, with a type string
  other than \<open>css\<close>, an import whose specifier is relative and whose
  resolved file does not end with \<^verbatim>\<open>.css\<close> is answered, when the compiler
  returns \<open>css\<close>, with a script for the loader \<open>js\<close> whose resolve directory is
  the directory of the file.  The script is a fixed head, a template literal
  and a fixed tail (the style-injecting ones for the type \<open>style\<close>, the
  exported tagged template otherwise), and the value of the literal is a line
  feed followed by \<open>css\<close> with every carriage return or carriage return and
  line feed read as one line feed.
\<close>

theorem import_sass_module:
  assumes "inst_cache inst = None"
    and "opt_type (inst_options inst) = TypeString t" and "t \<noteq> ''css''"
    and "is_relative (path a)" and "is_stylesheet (path a)"
    and "\<not> endsWith (path_resolve pf (resolveDir a) (path a)) ''.css''"
    and "renderSync pf w (inst_options inst) (inst_moduleDirectory inst)
          (path_resolve pf (resolveDir a) (path a)) = Inr css"
  shows "\<exists>body. import_stylesheet pf w inst a =
      Some (Inr \<lparr>contents = module_head t @ BACKTICK # body, loader = Js,
                 out_resolveDir = Some (path_dirname pf (path_resolve pf (resolveDir a) (path a)))\<rparr>,
            inst)
    \<and> template_value body = Inr (LF # normalize_newlines css, module_tail t)"
proof (intro exI conjI)
  from assms(2,3,6,7)
  have "transform pf w (inst_options inst) (inst_moduleDirectory inst)
      (path_resolve pf (resolveDir a) (path a)) (inst_typeOf pf inst a)
    = Inr \<lparr>contents = module_head t @ BACKTICK # (LF # escape css @ BACKTICK # module_tail t),
           loader = Js,
           out_resolveDir = Some (path_dirname pf (path_resolve pf (resolveDir a) (path a)))\<rparr>"
    by (simp add: transform_Inr makeModule_shape)
  with assms(1,4,5) show "import_stylesheet pf w inst a =
      Some (Inr \<lparr>contents = module_head t @ BACKTICK # (LF # escape css @ BACKTICK # module_tail t),
                 loader = Js,
                 out_resolveDir = Some (path_dirname pf (path_resolve pf (resolveDir a) (path a)))\<rparr>,
            inst)"
    by (simp add: import_relative_uncached)
  have "template_value (LF # escape css @ BACKTICK # module_tail t)
      = tv_cons LF (template_value (escape css @ BACKTICK # module_tail t))"
    by (simp add: tv_plain)
  then show "template_value (LF # escape css @ BACKTICK # module_tail t)
      = Inr (LF # normalize_newlines css, module_tail t)"
    by (simp add: template_value_escape)
qed

theorem import_sass_module_witness:
  "\<exists>body. import_stylesheet demo_platform (demo_world [(''/p/src/./a.scss'', 1, ''body{color:red}'')])
       (demo_inst (TypeString ''style'') None) demo_args =
      Some (Inr \<lparr>contents = module_head ''style'' @ BACKTICK # body, loader = Js,
                 out_resolveDir = Some ''/p/src/.''\<rparr>,
            demo_inst (TypeString ''style'') None)
    \<and> template_value body = Inr (LF # ''<body{color:red}>'', module_tail ''style'')"
proof -
  have "renderSync demo_platform (demo_world [(''/p/src/./a.scss'', 1, ''body{color:red}'')])
      (inst_options (demo_inst (TypeString ''style'') None))
      (inst_moduleDirectory (demo_inst (TypeString ''style'') None))
      (path_resolve demo_platform (resolveDir demo_args) (path demo_args)) = Inr ''<body{color:red}>''"
    by (simp add: renderSync_def render_options_def demo_world_def)
  from import_sass_module [OF _ _ _ _ _ _ this, of "''style''"] show ?thesis
    by (simp add: endsWith_def startsWith_def is_stylesheet_def is_relative_def demo_platform_def
        dir_of_def demo_args_def)
qed

section \<open>Builds in sequence\<close>

text \<open>
  C11: Build, edit, build, build.  With a new cache, a relative stylesheet is
  imported in a world where it transforms to \<open>r1\<close>; the file is then changed
  (its modification time grows, it now transforms to \<open>r2\<close>) and the import is
  repeated twice with no further change.  The first import returns \<open>r1\<close>; the
  second, after the edit, returns \<open>r1\<close> again; only the third returns \<open>r2\<close>.
\<close>

theorem edit_then_rebuild:
  assumes "inst_cache inst = Some Map.empty"
    and "is_stylesheet (path a)" and "is_relative (path a)"
    and "transform pf w1 (inst_options inst) (inst_moduleDirectory inst)
          (path_resolve pf (resolveDir a) (path a)) (inst_typeOf pf inst a) = Inr r1"
    and "fs_statSync w1 (path_resolve pf (resolveDir a) (path a)) = Inr m1"
    and "fs_statSync w2 (path_resolve pf (resolveDir a) (path a)) = Inr m2" and "m1 < m2"
    and "transform pf w2 (inst_options inst) (inst_moduleDirectory inst)
          (path_resolve pf (resolveDir a) (path a)) (inst_typeOf pf inst a) = Inr r2"
  shows "fst (run_imports pf [(w1, a), (w2, a), (w2, a)] inst)
    = [Some (Inr r1), Some (Inr r1), Some (Inr r2)]"
proof -
  let ?f = "path_resolve pf (resolveDir a) (path a)"
  let ?t = "inst_typeOf pf inst a"
  let ?e = "\<lparr>filename = ?f, ctype = ?t, mtimeMs = m1, result = r1\<rparr>"
  have 1: "cached (plugin_env pf w1 inst) a Map.empty = (Inr r1, store Map.empty a ?e)"
    using assms(3,4,5)
    by (simp add: cached_unfold status_of_def strategy_of_def pathResolve_def)
  let ?e' = "\<lparr>filename = ?f, ctype = ?t, mtimeMs = m1, result = r2\<rparr>"
  have 2: "cached (plugin_env pf w2 inst) a (store Map.empty a ?e) = (Inr r1, store Map.empty a ?e')"
    using assms(6,7,8) by (simp add: cached_unfold status_of_after_store)
  have 3: "cached (plugin_env pf w2 inst) a (store Map.empty a ?e') = (Inr r2, store Map.empty a ?e')"
    using assms(6,7,8) by (simp add: cached_unfold status_of_after_store)
  from assms(1,2) show ?thesis
    by (simp add: import_stylesheet_cached 1 2 3)
qed

theorem edit_then_rebuild_witness:
  "fst (run_imports demo_platform
      [(demo_world [(''/p/src/./a.scss'', 1, ''a{}'')], demo_args),
       (demo_world [(''/p/src/./a.scss'', 2, ''b{}'')], demo_args),
       (demo_world [(''/p/src/./a.scss'', 2, ''b{}'')], demo_args)]
      (demo_inst TypeUndefined (Some Map.empty)))
    = [Some (Inr (css_result ''<a{}>'')), Some (Inr (css_result ''<a{}>'')),
       Some (Inr (css_result ''<b{}>''))]"
proof (rule edit_then_rebuild)
  show "fs_statSync (demo_world [(''/p/src/./a.scss'', 1, ''a{}'')])
      (path_resolve demo_platform (resolveDir demo_args) (path demo_args)) = Inr 1"
    and "fs_statSync (demo_world [(''/p/src/./a.scss'', 2, ''b{}'')])
      (path_resolve demo_platform (resolveDir demo_args) (path demo_args)) = Inr 2"
    by (simp_all add: demo_world_def)
  show "(1::real) < 2" by simp
qed (simp_all add: transform_def source_text_def renderSync_def endsWith_def demo_world_def
    css_result_def)

section \<open>The cache does not show\<close>

text \<open>
  C12: Transparency of the cache for the whole plugin.  In a world that does
  not change, if no rule of the type option has an importer pattern and every
  file the plugin can read or compile can be stat'ed, then a plugin with a new
  cache answers every sequence of imports exactly as the same plugin without
  a cache: the same results and the same errors, in the same order, and the
  same imports left to others.
\<close>

theorem plugin_cache_transparent:
  assumes "importer_free (opt_type (inst_options inst))"
    and "\<forall>f css. source_text pf w (inst_options inst) (inst_moduleDirectory inst) f = Inr css
          \<longrightarrow> is_ok (fs_statSync w f)"
  shows "fst (run_imports pf (map (Pair w) as) (inst\<lparr>inst_cache := Some Map.empty\<rparr>))
    = fst (run_imports pf (map (Pair w) as) (inst\<lparr>inst_cache := None\<rparr>))"
proof (rule run_imports_static)
  from assms(1) show "key_determined (plugin_env pf w inst)"
    by (rule plugin_env_key_determined)
  from assms(2) show "statable (plugin_env pf w inst)"
    unfolding statable_def by (auto simp: transform_eq_Inr_iff)
  show "settled (plugin_env pf w inst) Map.empty"
    by simp
qed

theorem plugin_cache_transparent_witness:
  "fst (run_imports demo_platform
      (map (Pair (demo_world [(''/p/src/./a.scss'', 1, ''a{}'')]))
         [demo_args, other_args, demo_args, demo_args\<lparr>path := ''x.ts''\<rparr>])
      ((demo_inst TypeUndefined None)\<lparr>inst_cache := Some Map.empty\<rparr>))
    = [Some (Inr (css_result ''<a{}>'')), Some (Inl (CompileError ''/p/src/./b.scss'')),
       Some (Inr (css_result ''<a{}>'')), None]"
proof -
  have "\<forall>f css. source_text demo_platform (demo_world [(''/p/src/./a.scss'', 1, ''a{}'')])
      (inst_options (demo_inst TypeUndefined None)) (inst_moduleDirectory (demo_inst TypeUndefined None)) f
        = Inr css
      \<longrightarrow> is_ok (fs_statSync (demo_world [(''/p/src/./a.scss'', 1, ''a{}'')]) f)"
    by (simp add: source_text_def renderSync_def demo_world_def)
  from plugin_cache_transparent [OF _ this,
      of "[demo_args, other_args, demo_args, demo_args\<lparr>path := ''x.ts''\<rparr>]"]
  show ?thesis
    by (simp add: importer_free_def import_stylesheet_uncached uncached_def strategy_of_def
        pathResolve_def transform_def source_text_def renderSync_def css_result_def
        is_stylesheet_def is_relative_def endsWith_def startsWith_def
        demo_args_def other_args_def demo_platform_def demo_world_def)
qed

section \<open>The cache key and the importer\<close>

text \<open>
  C13: A rule on the importer is lost on a hit.  Let the type option be the one
  rule that gives the type \<open>ty\<close> to the imports of importers matching a
  glob, and let two requests for the same relative specifier come from the same
  directory, the first from an importer that does not match and the second
  from one that does.  Without a cache the first is packaged as \<open>css\<close> and
  the second as \<open>ty\<close>.  With a cache the second gets the result of the
  first.
\<close>

theorem importer_rule_lost_on_hit:
  assumes "opt_type (inst_options inst) = TypeRules [(ty, PairPattern g0 None)]"
    and "is_stylesheet (path a)" and "is_relative (path a)"
    and "resolveDir b = resolveDir a" and "path b = path a"
    and "\<not> importer_matches pf (effective_picomatch (inst_options inst)) g0 a"
    and "importer_matches pf (effective_picomatch (inst_options inst)) g0 b"
    and "transform pf w (inst_options inst) (inst_moduleDirectory inst)
          (path_resolve pf (resolveDir a) (path a)) ''css'' = Inr r"
    and "fs_statSync w (path_resolve pf (resolveDir a) (path a)) = Inr m"
  shows "fst (run_imports pf [(w, a), (w, b)] (inst\<lparr>inst_cache := Some Map.empty\<rparr>))
      = [Some (Inr r), Some (Inr r)]
    \<and> fst (run_imports pf [(w, a), (w, b)] (inst\<lparr>inst_cache := None\<rparr>))
      = [Some (Inr r),
         Some (transform pf w (inst_options inst) (inst_moduleDirectory inst)
                 (path_resolve pf (resolveDir a) (path a)) ty)]"
proof -
  let ?f = "path_resolve pf (resolveDir a) (path a)"
  let ?e = "\<lparr>filename = ?f, ctype = ''css'', mtimeMs = m, result = r\<rparr>"
  from assms(1,6,7)
  have ta: "inst_typeOf pf inst a = ''css''"
    and tb: "inst_typeOf pf inst b = ty"
    by (simp_all add: typeOf_importer_rule)
  from assms(4,5) have key: "key_of b = key_of a"
    by (simp add: key_of_eq_iff)
  have 1: "cached (plugin_env pf w inst) a Map.empty = (Inr r, store Map.empty a ?e)"
    using assms(3,8,9) ta
    by (simp add: cached_unfold status_of_def strategy_of_def pathResolve_def)
  have "cached (plugin_env pf w inst) a (store Map.empty a ?e) = (Inr r, store Map.empty a ?e)"
    using assms(9) by (simp add: cached_unfold status_of_after_store)
  moreover have "cached (plugin_env pf w inst) a (store Map.empty a ?e)
      = cached (plugin_env pf w inst) b (store Map.empty a ?e)"
    using key [symmetric] by (rule cached_hit_key_cong) simp
  ultimately
  have 2: "cached (plugin_env pf w inst) b (store Map.empty a ?e) = (Inr r, store Map.empty a ?e)"
    by simp
  from assms(2,5) have with_cache:
    "fst (run_imports pf [(w, a), (w, b)] (inst\<lparr>inst_cache := Some Map.empty\<rparr>))
      = [Some (Inr r), Some (Inr r)]"
    by (simp add: import_stylesheet_cached 1 2)
  from assms(2,3,4,5,8) ta tb have without:
    "fst (run_imports pf [(w, a), (w, b)] (inst\<lparr>inst_cache := None\<rparr>))
      = [Some (Inr r), Some (transform pf w (inst_options inst) (inst_moduleDirectory inst) ?f ty)]"
    by (simp add: import_stylesheet_uncached uncached_def strategy_of_def pathResolve_def)
  from with_cache without show ?thesis ..
qed

theorem importer_rule_lost_on_hit_witness:
  "fst (run_imports demo_platform
      [(demo_world [(''/p/src/./a.scss'', 1, ''a{}'')], demo_args),
       (demo_world [(''/p/src/./a.scss'', 1, ''a{}'')], demo_args\<lparr>importer := ''/p/src/widget.ts''\<rparr>)]
      ((demo_inst (TypeRules [(''style'', PairPattern (Some ''widget.ts'') None)]) None)
         \<lparr>inst_cache := Some Map.empty\<rparr>))
    = [Some (Inr (css_result ''<a{}>'')), Some (Inr (css_result ''<a{}>''))]"
proof -
  let ?inst = "demo_inst (TypeRules [(''style'', PairPattern (Some ''widget.ts'') None)]) None"
  have "\<not> importer_matches demo_platform (effective_picomatch (inst_options ?inst))
      (Some ''widget.ts'') demo_args"
    and "importer_matches demo_platform (effective_picomatch (inst_options ?inst))
      (Some ''widget.ts'') (demo_args\<lparr>importer := ''/p/src/widget.ts''\<rparr>)"
    by (simp_all add: importer_matches_def js_string_def demo_platform_def demo_picomatch_def
        literal_glob_def demo_args_def startsWith_def endsWith_def)
  from importer_rule_lost_on_hit [OF _ _ _ _ _ this, of
      "''style''" "demo_world [(''/p/src/./a.scss'', 1, ''a{}'')]" "css_result ''<a{}>''" 1]
  show ?thesis
    by (simp add: transform_def source_text_def renderSync_def endsWith_def demo_world_def
        css_result_def)
qed

section \<open>From the construction to the first import\<close>

text \<open>
  C39: What the construction fixes for the imports.  If \<^verbatim>\<open>sassPlugin\<close> returns
  a plugin, a module directory was found from the options with their
  defaults, in the world of the construction, and an import of a stylesheet
  in any later world is answered as follows.  The file is resolved with the
  include paths of the options; it is classified by the rules of the options
  with picomatch under the options of picomatch given, or under
  \<^verbatim>\<open>{unixify: true}\<close> when none are given; it is transformed with the options
  after the defaults and with the module directory of the construction,
  whatever the later world would find.  With a falsy option \<^verbatim>\<open>cache\<close> the
  answer is computed anew and the plugin keeps nothing; with a map the
  entries of that map are consulted and the map is updated; with any other
  truthy value the plugin starts from an empty map.
\<close>

theorem first_import_after_construction:
  assumes "sassPlugin w0 cwd opts = Inr inst" and "is_stylesheet (path a)"
  shows "\<exists>md. findModuleDirectory w0 (with_defaults cwd opts) = Some md \<and>
    import_stylesheet pf w inst a =
      (let env = \<lparr>env_resolve = resolve_with pf w (with_defaults cwd opts) (strategy_of (path a)),
                  env_typeOf = typeOf pf
                    (case opt_picomatch opts of None \<Rightarrow> \<lparr>unixify = True\<rparr> | Some pm \<Rightarrow> pm)
                    (opt_type opts),
                  env_transform = transform pf w (with_defaults cwd opts) md,
                  env_statSync = fs_statSync w\<rparr>
       in case opt_cache opts of
            CacheOff \<Rightarrow> Some (uncached env a, inst)
          | CacheOn \<Rightarrow>
              (case cached env a Map.empty of (r, c) \<Rightarrow> Some (r, inst\<lparr>inst_cache := Some c\<rparr>))
          | CacheMap c0 \<Rightarrow>
              (case cached env a c0 of (r, c) \<Rightarrow> Some (r, inst\<lparr>inst_cache := Some c\<rparr>)))"
proof -
  from assms(1) obtain md where md: "findModuleDirectory w0 (with_defaults cwd opts) = Some md"
    and inst: "inst = \<lparr>inst_options = with_defaults cwd opts, inst_moduleDirectory = md,
      inst_cache = initial_cache (opt_cache opts)\<rparr>"
    by (auto simp: sassPlugin_Inr_iff)
  have env: "load_env_of pf w inst (strategy_of (path a)) =
      \<lparr>env_resolve = resolve_with pf w (with_defaults cwd opts) (strategy_of (path a)),
       env_typeOf = typeOf pf
         (case opt_picomatch opts of None \<Rightarrow> \<lparr>unixify = True\<rparr> | Some pm \<Rightarrow> pm) (opt_type opts),
       env_transform = transform pf w (with_defaults cwd opts) md,
       env_statSync = fs_statSync w\<rparr>"
    by (simp add: load_env_of_def inst effective_picomatch_def)
  from inst have "inst_cache inst = initial_cache (opt_cache opts)"
    by simp
  with assms(2) have "import_stylesheet pf w inst a =
      (case load_with (load_env_of pf w inst (strategy_of (path a))) a (initial_cache (opt_cache opts)) of
         (r, c) \<Rightarrow> Some (r, inst\<lparr>inst_cache := c\<rparr>))"
    by (simp add: import_stylesheet_unfold)
  also have "\<dots> =
      (let env = load_env_of pf w inst (strategy_of (path a))
       in case opt_cache opts of
            CacheOff \<Rightarrow> Some (uncached env a, inst)
          | CacheOn \<Rightarrow>
              (case cached env a Map.empty of (r, c) \<Rightarrow> Some (r, inst\<lparr>inst_cache := Some c\<rparr>))
          | CacheMap c0 \<Rightarrow>
              (case cached env a c0 of (r, c) \<Rightarrow> Some (r, inst\<lparr>inst_cache := Some c\<rparr>)))"
    by (simp add: load_with_def initial_cache_def inst split: cache_option.split prod.split)
  finally show ?thesis
    unfolding env using md by simp
qed

text \<open>
  The closed instance: options with one rule on the importer and nothing else,
  and an import from a file whose path is written with backslashes.  The
  rule applies because the options of picomatch default to \<^verbatim>\<open>{unixify: true}\<close>.
\<close>

lemma sassPlugin_demo:
  "sassPlugin (demo_world files) ''/p'' (no_options\<lparr>opt_type := t\<rparr>) = Inr (demo_inst t None)"
  by (simp add: sassPlugin_Inr_iff demo_inst_def initial_cache_def no_options_def demo_world_def
      effective_basedir_def)

theorem first_import_after_construction_witness:
  "import_stylesheet demo_platform (demo_world [(''/p/src/./a.scss'', 1, ''a{}'')])
      (demo_inst (TypeRules [(''style'', PairPattern (Some ''widget.ts'') None)]) None)
      (demo_args\<lparr>importer := ''C:'' @ [BACKSLASH] @ ''p'' @ [BACKSLASH] @ ''widget.ts''\<rparr>)
    = Some (Inr \<lparr>contents = makeModule ''<a{}>'' ''style'', loader = Js,
                   out_resolveDir = Some ''/p/src/.''\<rparr>,
            demo_inst (TypeRules [(''style'', PairPattern (Some ''widget.ts'') None)]) None)"
proof -
  let ?w = "demo_world [(''/p/src/./a.scss'', 1, ''a{}'')]"
  let ?a = "demo_args\<lparr>importer := ''C:'' @ [BACKSLASH] @ ''p'' @ [BACKSLASH] @ ''widget.ts''\<rparr>"
  have stylesheet: "is_stylesheet (path ?a)"
    by simp
  have matches: "importer_matches demo_platform \<lparr>unixify = True\<rparr> (Some ''widget.ts'') ?a"
    by (simp add: importer_matches_def js_string_def demo_platform_def demo_picomatch_def
        literal_glob_def startsWith_def endsWith_def)
  have compiled: "transform demo_platform ?w
      (with_defaults ''/p'' (no_options\<lparr>opt_type := TypeRules [(''style'', PairPattern (Some ''widget.ts'') None)]\<rparr>))
      ''/p/node_modules'' ''/p/src/./a.scss'' ''style''
    = Inr \<lparr>contents = makeModule ''<a{}>'' ''style'', loader = Js, out_resolveDir = Some ''/p/src/.''\<rparr>"
    by (simp add: transform_def source_text_def renderSync_def endsWith_def demo_world_def
        demo_platform_def dir_of_def no_options_def)
  have built: "sassPlugin ?w ''/p''
      (no_options\<lparr>opt_type := TypeRules [(''style'', PairPattern (Some ''widget.ts'') None)]\<rparr>)
    = Inr (demo_inst (TypeRules [(''style'', PairPattern (Some ''widget.ts'') None)]) None)"
    by (rule sassPlugin_demo)
  have resolved: "path_resolve demo_platform (resolveDir ?a) (path ?a) = ''/p/src/./a.scss''"
    and relative: "is_relative (path ?a)"
    by simp_all
  from first_import_after_construction [OF built stylesheet, of demo_platform ?w]
  obtain md where found: "findModuleDirectory ?w
      (with_defaults ''/p'' (no_options\<lparr>opt_type := TypeRules [(''style'', PairPattern (Some ''widget.ts'') None)]\<rparr>))
      = Some md"
    and answer: "import_stylesheet demo_platform ?w
        (demo_inst (TypeRules [(''style'', PairPattern (Some ''widget.ts'') None)]) None) ?a
      = Some (uncached
          \<lparr>env_resolve = resolve_with demo_platform ?w
             (with_defaults ''/p'' (no_options\<lparr>opt_type := TypeRules [(''style'', PairPattern (Some ''widget.ts'') None)]\<rparr>))
             (strategy_of (path ?a)),
           env_typeOf = typeOf demo_platform \<lparr>unixify = True\<rparr>
             (TypeRules [(''style'', PairPattern (Some ''widget.ts'') None)]),
           env_transform = transform demo_platform ?w
             (with_defaults ''/p'' (no_options\<lparr>opt_type := TypeRules [(''style'', PairPattern (Some ''widget.ts'') None)]\<rparr>))
             md,
           env_statSync = fs_statSync ?w\<rparr> ?a,
          demo_inst (TypeRules [(''style'', PairPattern (Some ''widget.ts'') None)]) None)"
    by (auto simp: no_options_def)
  from found have "md = ''/p/node_modules''"
    by (auto simp: demo_world_def effective_basedir_def no_options_def)
  with answer matches compiled resolved relative show ?thesis
    by (simp add: uncached_def strategy_of_def pathResolve_def typeOf_rules)
qed

end
